theory Spec2Isabelle
  imports Main "HOL-Library.Word" "HOL-Library.Char_ord" "HOL-Library.List_Lexorder"
begin

section \<open>Go standard library functions used by the transformers\<close>

text \<open>
  \<^verbatim>\<open>strings.Split(s, sep)\<close> for a one-byte separator: the pieces of \<open>s\<close> between the
  occurrences of \<open>sep\<close>; there is always one piece more than there are separators.
\<close>

fun Split :: "string \<Rightarrow> char \<Rightarrow> string list" where
  "Split [] sep = [[]]"
| "Split (x # xs) sep =
     (if x = sep then [] # Split xs sep
      else (case Split xs sep of [] \<Rightarrow> [[x]] | y # ys \<Rightarrow> (x # y) # ys))"

text \<open>\<^verbatim>\<open>strconv.Itoa\<close>: the decimal text of an integer.\<close>

fun Itoa_nat :: "nat \<Rightarrow> string" where
  "Itoa_nat n =
     (if n < 10 then [''0123456789'' ! n]
      else Itoa_nat (n div 10) @ [''0123456789'' ! (n mod 10)])"

declare Itoa_nat.simps [simp del]

definition Itoa :: "int \<Rightarrow> string" where
  "Itoa i = (if i < 0 then CHR ''-'' # Itoa_nat (nat (- i)) else Itoa_nat (nat i))"

text \<open>\<^verbatim>\<open>strings.Replace(s, old, new, 1)\<close>: the first occurrence of \<open>old\<close> replaced.\<close>

fun Replace1 :: "string \<Rightarrow> string \<Rightarrow> string \<Rightarrow> string" where
  "Replace1 [] old new = (if old = [] then new else [])"
| "Replace1 (x # xs) old new =
     (if take (length old) (x # xs) = old then new @ drop (length old) (x # xs)
      else x # Replace1 xs old new)"

text \<open>\<^verbatim>\<open>strings.TrimRight(s, "\n")\<close> and \<^verbatim>\<open>strings.Trim(s, "\n")\<close>.\<close>

definition TrimRight_nl :: "string \<Rightarrow> string" where
  "TrimRight_nl s = rev (dropWhile (\<lambda>c. c = CHR 0x0A) (rev s))"

definition Trim_nl :: "string \<Rightarrow> string" where
  "Trim_nl s = dropWhile (\<lambda>c. c = CHR 0x0A) (TrimRight_nl s)"

definition HasSuffix :: "string \<Rightarrow> string \<Rightarrow> bool" where
  "HasSuffix s suffix =
     (length suffix \<le> length s \<and> drop (length s - length suffix) s = suffix)"


section \<open>The service model (package kobject)\<close>

type_synonym labels = "string \<rightharpoonup> string"

record Ports =
  HostPort :: "32 word"
  ContainerPort :: "32 word"
  HostIP :: string
  Protocol :: string

record Vols =
  VolumeName :: string
  PVCName :: string
  Container :: string
  Mode :: string
  VFrom :: string
  Host :: string

text \<open>
  \<open>BuildArgs\<close> is a Go map from names to string pointers, kept as an association list;
  \<open>Replicas\<close> is a Go \<open>int\<close>.
\<close>

record ServiceConfig =
  ContainerName :: string
  Image :: string
  Restart :: string
  Replicas :: int
  Port :: "Ports list"
  Volumes :: "Vols list"
  Build :: string
  BuildArgs :: "(string \<times> string) list"
  Dockerfile :: string
  ExposeService :: string

text \<open>\<open>InputFiles\<close> is a slice that the code compares with \<open>nil\<close>: \<open>None\<close> is the nil slice.\<close>

record ConvertOptions =
  CreateD :: bool
  CreateRC :: bool
  CreateDS :: bool
  CreateDeploymentConfig :: bool
  BuildMode :: string
  BuildRepo :: string
  BuildBranch :: string
  InputFiles :: "string list option"
  DefaultReplicas :: int
  IsReplicaSetFlag :: bool
  IsDeploymentFlag :: bool
  IsDaemonSetFlag :: bool
  IsReplicationControllerFlag :: bool
  IsDeploymentConfigFlag :: bool
  EmptyVols :: bool
  InsecureRepository :: bool
  IsNamespaceFlag :: bool
  Namespace :: string

text \<open>
  \<open>KomposeObject.ServiceConfigs\<close> is a Go map from service names to service
  configurations, kept as an association list: the map it stands for is \<open>map_of\<close> of it.
\<close>

type_synonym KomposeObject = "(string \<times> ServiceConfig) list"

definition zero_ServiceConfig :: ServiceConfig where
  "zero_ServiceConfig =
     \<lparr>ContainerName = [], Image = [], Restart = [], Replicas = 0, Port = [], Volumes = [],
      Build = [], BuildArgs = [], Dockerfile = [], ExposeService = []\<rparr>"

text \<open>\<^verbatim>\<open>komposeObject.ServiceConfigs[name]\<close>: the zero value for a missing key.\<close>

definition ServiceConfigs :: "KomposeObject \<Rightarrow> string \<Rightarrow> ServiceConfig" where
  "ServiceConfigs komposeObject name =
     (case map_of komposeObject name of Some service \<Rightarrow> service | None \<Rightarrow> zero_ServiceConfig)"


section \<open>Errors\<close>

text \<open>
  \<open>External\<close> is an error value handed back by a collaborator (git, docker, the control
  plane); \<open>Wrapped\<close> is \<^verbatim>\<open>errors.Wrap\<close>; \<open>Fatal\<close> is \<^verbatim>\<open>log.Fatalf\<close>, which ends the
  process, so that the caller gets nothing back; \<open>Panic\<close> is a run-time panic.
\<close>

datatype error =
    ImageKeyRequired string
  | ControllerWithRestart
  | GitNotInstalled
  | External string
  | Wrapped string error
  | Fatal string error
  | Panic string


section \<open>Resource objects\<close>

record ObjectMeta =
  Name :: string
  Labels :: labels

record PodSpec =
  PodContainerName :: string
  PodContainerImage :: string

record IntOrString =
  IntVal :: "32 word"
  StrVal :: string

record ServicePort =
  PortName :: string
  PortProtocol :: string
  PortNumber :: "32 word"
  TargetPort :: IntOrString

record ServiceSpec =
  ServiceSelector :: labels
  ServicePorts :: "ServicePort list"
  ClusterIP :: string

record ReplicationControllerSpec =
  RCReplicas :: "32 word"
  RCTemplateLabels :: labels
  RCTemplateSpec :: PodSpec

record DeploymentSpec =
  DReplicas :: "32 word"
  DTemplateSpec :: PodSpec

record IngressSpec =
  IngressHost :: string
  BackendServiceName :: string
  BackendServicePort :: "32 word"

record PersistentVolumeClaimSpec =
  StorageRequest :: string
  AccessModes :: "string list"

record TagReference =
  FromKind :: string
  FromName :: string
  Insecure :: bool

record BuildConfigSpec =
  GitRef :: string
  GitURI :: string
  ContextDir :: string
  DockerfilePath :: string
  DockerEnv :: "(string \<times> string) list"
  OutputToKind :: string
  OutputToName :: string

record DeploymentConfigSpec =
  DCReplicas :: "32 word"
  DCSelector :: labels
  DCTemplateLabels :: labels
  DCTemplateSpec :: PodSpec
  TriggerContainerNames :: "string list"
  TriggerFromName :: string

record RouteSpec =
  RouteTargetPort :: "32 word"
  RouteToKind :: string
  RouteToName :: string
  RouteHost :: string

text \<open>
  The object graph is a slice of \<^verbatim>\<open>runtime.Object\<close>; the code tells the concrete types
  apart with type switches, so a graph element is a value of this datatype.
\<close>

datatype Object =
    ReplicationController ObjectMeta ReplicationControllerSpec
  | Service ObjectMeta ServiceSpec
  | Deployment ObjectMeta DeploymentSpec
  | DaemonSet ObjectMeta PodSpec
  | Ingress ObjectMeta IngressSpec
  | PersistentVolumeClaim ObjectMeta PersistentVolumeClaimSpec
  | Pod ObjectMeta PodSpec
  | ImageStream ObjectMeta "string \<rightharpoonup> TagReference"
  | BuildConfig ObjectMeta BuildConfigSpec
  | DeploymentConfig ObjectMeta DeploymentConfigSpec
  | Route ObjectMeta RouteSpec

datatype Kind =
    KReplicationController | KService | KDeployment | KDaemonSet | KIngress
  | KPersistentVolumeClaim | KPod | KImageStream | KBuildConfig | KDeploymentConfig | KRoute

fun KindOf :: "Object \<Rightarrow> Kind" where
  "KindOf (ReplicationController m s) = KReplicationController"
| "KindOf (Service m s) = KService"
| "KindOf (Deployment m s) = KDeployment"
| "KindOf (DaemonSet m s) = KDaemonSet"
| "KindOf (Ingress m s) = KIngress"
| "KindOf (PersistentVolumeClaim m s) = KPersistentVolumeClaim"
| "KindOf (Pod m s) = KPod"
| "KindOf (ImageStream m s) = KImageStream"
| "KindOf (BuildConfig m s) = KBuildConfig"
| "KindOf (DeploymentConfig m s) = KDeploymentConfig"
| "KindOf (Route m s) = KRoute"

text \<open>\<^verbatim>\<open>v.(meta.Object)\<close>: the metadata every object carries.\<close>

fun Meta :: "Object \<Rightarrow> ObjectMeta" where
  "Meta (ReplicationController m s) = m"
| "Meta (Service m s) = m"
| "Meta (Deployment m s) = m"
| "Meta (DaemonSet m s) = m"
| "Meta (Ingress m s) = m"
| "Meta (PersistentVolumeClaim m s) = m"
| "Meta (Pod m s) = m"
| "Meta (ImageStream m s) = m"
| "Meta (BuildConfig m s) = m"
| "Meta (DeploymentConfig m s) = m"
| "Meta (Route m s) = m"

definition GetName :: "Object \<Rightarrow> string" where
  "GetName v = Name (Meta v)"


section \<open>Collaborators outside the transformers\<close>

text \<open>
  What the transformers ask of the machine they run on: the directory of the compose
  files, the docker build and push, the git binary and the output of the git commands,
  and the process environment. Each field is the answer the collaborator gives.
\<close>

record World =
  GetComposeFileDir :: "string list option \<Rightarrow> error + string"
  BuildDockerImage :: "ServiceConfig \<Rightarrow> string \<Rightarrow> string \<Rightarrow> error option"
  PushDockerImage :: "ServiceConfig \<Rightarrow> string \<Rightarrow> error option"
  hasGitBinary :: bool
  git_ls_remote_get_url :: "string \<Rightarrow> error + string"
  git_rev_parse_abbrev_ref_HEAD :: "string \<Rightarrow> error + string"
  git_rev_parse_show_prefix :: "string \<Rightarrow> error + string"
  Getenv :: "string \<Rightarrow> string"

definition getGitCurrentRemoteURL :: "World \<Rightarrow> string \<Rightarrow> error + string" where
  "getGitCurrentRemoteURL w composeFileDir =
     (case git_ls_remote_get_url w composeFileDir of
        Inl err \<Rightarrow> Inl err
      | Inr out \<Rightarrow>
          (let url = TrimRight_nl out
           in if \<not> HasSuffix url ''.git'' then Inr (url @ ''.git'') else Inr url))"

definition getGitCurrentBranch :: "World \<Rightarrow> string \<Rightarrow> error + string" where
  "getGitCurrentBranch w composeFileDir =
     (case git_rev_parse_abbrev_ref_HEAD w composeFileDir of
        Inl err \<Rightarrow> Inl err
      | Inr out \<Rightarrow> Inr (TrimRight_nl out))"

definition getAbsBuildContext :: "World \<Rightarrow> string \<Rightarrow> error + string" where
  "getAbsBuildContext w context =
     (case git_rev_parse_show_prefix w context of
        Inl err \<Rightarrow> Inl err
      | Inr out \<Rightarrow> Inr (Trim_nl out))"


section \<open>Package transformer: labels, sorting of environment variables\<close>

text \<open>
  Modelled from the spec: \<^verbatim>\<open>transformer.Selector\<close> and \<^verbatim>\<open>transformer.ConfigLabels\<close>
  are not among the sources. "Every object that is a product of one service carries a
  single identifying label key mapped to that service's name"; the key is the one the
  converted fixture shows.
\<close>

definition Selector :: string where
  "Selector = ''io.kompose.service''"

definition ConfigLabels :: "string \<Rightarrow> labels" where
  "ConfigLabels name = [Selector \<mapsto> name]"

text \<open>
  Modelled from the spec: \<^verbatim>\<open>transformer.EnvSort\<close> is not among the sources. The list
  "is stable-sorted by name (ties broken by original relative order)".
\<close>

definition EnvSort :: "(string \<times> string) list \<Rightarrow> (string \<times> string) list" where
  "EnvSort envs = sort_key fst envs"


section \<open>Image tags\<close>

definition getImageTag :: "string \<Rightarrow> string" where
  "getImageTag img =
     (let i = Split img CHR ''/'';
          imageAndTag = (if length i \<ge> 2 then i ! (length i - 1) else img);
          p = Split imageAndTag CHR '':''
      in if length p = 2 then p ! 1 else ''latest'')"

text \<open>
  The tag as the specification words it: "the substring after the last colon" of the last
  slash-separated segment when that segment has exactly one colon, "latest" otherwise.
\<close>

definition last_segment :: "string \<Rightarrow> string" where
  "last_segment s = rev (takeWhile (\<lambda>c. c \<noteq> CHR ''/'') (rev s))"

definition after_last_colon :: "string \<Rightarrow> string" where
  "after_last_colon s = rev (takeWhile (\<lambda>c. c \<noteq> CHR '':'') (rev s))"

definition image_tag_spec :: "string \<Rightarrow> string" where
  "image_tag_spec img =
     (let seg = last_segment img
      in if count_list seg CHR '':'' = 1 then after_last_colon seg else ''latest'')"


section \<open>Object builders of the Kubernetes transformer\<close>

definition TIMEOUT :: nat where
  "TIMEOUT = 300"

definition PVCRequestSize :: string where
  "PVCRequestSize = ''100Mi''"

definition ProtocolTCP :: string where
  "ProtocolTCP = ''TCP''"

definition InitPodSpec :: "string \<Rightarrow> string \<Rightarrow> PodSpec" where
  "InitPodSpec name img = \<lparr>PodContainerName = name, PodContainerImage = img\<rparr>"

text \<open>\<^verbatim>\<open>int32(replicas)\<close> keeps the low 32 bits of the Go \<open>int\<close>.\<close>

definition InitRC :: "string \<Rightarrow> ServiceConfig \<Rightarrow> int \<Rightarrow> Object" where
  "InitRC name service replicas =
     ReplicationController \<lparr>Name = name, Labels = ConfigLabels name\<rparr>
       \<lparr>RCReplicas = word_of_int replicas, RCTemplateLabels = ConfigLabels name,
        RCTemplateSpec = InitPodSpec name (Image service)\<rparr>"

definition InitSvc :: "string \<Rightarrow> ServiceConfig \<Rightarrow> ObjectMeta \<times> ServiceSpec" where
  "InitSvc name service =
     (\<lparr>Name = name, Labels = ConfigLabels name\<rparr>,
      \<lparr>ServiceSelector = ConfigLabels name, ServicePorts = [], ClusterIP = []\<rparr>)"

definition InitD :: "string \<Rightarrow> ServiceConfig \<Rightarrow> int \<Rightarrow> Object" where
  "InitD name service replicas =
     Deployment \<lparr>Name = name, Labels = ConfigLabels name\<rparr>
       \<lparr>DReplicas = word_of_int replicas, DTemplateSpec = InitPodSpec name (Image service)\<rparr>"

definition InitDS :: "string \<Rightarrow> ServiceConfig \<Rightarrow> Object" where
  "InitDS name service =
     DaemonSet \<lparr>Name = name, Labels = ConfigLabels name\<rparr> (InitPodSpec name (Image service))"

definition initIngress :: "string \<Rightarrow> ServiceConfig \<Rightarrow> 32 word \<Rightarrow> Object" where
  "initIngress name service port =
     (let ingress = \<lparr>IngressHost = [], BackendServiceName = name, BackendServicePort = port\<rparr>
      in Ingress \<lparr>Name = name, Labels = ConfigLabels name\<rparr>
           (if ExposeService service \<noteq> ''true''
            then ingress\<lparr>IngressHost := ExposeService service\<rparr> else ingress))"

text \<open>
  \<^verbatim>\<open>resource.ParseQuantity\<close> is applied to the constant \<open>PVCRequestSize\<close> only, a
  well-formed quantity, so \<open>CreatePVC\<close> has no error to hand back; the quantity is kept as
  its text.
\<close>

definition CreatePVC :: "string \<Rightarrow> string \<Rightarrow> Object" where
  "CreatePVC name mode =
     PersistentVolumeClaim \<lparr>Name = name, Labels = ConfigLabels name\<rparr>
       \<lparr>StorageRequest = PVCRequestSize,
        AccessModes = (if mode = ''ro'' then [''ReadOnlyMany''] else [''ReadWriteOnce''])\<rparr>"

definition ServicePortOf :: "Ports \<Rightarrow> ServicePort" where
  "ServicePortOf port0 =
     (let port = (if HostPort port0 = 0 then port0\<lparr>HostPort := ContainerPort port0\<rparr> else port0);
          targetPort = \<lparr>IntVal = ContainerPort port, StrVal = Itoa (sint (ContainerPort port))\<rparr>
      in if Protocol port = ProtocolTCP
         then \<lparr>PortName = Itoa (sint (HostPort port)), PortProtocol = [],
               PortNumber = HostPort port, TargetPort = targetPort\<rparr>
         else \<lparr>PortName = Itoa (sint (HostPort port)), PortProtocol = Protocol port,
               PortNumber = HostPort port, TargetPort = targetPort\<rparr>)"

fun ConfigServicePorts_loop :: "ServicePort list \<Rightarrow> Ports list \<Rightarrow> ServicePort list" where
  "ConfigServicePorts_loop servicePorts [] = servicePorts"
| "ConfigServicePorts_loop servicePorts (port # ports) =
     ConfigServicePorts_loop (servicePorts @ [ServicePortOf port]) ports"

definition ConfigServicePorts :: "string \<Rightarrow> ServiceConfig \<Rightarrow> ServicePort list" where
  "ConfigServicePorts name service = ConfigServicePorts_loop [] (Port service)"

text \<open>
  \<open>ConfigVolumes\<close>: the volume mounts (name, read-only, mount path), the volumes (name and
  whether the source is an empty directory or a claim) and the claims to create.
\<close>

record VolumeMount =
  MountName :: string
  MountReadOnly :: bool
  MountPath :: string

datatype VolumeSource = EmptyDir string | ClaimSource string bool

definition ConfigEmptyVolumeSource :: "string \<Rightarrow> VolumeSource" where
  "ConfigEmptyVolumeSource key = (if key = ''tmpfs'' then EmptyDir ''Memory'' else EmptyDir [])"

definition ConfigPVCVolumeSource :: "string \<Rightarrow> bool \<Rightarrow> VolumeSource" where
  "ConfigPVCVolumeSource name readonly = ClaimSource name readonly"

fun ConfigVolumes_loop ::
  "bool \<Rightarrow> VolumeMount list \<times> (string \<times> VolumeSource) list \<times> Object list \<Rightarrow> Vols list
   \<Rightarrow> VolumeMount list \<times> (string \<times> VolumeSource) list \<times> Object list" where
  "ConfigVolumes_loop useEmptyVolumes acc [] = acc"
| "ConfigVolumes_loop useEmptyVolumes (volumeMounts, volumes, PVCs) (volume # rest) =
     (let readonly = (length (Mode volume) > 0 \<and> Mode volume = ''ro'');
          volumeName =
            (if VolumeName volume = []
             then (if useEmptyVolumes then Replace1 (PVCName volume) ''claim'' ''empty''
                   else PVCName volume)
             else VolumeName volume);
          volmount = \<lparr>MountName = volumeName, MountReadOnly = readonly,
                      MountPath = Container volume\<rparr>;
          volsource = (if useEmptyVolumes then ConfigEmptyVolumeSource ''volume''
                       else ConfigPVCVolumeSource volumeName readonly);
          PVCs' = (if \<not> useEmptyVolumes \<and> VFrom volume = []
                   then PVCs @ [CreatePVC volumeName (Mode volume)] else PVCs)
      in ConfigVolumes_loop useEmptyVolumes
           (volumeMounts @ [volmount], volumes @ [(volumeName, volsource)], PVCs') rest)"

definition ConfigVolumes ::
  "ConvertOptions \<Rightarrow> string \<Rightarrow> ServiceConfig
   \<Rightarrow> VolumeMount list \<times> (string \<times> VolumeSource) list \<times> Object list" where
  "ConfigVolumes opt name service =
     ConfigVolumes_loop (EmptyVols opt) ([], [], []) (Volumes service)"

definition CreateKubernetesObjects ::
  "string \<Rightarrow> ServiceConfig \<Rightarrow> ConvertOptions \<Rightarrow> Object list" where
  "CreateKubernetesObjects name service opt =
     (let replica = (if IsReplicaSetFlag opt \<or> Replicas service = 0 then DefaultReplicas opt
                     else Replicas service)
      in (if CreateD opt then [InitD name service replica] else [])
         @ (if CreateDS opt then [InitDS name service] else [])
         @ (if CreateRC opt then [InitRC name service replica] else []))"

definition InitPod :: "string \<Rightarrow> ServiceConfig \<Rightarrow> Object" where
  "InitPod name service =
     Pod \<lparr>Name = name, Labels = ConfigLabels name\<rparr> (InitPodSpec name (Image service))"


section \<open>Helpers of the Kubernetes transformer that are not among the sources\<close>

text \<open>
  Modelled from the spec: \<^verbatim>\<open>SortedKeys\<close> is not among the sources. "Iterate services
  in lexicographic name order"; the names are the keys of the map, each once.
\<close>

definition SortedKeys :: "KomposeObject \<Rightarrow> string list" where
  "SortedKeys komposeObject = sort (remdups (map fst komposeObject))"

text \<open>
  Modelled from the spec: \<^verbatim>\<open>PortsExist\<close> is not among the sources. "If the service
  declares at least one port".
\<close>

definition PortsExist :: "string \<Rightarrow> ServiceConfig \<Rightarrow> bool" where
  "PortsExist name service = (Port service \<noteq> [])"

text \<open>
  Modelled from the spec: \<^verbatim>\<open>CreateService\<close> is not among the sources. "An addressed
  exposure object is created (one port entry per declared port, naming the entry by the
  host port, defaulting host port to container port when unset, omitting the protocol
  field when it is the implicit default)": the object of \<open>InitSvc\<close> with the port entries
  of \<open>ConfigServicePorts\<close>.
\<close>

definition CreateService ::
  "string \<Rightarrow> ServiceConfig \<Rightarrow> Object list \<Rightarrow> ObjectMeta \<times> ServiceSpec" where
  "CreateService name service objects =
     (case InitSvc name service of
        (m, spec) \<Rightarrow> (m, spec\<lparr>ServicePorts := ConfigServicePorts name service\<rparr>))"

text \<open>
  Modelled from the spec: \<^verbatim>\<open>CreateHeadlessService\<close> is not among the sources. "A
  headless exposure object is created instead (selector only, no port entries)".
\<close>

definition CreateHeadlessService ::
  "string \<Rightarrow> ServiceConfig \<Rightarrow> Object list \<Rightarrow> ObjectMeta \<times> ServiceSpec" where
  "CreateHeadlessService name service objects =
     (case InitSvc name service of
        (m, spec) \<Rightarrow> (m, spec\<lparr>ServicePorts := [], ClusterIP := ''None''\<rparr>))"

text \<open>
  Modelled from the spec: \<^verbatim>\<open>UpdateKubernetesObjects\<close> is not among the sources; it is
  handed the address of the service's object slice after either branch of the restart
  policy. "For each declared mount, resolve a volume name; if running in empty-volume
  mode, substitute an ephemeral empty-directory source and skip storage-claim creation;
  otherwise create one storage-claim object per mount unless the mount explicitly
  references another service's existing claim": the claims are those \<open>ConfigVolumes\<close>
  returns, and they join the service's objects behind the ones already there, as in the
  converted fixture. The pod-template fields this step fills as well (environment, mounts,
  container ports) are not fields of the objects modelled here.
\<close>

definition UpdateKubernetesObjects ::
  "ConvertOptions \<Rightarrow> string \<Rightarrow> ServiceConfig \<Rightarrow> Object list \<Rightarrow> Object list" where
  "UpdateKubernetesObjects opt name service objects =
     (case ConfigVolumes opt name service of
        (volumesMount, volumes, pvc) \<Rightarrow> objects @ pvc)"

text \<open>
  Modelled from the spec: \<^verbatim>\<open>SortServicesFirst\<close> is not among the sources. "Stable
  partition of the full object graph into two groups, network-exposure-and-route-and-ingress
  objects first, everything else second, preserving relative order within each group".
\<close>

definition isExposure :: "Object \<Rightarrow> bool" where
  "isExposure obj = (KindOf obj = KService \<or> KindOf obj = KRoute \<or> KindOf obj = KIngress)"

fun SortServicesFirst_loop ::
  "Object list \<Rightarrow> Object list \<Rightarrow> Object list \<Rightarrow> Object list" where
  "SortServicesFirst_loop svc others [] = svc @ others"
| "SortServicesFirst_loop svc others (obj # objs) =
     (if isExposure obj then SortServicesFirst_loop (svc @ [obj]) others objs
      else SortServicesFirst_loop svc (others @ [obj]) objs)"

definition SortServicesFirst :: "Object list \<Rightarrow> Object list" where
  "SortServicesFirst objs = SortServicesFirst_loop [] [] objs"


section \<open>Kubernetes.Transform\<close>

text \<open>
  The body of the loop over the sorted service names: \<open>Inl\<close> is a \<^verbatim>\<open>return nil, err\<close>,
  \<open>Inr objects\<close> is what the iteration appends to \<open>allobjects\<close>.
\<close>

definition Kubernetes_buildAndPush ::
  "World \<Rightarrow> ConvertOptions \<Rightarrow> string \<Rightarrow> ServiceConfig \<Rightarrow> error option" where
  "Kubernetes_buildAndPush w opt name service =
     (if BuildMode opt = ''local'' \<and> InputFiles opt \<noteq> None \<and> Build service \<noteq> []
      then
        (if Image service = [] then Some (ImageKeyRequired name)
         else
           (case GetComposeFileDir w (InputFiles opt) of
              Inl err \<Rightarrow> Some err
            | Inr composeFileDir \<Rightarrow>
                (case BuildDockerImage w service name composeFileDir of
                   Some err \<Rightarrow> Some (Wrapped ''Unable to build Docker image for service'' err)
                 | None \<Rightarrow>
                     (case PushDockerImage w service name of
                        Some err \<Rightarrow>
                          Some (Wrapped ''Unable to push Docker image for service'' err)
                      | None \<Rightarrow> None))))
      else None)"

definition Kubernetes_exposure ::
  "ConvertOptions \<Rightarrow> string \<Rightarrow> ServiceConfig \<Rightarrow> Object list \<Rightarrow> error + Object list" where
  "Kubernetes_exposure opt name service objects =
     (if PortsExist name service
      then
        (case CreateService name service objects of
           (m, svc) \<Rightarrow>
             (if ExposeService service \<noteq> []
              then
                (case ServicePorts svc of
                   [] \<Rightarrow> Inl (Panic ''index out of range'')
                 | p # ps \<Rightarrow>
                     Inr (objects @ [Service m svc]
                          @ [initIngress name service (PortNumber p)]))
              else Inr (objects @ [Service m svc])))
      else
        (case CreateHeadlessService name service objects of
           (m, svc) \<Rightarrow> Inr (objects @ [Service m svc])))"

definition Kubernetes_service ::
  "World \<Rightarrow> ConvertOptions \<Rightarrow> string \<Rightarrow> ServiceConfig \<Rightarrow> error + Object list" where
  "Kubernetes_service w opt name service0 =
     (case Kubernetes_buildAndPush w opt name service0 of
        Some err \<Rightarrow> Inl err
      | None \<Rightarrow>
          (let service = (if Image service0 = [] then service0\<lparr>Image := name\<rparr> else service0)
           in if Restart service = ''no'' \<or> Restart service = ''on-failure''
              then
                (if IsDeploymentFlag opt \<or> IsDaemonSetFlag opt \<or> IsReplicationControllerFlag opt
                 then Inl ControllerWithRestart
                 else Inr (UpdateKubernetesObjects opt name service [InitPod name service]))
              else
                (case Kubernetes_exposure opt name service
                        (CreateKubernetesObjects name service opt) of
                   Inl err \<Rightarrow> Inl err
                 | Inr objects \<Rightarrow> Inr (UpdateKubernetesObjects opt name service objects))))"

fun Kubernetes_loop ::
  "World \<Rightarrow> ConvertOptions \<Rightarrow> KomposeObject \<Rightarrow> Object list \<Rightarrow> string list
   \<Rightarrow> error + Object list" where
  "Kubernetes_loop w opt komposeObject allobjects [] = Inr allobjects"
| "Kubernetes_loop w opt komposeObject allobjects (name # names) =
     (case Kubernetes_service w opt name (ServiceConfigs komposeObject name) of
        Inl err \<Rightarrow> Inl err
      | Inr objects \<Rightarrow> Kubernetes_loop w opt komposeObject (allobjects @ objects) names)"

definition Kubernetes_Transform ::
  "World \<Rightarrow> KomposeObject \<Rightarrow> ConvertOptions \<Rightarrow> error + Object list" where
  "Kubernetes_Transform w komposeObject opt =
     (case Kubernetes_loop w opt komposeObject [] (SortedKeys komposeObject) of
        Inl err \<Rightarrow> Inl err
      | Inr allobjects \<Rightarrow> Inr (SortServicesFirst allobjects))"


section \<open>Object builders of the OpenShift transformer\<close>

definition initImageStream :: "string \<Rightarrow> ServiceConfig \<Rightarrow> ConvertOptions \<Rightarrow> Object" where
  "initImageStream name service opt =
     (let tag = getImageTag (Image service);
          importPolicy = InsecureRepository opt;
          tags = (if Build service \<noteq> [] \<or> BuildMode opt \<noteq> ''build-config''
                  then [tag \<mapsto> \<lparr>FromKind = ''DockerImage'', FromName = Image service,
                                Insecure = importPolicy\<rparr>]
                  else Map.empty)
      in ImageStream \<lparr>Name = name, Labels = ConfigLabels name\<rparr> tags)"

text \<open>
  A build argument whose value is the single byte 0 takes the value of the environment
  variable of its name.
\<close>

definition initBuildConfig ::
  "World \<Rightarrow> string \<Rightarrow> ServiceConfig \<Rightarrow> string \<Rightarrow> string \<Rightarrow> error + Object" where
  "initBuildConfig w name service repo branch =
     (let envList = EnvSort (map (\<lambda>(envName, envValue).
                       (envName, if envValue = [CHR 0x00] then Getenv w envName else envValue))
                     (BuildArgs service))
      in case getAbsBuildContext w (Build service) of
           Inl err \<Rightarrow>
             Inl (Wrapped (name @ ''buildconfig cannot be created due to error in creating build context, getAbsBuildContext failed'') err)
         | Inr contextDir \<Rightarrow>
             Inr (BuildConfig \<lparr>Name = name, Labels = ConfigLabels name\<rparr>
                    \<lparr>GitRef = branch, GitURI = repo, ContextDir = contextDir,
                     DockerfilePath = Dockerfile service, DockerEnv = envList,
                     OutputToKind = ''ImageStreamTag'',
                     OutputToName = name @ '':'' @ getImageTag (Image service)\<rparr>))"

definition initDeploymentConfig :: "string \<Rightarrow> ServiceConfig \<Rightarrow> int \<Rightarrow> Object" where
  "initDeploymentConfig name service replicas =
     (let tag = getImageTag (Image service);
          containerName = (if ContainerName service \<noteq> [] then [ContainerName service]
                           else [name])
      in DeploymentConfig \<lparr>Name = name, Labels = ConfigLabels name\<rparr>
           \<lparr>DCReplicas = word_of_int replicas, DCSelector = ConfigLabels name,
            DCTemplateLabels = ConfigLabels name, DCTemplateSpec = InitPodSpec name '' '',
            TriggerContainerNames = containerName, TriggerFromName = name @ '':'' @ tag\<rparr>)"

definition initRoute :: "string \<Rightarrow> ServiceConfig \<Rightarrow> 32 word \<Rightarrow> Object" where
  "initRoute name service port =
     (let route = \<lparr>RouteTargetPort = port, RouteToKind = ''Service'', RouteToName = name,
                   RouteHost = []\<rparr>
      in Route \<lparr>Name = name, Labels = ConfigLabels name\<rparr>
           (if ExposeService service \<noteq> ''true''
            then route\<lparr>RouteHost := ExposeService service\<rparr> else route))"


section \<open>OpenShift.Transform\<close>

text \<open>
  What one iteration of the loop over the sorted service names does: \<open>Return\<close> is a
  \<^verbatim>\<open>return nil, err\<close> (or the end of the process), \<open>Continue\<close> is the \<^verbatim>\<open>continue\<close>
  statement, \<open>Proceed\<close> carries on with a value.
\<close>

datatype 'a step = Return error | Continue | Proceed 'a

definition OpenShift_buildAndPush ::
  "World \<Rightarrow> ConvertOptions \<Rightarrow> string \<Rightarrow> ServiceConfig \<Rightarrow> error option" where
  "OpenShift_buildAndPush w opt name service =
     (if BuildMode opt = ''local'' \<and> InputFiles opt \<noteq> None \<and> Build service \<noteq> []
      then
        (if Image service = [] then Some (ImageKeyRequired name)
         else
           (case GetComposeFileDir w (InputFiles opt) of
              Inl err \<Rightarrow> Some err
            | Inr composeFileDir \<Rightarrow>
                (case BuildDockerImage w service name composeFileDir of
                   Some err \<Rightarrow> Some (Fatal ''Unable to build Docker container for service'' err)
                 | None \<Rightarrow>
                     (case PushDockerImage w service name of
                        Some err \<Rightarrow> Some (Fatal ''Unable to push Docker image for service'' err)
                      | None \<Rightarrow> None))))
      else None)"

text \<open>
  The block that prepares the BuildConfig. \<open>buildRepo\<close> and \<open>buildBranch\<close> are declared
  before the loop and keep what an earlier iteration detected. Inside the test of
  \<open>opt.BuildRepo\<close> the code tests \<open>err\<close> once more before it asks for the remote URL; at
  that point \<open>err\<close> is nil, so the test has no branch here.
\<close>

definition OpenShift_buildConfig ::
  "World \<Rightarrow> ConvertOptions \<Rightarrow> string \<Rightarrow> ServiceConfig \<Rightarrow> string \<Rightarrow> string
   \<Rightarrow> (Object \<times> string \<times> string) step" where
  "OpenShift_buildConfig w opt name service buildRepo buildBranch =
     (case GetComposeFileDir w (InputFiles opt) of
        Inl err \<Rightarrow> Continue
      | Inr composeFileDir \<Rightarrow>
          (if \<not> hasGitBinary w \<and> (buildRepo = [] \<or> buildBranch = [])
           then Return GitNotInstalled
           else
             (case (if buildBranch = [] then getGitCurrentBranch w composeFileDir
                    else Inr buildBranch) of
                Inl err \<Rightarrow>
                  Return (Wrapped ''Buildconfig cannot be created because current git branch could not be detected.'' err)
              | Inr buildBranch' \<Rightarrow>
                  (case (if BuildRepo opt = [] then getGitCurrentRemoteURL w composeFileDir
                         else Inr buildRepo) of
                     Inl err \<Rightarrow>
                       Return (Wrapped ''Buildconfig cannot be created because git remote origin repo could not be detected.'' err)
                   | Inr buildRepo' \<Rightarrow>
                       (case initBuildConfig w name service buildRepo' buildBranch' of
                          Inl err \<Rightarrow> Return (Wrapped ''initBuildConfig failed'' err)
                        | Inr bc \<Rightarrow> Proceed (bc, buildRepo', buildBranch'))))))"

definition OpenShift_exposure ::
  "ConvertOptions \<Rightarrow> string \<Rightarrow> ServiceConfig \<Rightarrow> Object list \<Rightarrow> error + Object list" where
  "OpenShift_exposure opt name service objects =
     (if PortsExist name service
      then
        (case CreateService name service objects of
           (m, svc) \<Rightarrow>
             (if ExposeService service \<noteq> []
              then
                (case ServicePorts svc of
                   [] \<Rightarrow> Inl (Panic ''index out of range'')
                 | p # ps \<Rightarrow>
                     Inr (objects @ [Service m svc] @ [initRoute name service (PortNumber p)]))
              else Inr (objects @ [Service m svc])))
      else
        (case CreateHeadlessService name service objects of
           (m, svc) \<Rightarrow> Inr (objects @ [Service m svc])))"

definition OpenShift_service ::
  "World \<Rightarrow> ConvertOptions \<Rightarrow> string \<Rightarrow> ServiceConfig \<Rightarrow> string \<Rightarrow> string
   \<Rightarrow> (Object list \<times> string \<times> string) step" where
  "OpenShift_service w opt name service0 buildRepo buildBranch =
     (let replica = (if IsReplicaSetFlag opt \<or> Replicas service0 = 0 then DefaultReplicas opt
                     else Replicas service0)
      in case OpenShift_buildAndPush w opt name service0 of
           Some err \<Rightarrow> Return err
         | None \<Rightarrow>
             (let service = (if Image service0 = [] then service0\<lparr>Image := name\<rparr>
                             else service0)
              in if Restart service = ''no'' \<or> Restart service = ''on-failure''
                 then
                   (if IsDeploymentConfigFlag opt then Return ControllerWithRestart
                    else Proceed (UpdateKubernetesObjects opt name service
                                    [InitPod name service], buildRepo, buildBranch))
                 else
                   (let objects1 = CreateKubernetesObjects name service opt;
                        objects2 =
                          (if CreateDeploymentConfig opt
                           then objects1 @ [initDeploymentConfig name service replica]
                                @ [initImageStream name service opt]
                           else objects1)
                    in case (if Build service \<noteq> [] \<and> BuildMode opt = ''build-config''
                             then
                               (case OpenShift_buildConfig w opt name service
                                       buildRepo buildBranch of
                                  Return err \<Rightarrow> Return err
                                | Continue \<Rightarrow> Continue
                                | Proceed (bc, buildRepo', buildBranch') \<Rightarrow>
                                    Proceed (objects2 @ [bc], buildRepo', buildBranch'))
                             else Proceed (objects2, buildRepo, buildBranch)) of
                         Return err \<Rightarrow> Return err
                       | Continue \<Rightarrow> Continue
                       | Proceed (objects3, buildRepo', buildBranch') \<Rightarrow>
                           (case OpenShift_exposure opt name service objects3 of
                              Inl err \<Rightarrow> Return err
                            | Inr objects \<Rightarrow>
                                Proceed (UpdateKubernetesObjects opt name service objects,
                                         buildRepo', buildBranch')))))"

fun OpenShift_loop ::
  "World \<Rightarrow> ConvertOptions \<Rightarrow> KomposeObject \<Rightarrow> Object list \<times> string \<times> string
   \<Rightarrow> string list \<Rightarrow> error + Object list" where
  "OpenShift_loop w opt komposeObject (allobjects, buildRepo, buildBranch) [] = Inr allobjects"
| "OpenShift_loop w opt komposeObject (allobjects, buildRepo, buildBranch) (name # names) =
     (case OpenShift_service w opt name (ServiceConfigs komposeObject name)
             buildRepo buildBranch of
        Return err \<Rightarrow> Inl err
      | Continue \<Rightarrow>
          OpenShift_loop w opt komposeObject (allobjects, buildRepo, buildBranch) names
      | Proceed (objects, buildRepo', buildBranch') \<Rightarrow>
          OpenShift_loop w opt komposeObject
            (allobjects @ objects, buildRepo', buildBranch') names)"

text \<open>
  \<open>CheckUnsupportedKey\<close>, which \<open>OpenShift.Transform\<close> calls first, only yields the keys to
  warn about and has no part in the objects.
\<close>

definition OpenShift_Transform ::
  "World \<Rightarrow> KomposeObject \<Rightarrow> ConvertOptions \<Rightarrow> error + Object list" where
  "OpenShift_Transform w komposeObject opt =
     (case OpenShift_loop w opt komposeObject ([], BuildRepo opt, BuildBranch opt)
             (SortedKeys komposeObject) of
        Inl err \<Rightarrow> Inl err
      | Inr allobjects \<Rightarrow> Inr (SortServicesFirst allobjects))"


section \<open>The control plane\<close>

text \<open>
  A listed live object, as far as the code reads it: its name and its label set.
\<close>

record Live =
  LiveName :: string
  LiveLabels :: labels

text \<open>
  The calls the orchestrators make: listing the objects of a kind in a namespace under a
  label selector, asking for a reaper, stopping through a reaper (namespace, name,
  timeout in seconds), deleting by name, creating an object.
\<close>

datatype Call =
    ListCall Kind string labels
  | ReaperForCall Kind
  | StopCall Kind string string nat
  | DeleteCall Kind string string
  | CreateCall Object string

text \<open>
  The cluster answers a call with the listed items (for a list call) and an error or none;
  the answer may depend on every call made before. The clients come from the local
  configuration, with the namespace of that configuration.
\<close>

record Cluster =
  Respond :: "Call list \<Rightarrow> Call \<Rightarrow> Live list \<times> error option"
  GetKubernetesClient :: "error + string"
  getOpenShiftClient :: "error option"

text \<open>
  How a kind is removed: through \<^verbatim>\<open>kubectl.ReaperFor\<close> and the reaper's \<open>Stop\<close>, through
  a reaper built directly, or by a \<open>Delete\<close> of the client. Each names the object of the
  graph, \<open>t.Name\<close>.
\<close>

datatype Removal = ReaperStop | DirectStop | DirectDelete

definition removeOne ::
  "Cluster \<Rightarrow> Removal \<Rightarrow> Kind \<Rightarrow> string \<Rightarrow> string \<Rightarrow> Call list \<Rightarrow> error option \<times> Call list" where
  "removeOne cl how kind namespace tName h =
     (case how of
        ReaperStop \<Rightarrow>
          (case snd (Respond cl h (ReaperForCall kind)) of
             Some err \<Rightarrow> (Some err, h @ [ReaperForCall kind])
           | None \<Rightarrow>
               (snd (Respond cl (h @ [ReaperForCall kind])
                       (StopCall kind namespace tName TIMEOUT)),
                h @ [ReaperForCall kind] @ [StopCall kind namespace tName TIMEOUT]))
      | DirectStop \<Rightarrow>
          (snd (Respond cl h (StopCall kind namespace tName TIMEOUT)),
           h @ [StopCall kind namespace tName TIMEOUT])
      | DirectDelete \<Rightarrow>
          (snd (Respond cl h (DeleteCall kind namespace tName)),
           h @ [DeleteCall kind namespace tName]))"

text \<open>
  The loop over the listed items: an item whose labels are deeply equal to
  \<open>komposeLabel\<close> triggers the removal; an error is appended and breaks this loop.
\<close>

fun removeListed ::
  "Cluster \<Rightarrow> Removal \<Rightarrow> Kind \<Rightarrow> string \<Rightarrow> string \<Rightarrow> labels \<Rightarrow> Live list
   \<Rightarrow> error list \<times> Call list \<Rightarrow> error list \<times> Call list" where
  "removeListed cl how kind namespace tName komposeLabel [] st = st"
| "removeListed cl how kind namespace tName komposeLabel (l # items) (errorList, h) =
     (if LiveLabels l = komposeLabel
      then
        (case removeOne cl how kind namespace tName h of
           (Some err, h') \<Rightarrow> (errorList @ [err], h')
         | (None, h') \<Rightarrow>
             removeListed cl how kind namespace tName komposeLabel items (errorList, h'))
      else removeListed cl how kind namespace tName komposeLabel items (errorList, h))"

text \<open>
  One case of the type switch: list under the selector of the object's name, then go
  through the items. \<open>breakOnListError\<close> tells whether the case leaves the switch when
  the list call fails.
\<close>

definition listAndRemove ::
  "Cluster \<Rightarrow> Removal \<Rightarrow> Kind \<Rightarrow> bool \<Rightarrow> string \<Rightarrow> Object
   \<Rightarrow> error list \<times> Call list \<Rightarrow> error list \<times> Call list" where
  "listAndRemove cl how kind breakOnListError namespace v st =
     (case st of
        (errorList, h) \<Rightarrow>
          (let komposeLabel = [Selector \<mapsto> GetName v];
               listed = Respond cl h (ListCall kind namespace komposeLabel);
               h' = h @ [ListCall kind namespace komposeLabel]
           in case snd listed of
                Some err \<Rightarrow>
                  (if breakOnListError then (errorList @ [err], h')
                   else removeListed cl how kind namespace (GetName v) komposeLabel
                          (fst listed) (errorList @ [err], h'))
              | None \<Rightarrow>
                  removeListed cl how kind namespace (GetName v) komposeLabel
                    (fst listed) (errorList, h')))"


section \<open>Kubernetes.Deploy and Kubernetes.Undeploy\<close>

fun Kubernetes_Deploy_loop ::
  "Cluster \<Rightarrow> string \<Rightarrow> Object list \<Rightarrow> Call list \<Rightarrow> error option \<times> Call list" where
  "Kubernetes_Deploy_loop cl namespace [] h = (None, h)"
| "Kubernetes_Deploy_loop cl namespace (v # objects) h =
     (case KindOf v of
        KDeployment \<Rightarrow>
          (case snd (Respond cl h (CreateCall v namespace)) of
             Some err \<Rightarrow> (Some err, h @ [CreateCall v namespace])
           | None \<Rightarrow> Kubernetes_Deploy_loop cl namespace objects (h @ [CreateCall v namespace]))
      | KService \<Rightarrow>
          (case snd (Respond cl h (CreateCall v namespace)) of
             Some err \<Rightarrow> (Some err, h @ [CreateCall v namespace])
           | None \<Rightarrow> Kubernetes_Deploy_loop cl namespace objects (h @ [CreateCall v namespace]))
      | KPersistentVolumeClaim \<Rightarrow>
          (case snd (Respond cl h (CreateCall v namespace)) of
             Some err \<Rightarrow> (Some err, h @ [CreateCall v namespace])
           | None \<Rightarrow> Kubernetes_Deploy_loop cl namespace objects (h @ [CreateCall v namespace]))
      | KIngress \<Rightarrow>
          (case snd (Respond cl h (CreateCall v namespace)) of
             Some err \<Rightarrow> (Some err, h @ [CreateCall v namespace])
           | None \<Rightarrow> Kubernetes_Deploy_loop cl namespace objects (h @ [CreateCall v namespace]))
      | KPod \<Rightarrow>
          (case snd (Respond cl h (CreateCall v namespace)) of
             Some err \<Rightarrow> (Some err, h @ [CreateCall v namespace])
           | None \<Rightarrow> Kubernetes_Deploy_loop cl namespace objects (h @ [CreateCall v namespace]))
      | _ \<Rightarrow> Kubernetes_Deploy_loop cl namespace objects h)"

definition Kubernetes_Deploy ::
  "World \<Rightarrow> Cluster \<Rightarrow> KomposeObject \<Rightarrow> ConvertOptions \<Rightarrow> error option \<times> Call list" where
  "Kubernetes_Deploy w cl komposeObject opt =
     (case Kubernetes_Transform w komposeObject opt of
        Inl err \<Rightarrow> (Some (Wrapped ''k.Transform failed'' err), [])
      | Inr objects \<Rightarrow>
          (case GetKubernetesClient cl of
             Inl err \<Rightarrow> (Some err, [])
           | Inr ns \<Rightarrow>
               Kubernetes_Deploy_loop cl (if IsNamespaceFlag opt then Namespace opt else ns)
                 objects []))"

text \<open>
  The pod case of \<open>Kubernetes.Undeploy\<close> appends the list error and goes on to the items
  handed back with it; every other case leaves the switch.
\<close>

definition Kubernetes_undeployObject ::
  "Cluster \<Rightarrow> string \<Rightarrow> Object \<Rightarrow> error list \<times> Call list \<Rightarrow> error list \<times> Call list" where
  "Kubernetes_undeployObject cl namespace v st =
     (case KindOf v of
        KDeployment \<Rightarrow> listAndRemove cl ReaperStop KDeployment True namespace v st
      | KService \<Rightarrow> listAndRemove cl ReaperStop KService True namespace v st
      | KPersistentVolumeClaim \<Rightarrow>
          listAndRemove cl DirectDelete KPersistentVolumeClaim True namespace v st
      | KIngress \<Rightarrow> listAndRemove cl DirectDelete KIngress True namespace v st
      | KPod \<Rightarrow> listAndRemove cl ReaperStop KPod False namespace v st
      | _ \<Rightarrow> st)"

fun Kubernetes_Undeploy_loop ::
  "Cluster \<Rightarrow> string \<Rightarrow> Object list \<Rightarrow> error list \<times> Call list \<Rightarrow> error list \<times> Call list" where
  "Kubernetes_Undeploy_loop cl namespace [] st = st"
| "Kubernetes_Undeploy_loop cl namespace (v # objects) st =
     Kubernetes_Undeploy_loop cl namespace objects (Kubernetes_undeployObject cl namespace v st)"

definition Kubernetes_Undeploy ::
  "World \<Rightarrow> Cluster \<Rightarrow> KomposeObject \<Rightarrow> ConvertOptions \<Rightarrow> error list \<times> Call list" where
  "Kubernetes_Undeploy w cl komposeObject opt =
     (case Kubernetes_Transform w komposeObject opt of
        Inl err \<Rightarrow> ([err], [])
      | Inr objects \<Rightarrow>
          (case GetKubernetesClient cl of
             Inl err \<Rightarrow> ([err], [])
           | Inr ns \<Rightarrow>
               Kubernetes_Undeploy_loop cl (if IsNamespaceFlag opt then Namespace opt else ns)
                 objects ([], [])))"


section \<open>OpenShift.Undeploy\<close>

definition OpenShift_undeployObject ::
  "Cluster \<Rightarrow> string \<Rightarrow> Object \<Rightarrow> error list \<times> Call list \<Rightarrow> error list \<times> Call list" where
  "OpenShift_undeployObject cl namespace v st =
     (case KindOf v of
        KImageStream \<Rightarrow> listAndRemove cl DirectDelete KImageStream True namespace v st
      | KBuildConfig \<Rightarrow> listAndRemove cl DirectStop KBuildConfig True namespace v st
      | KDeploymentConfig \<Rightarrow> listAndRemove cl DirectStop KDeploymentConfig True namespace v st
      | KService \<Rightarrow> listAndRemove cl ReaperStop KService True namespace v st
      | KPersistentVolumeClaim \<Rightarrow>
          listAndRemove cl DirectDelete KPersistentVolumeClaim True namespace v st
      | KRoute \<Rightarrow> listAndRemove cl DirectDelete KRoute True namespace v st
      | KPod \<Rightarrow> listAndRemove cl ReaperStop KPod True namespace v st
      | _ \<Rightarrow> st)"

fun OpenShift_Undeploy_loop ::
  "Cluster \<Rightarrow> string \<Rightarrow> Object list \<Rightarrow> error list \<times> Call list \<Rightarrow> error list \<times> Call list" where
  "OpenShift_Undeploy_loop cl namespace [] st = st"
| "OpenShift_Undeploy_loop cl namespace (v # objects) st =
     OpenShift_Undeploy_loop cl namespace objects (OpenShift_undeployObject cl namespace v st)"

definition OpenShift_Undeploy ::
  "World \<Rightarrow> Cluster \<Rightarrow> KomposeObject \<Rightarrow> ConvertOptions \<Rightarrow> error list \<times> Call list" where
  "OpenShift_Undeploy w cl komposeObject opt =
     (case OpenShift_Transform w komposeObject opt of
        Inl err \<Rightarrow> ([err], [])
      | Inr objects \<Rightarrow>
          (case getOpenShiftClient cl of
             Some err \<Rightarrow> ([err], [])
           | None \<Rightarrow>
               (case GetKubernetesClient cl of
                  Inl err \<Rightarrow> ([err], [])
                | Inr ns \<Rightarrow>
                    OpenShift_Undeploy_loop cl
                      (if IsNamespaceFlag opt then Namespace opt else ns) objects ([], []))))"


section \<open>Reading a graph\<close>

text \<open>The objects of a kind and a name in a graph, in graph order.\<close>

definition objectsOf :: "Kind \<Rightarrow> string \<Rightarrow> Object list \<Rightarrow> Object list" where
  "objectsOf kind name graph = filter (\<lambda>obj. KindOf obj = kind \<and> GetName obj = name) graph"

text \<open>
  The objects that \<open>CreateHeadlessService\<close> and \<open>CreateService\<close> make of a service, written
  out.
\<close>

definition headlessService :: "string \<Rightarrow> Object" where
  "headlessService name =
     Service \<lparr>Name = name, Labels = ConfigLabels name\<rparr>
       \<lparr>ServiceSelector = ConfigLabels name, ServicePorts = [], ClusterIP = ''None''\<rparr>"

definition addressedService :: "string \<Rightarrow> ServiceConfig \<Rightarrow> Object" where
  "addressedService name service =
     Service \<lparr>Name = name, Labels = ConfigLabels name\<rparr>
       \<lparr>ServiceSelector = ConfigLabels name,
        ServicePorts = map ServicePortOf (Port service), ClusterIP = []\<rparr>"


section \<open>Reading a history of calls\<close>

text \<open>
  The errors the cluster answers to a sequence of calls made after the history \<open>h\<close>, in
  the order of the calls.
\<close>

fun failuresOf :: "Cluster \<Rightarrow> Call list \<Rightarrow> Call list \<Rightarrow> error list" where
  "failuresOf cl h [] = []"
| "failuresOf cl h (c # calls) =
     (case snd (Respond cl h c) of Some err \<Rightarrow> [err] | None \<Rightarrow> [])
     @ failuresOf cl (h @ [c]) calls"

text \<open>The list calls and the removing calls of a history.\<close>

fun isListCall :: "Call \<Rightarrow> bool" where
  "isListCall (ListCall kind namespace selector) = True"
| "isListCall c = False"

fun isRemoval :: "Call \<Rightarrow> bool" where
  "isRemoval (StopCall kind namespace name timeout) = True"
| "isRemoval (DeleteCall kind namespace name) = True"
| "isRemoval c = False"

text \<open>
  The kinds that have a case in the type switch of \<open>Kubernetes.Undeploy\<close> and of
  \<open>OpenShift.Undeploy\<close>, and the list call the case makes for an object.
\<close>

definition Kubernetes_undeploys :: "Object \<Rightarrow> bool" where
  "Kubernetes_undeploys v =
     (KindOf v = KDeployment \<or> KindOf v = KService \<or> KindOf v = KPersistentVolumeClaim
      \<or> KindOf v = KIngress \<or> KindOf v = KPod)"

definition OpenShift_undeploys :: "Object \<Rightarrow> bool" where
  "OpenShift_undeploys v =
     (KindOf v = KImageStream \<or> KindOf v = KBuildConfig \<or> KindOf v = KDeploymentConfig
      \<or> KindOf v = KService \<or> KindOf v = KPersistentVolumeClaim \<or> KindOf v = KRoute
      \<or> KindOf v = KPod)"

definition listCallFor :: "string \<Rightarrow> Object \<Rightarrow> Call" where
  "listCallFor namespace v = ListCall (KindOf v) namespace [Selector \<mapsto> GetName v]"


text \<open>The kinds that have a case in the type switch of \<open>Kubernetes.Deploy\<close>.\<close>

definition Kubernetes_creates :: "Object \<Rightarrow> bool" where
  "Kubernetes_creates v =
     (KindOf v = KDeployment \<or> KindOf v = KService \<or> KindOf v = KPersistentVolumeClaim
      \<or> KindOf v = KIngress \<or> KindOf v = KPod)"


section \<open>Example inputs\<close>

text \<open>A machine where every collaborator succeeds.\<close>

definition exampleWorld :: World where
  "exampleWorld =
     \<lparr>GetComposeFileDir = (\<lambda>files. Inr ''/src''),
      BuildDockerImage = (\<lambda>service name dir. None),
      PushDockerImage = (\<lambda>service name. None),
      hasGitBinary = True,
      git_ls_remote_get_url = (\<lambda>dir. Inr (''https://example.org/app'' @ [CHR 0x0A])),
      git_rev_parse_abbrev_ref_HEAD = (\<lambda>dir. Inr (''master'' @ [CHR 0x0A])),
      git_rev_parse_show_prefix = (\<lambda>dir. Inr (''build/'' @ [CHR 0x0A])),
      Getenv = (\<lambda>name. ''from-env'')\<rparr>"

definition exampleBuildService :: ServiceConfig where
  "exampleBuildService =
     zero_ServiceConfig\<lparr>Image := ''team/app:1.2'', Build := ''./build'',
       BuildArgs := [(''b'', ''2''), (''a'', [CHR 0x00])]\<rparr>"


definition exampleOpt :: ConvertOptions where
  "exampleOpt =
     \<lparr>CreateD = True, CreateRC = False, CreateDS = False, CreateDeploymentConfig = False,
      BuildMode = ''none'', BuildRepo = [], BuildBranch = [],
      InputFiles = Some [''docker-compose.yml''], DefaultReplicas = 1,
      IsReplicaSetFlag = False, IsDeploymentFlag = False, IsDaemonSetFlag = False,
      IsReplicationControllerFlag = False, IsDeploymentConfigFlag = False,
      EmptyVols = False, InsecureRepository = False, IsNamespaceFlag = False,
      Namespace = []\<rparr>"

definition exampleWeb :: ServiceConfig where
  "exampleWeb =
     zero_ServiceConfig\<lparr>Image := ''nginx'', Restart := ''always'',
       Port := [\<lparr>HostPort = 0, ContainerPort = 80, HostIP = [], Protocol = ''TCP''\<rparr>,
                \<lparr>HostPort = 5353, ContainerPort = 53, HostIP = [], Protocol = ''UDP''\<rparr>],
       ExposeService := ''true''\<rparr>"

definition exampleDb :: ServiceConfig where
  "exampleDb =
     zero_ServiceConfig\<lparr>Image := ''mariadb'', Restart := ''always'',
       Volumes := [\<lparr>VolumeName = [], PVCName = ''db-claim0'', Container = ''/var/lib/mysql'',
                    Mode = [], VFrom = [], Host = []\<rparr>],
       ExposeService := ''db.example.com''\<rparr>"

definition exampleJob :: ServiceConfig where
  "exampleJob =
     zero_ServiceConfig\<lparr>Image := ''busybox'', Restart := ''on-failure'',
       Volumes := [\<lparr>VolumeName = [], PVCName = ''job-claim0'', Container = ''/data'',
                    Mode = ''ro'', VFrom = [], Host = []\<rparr>],
       ExposeService := ''job.example.com''\<rparr>"

definition exampleModel :: KomposeObject where
  "exampleModel = [(''web'', exampleWeb), (''job'', exampleJob), (''db'', exampleDb)]"

text \<open>The graph \<open>Kubernetes.Transform\<close> yields for the example model.\<close>

definition exampleGraph :: "Object list" where
  "exampleGraph =
     [Service \<lparr>Name = ''db'', Labels = ConfigLabels ''db''\<rparr>
        \<lparr>ServiceSelector = ConfigLabels ''db'', ServicePorts = [], ClusterIP = ''None''\<rparr>,
      Service \<lparr>Name = ''web'', Labels = ConfigLabels ''web''\<rparr>
        \<lparr>ServiceSelector = ConfigLabels ''web'',
         ServicePorts =
           [\<lparr>PortName = ''80'', PortProtocol = [], PortNumber = 80,
             TargetPort = \<lparr>IntVal = 80, StrVal = ''80''\<rparr>\<rparr>,
            \<lparr>PortName = ''5353'', PortProtocol = ''UDP'', PortNumber = 5353,
             TargetPort = \<lparr>IntVal = 53, StrVal = ''53''\<rparr>\<rparr>],
         ClusterIP = []\<rparr>,
      Ingress \<lparr>Name = ''web'', Labels = ConfigLabels ''web''\<rparr>
        \<lparr>IngressHost = [], BackendServiceName = ''web'', BackendServicePort = 80\<rparr>,
      Deployment \<lparr>Name = ''db'', Labels = ConfigLabels ''db''\<rparr>
        \<lparr>DReplicas = 1,
         DTemplateSpec = \<lparr>PodContainerName = ''db'', PodContainerImage = ''mariadb''\<rparr>\<rparr>,
      PersistentVolumeClaim \<lparr>Name = ''db-claim0'', Labels = ConfigLabels ''db-claim0''\<rparr>
        \<lparr>StorageRequest = ''100Mi'', AccessModes = [''ReadWriteOnce'']\<rparr>,
      Pod \<lparr>Name = ''job'', Labels = ConfigLabels ''job''\<rparr>
        \<lparr>PodContainerName = ''job'', PodContainerImage = ''busybox''\<rparr>,
      PersistentVolumeClaim \<lparr>Name = ''job-claim0'', Labels = ConfigLabels ''job-claim0''\<rparr>
        \<lparr>StorageRequest = ''100Mi'', AccessModes = [''ReadOnlyMany'']\<rparr>,
      Deployment \<lparr>Name = ''web'', Labels = ConfigLabels ''web''\<rparr>
        \<lparr>DReplicas = 1,
         DTemplateSpec = \<lparr>PodContainerName = ''web'', PodContainerImage = ''nginx''\<rparr>\<rparr>]"

text \<open>
  The same model for OpenShift, with deployment configs as the controller kind, and the
  graph \<open>OpenShift.Transform\<close> yields for it.
\<close>

definition exampleOpenShiftOpt :: ConvertOptions where
  "exampleOpenShiftOpt = exampleOpt\<lparr>CreateD := False, CreateDeploymentConfig := True\<rparr>"

definition exampleOpenShiftGraph :: "Object list" where
  "exampleOpenShiftGraph =
     [Service \<lparr>Name = ''db'', Labels = ConfigLabels ''db''\<rparr>
        \<lparr>ServiceSelector = ConfigLabels ''db'', ServicePorts = [], ClusterIP = ''None''\<rparr>,
      Service \<lparr>Name = ''web'', Labels = ConfigLabels ''web''\<rparr>
        \<lparr>ServiceSelector = ConfigLabels ''web'',
         ServicePorts =
           [\<lparr>PortName = ''80'', PortProtocol = [], PortNumber = 80,
             TargetPort = \<lparr>IntVal = 80, StrVal = ''80''\<rparr>\<rparr>,
            \<lparr>PortName = ''5353'', PortProtocol = ''UDP'', PortNumber = 5353,
             TargetPort = \<lparr>IntVal = 53, StrVal = ''53''\<rparr>\<rparr>],
         ClusterIP = []\<rparr>,
      Route \<lparr>Name = ''web'', Labels = ConfigLabels ''web''\<rparr>
        \<lparr>RouteTargetPort = 80, RouteToKind = ''Service'', RouteToName = ''web'',
         RouteHost = []\<rparr>,
      DeploymentConfig \<lparr>Name = ''db'', Labels = ConfigLabels ''db''\<rparr>
        \<lparr>DCReplicas = 1, DCSelector = ConfigLabels ''db'', DCTemplateLabels = ConfigLabels ''db'',
         DCTemplateSpec = \<lparr>PodContainerName = ''db'', PodContainerImage = '' ''\<rparr>,
         TriggerContainerNames = [''db''], TriggerFromName = ''db:latest''\<rparr>,
      ImageStream \<lparr>Name = ''db'', Labels = ConfigLabels ''db''\<rparr>
        [''latest'' \<mapsto> \<lparr>FromKind = ''DockerImage'', FromName = ''mariadb'', Insecure = False\<rparr>],
      PersistentVolumeClaim \<lparr>Name = ''db-claim0'', Labels = ConfigLabels ''db-claim0''\<rparr>
        \<lparr>StorageRequest = ''100Mi'', AccessModes = [''ReadWriteOnce'']\<rparr>,
      Pod \<lparr>Name = ''job'', Labels = ConfigLabels ''job''\<rparr>
        \<lparr>PodContainerName = ''job'', PodContainerImage = ''busybox''\<rparr>,
      PersistentVolumeClaim \<lparr>Name = ''job-claim0'', Labels = ConfigLabels ''job-claim0''\<rparr>
        \<lparr>StorageRequest = ''100Mi'', AccessModes = [''ReadOnlyMany'']\<rparr>,
      DeploymentConfig \<lparr>Name = ''web'', Labels = ConfigLabels ''web''\<rparr>
        \<lparr>DCReplicas = 1, DCSelector = ConfigLabels ''web'',
         DCTemplateLabels = ConfigLabels ''web'',
         DCTemplateSpec = \<lparr>PodContainerName = ''web'', PodContainerImage = '' ''\<rparr>,
         TriggerContainerNames = [''web''], TriggerFromName = ''web:latest''\<rparr>,
      ImageStream \<lparr>Name = ''web'', Labels = ConfigLabels ''web''\<rparr>
        [''latest'' \<mapsto> \<lparr>FromKind = ''DockerImage'', FromName = ''nginx'', Insecure = False\<rparr>]]"

text \<open>
  A machine on which the directory of the compose files cannot be found, and a model with
  a service to build, converted for OpenShift with build configs.
\<close>

definition failingWorld :: World where
  "failingWorld =
     exampleWorld\<lparr>GetComposeFileDir :=
       (\<lambda>files. Inl (External ''getwd: no such file or directory''))\<rparr>"

definition buildConfigOpt :: ConvertOptions where
  "buildConfigOpt = exampleOpenShiftOpt\<lparr>BuildMode := ''build-config''\<rparr>"

definition buildModel :: KomposeObject where
  "buildModel = [(''app'', exampleBuildService\<lparr>Restart := ''always''\<rparr>), (''db'', exampleDb)]"

definition buildGraph :: "Object list" where
  "buildGraph =
     [Service \<lparr>Name = ''db'', Labels = ConfigLabels ''db''\<rparr>
        \<lparr>ServiceSelector = ConfigLabels ''db'', ServicePorts = [], ClusterIP = ''None''\<rparr>,
      DeploymentConfig \<lparr>Name = ''db'', Labels = ConfigLabels ''db''\<rparr>
        \<lparr>DCReplicas = 1, DCSelector = ConfigLabels ''db'', DCTemplateLabels = ConfigLabels ''db'',
         DCTemplateSpec = \<lparr>PodContainerName = ''db'', PodContainerImage = '' ''\<rparr>,
         TriggerContainerNames = [''db''], TriggerFromName = ''db:latest''\<rparr>,
      ImageStream \<lparr>Name = ''db'', Labels = ConfigLabels ''db''\<rparr> Map.empty,
      PersistentVolumeClaim \<lparr>Name = ''db-claim0'', Labels = ConfigLabels ''db-claim0''\<rparr>
        \<lparr>StorageRequest = ''100Mi'', AccessModes = [''ReadWriteOnce'']\<rparr>]"

text \<open>
  A model with the service "web" alone and its two graphs; a cluster that refuses to list
  services and to stop anything; a cluster that holds nothing.
\<close>

definition webModel :: KomposeObject where
  "webModel = [(''web'', exampleWeb)]"

definition webGraph :: "Object list" where
  "webGraph = [exampleGraph ! 1, exampleGraph ! 2, exampleGraph ! 7]"

definition webOpenShiftGraph :: "Object list" where
  "webOpenShiftGraph =
     [exampleOpenShiftGraph ! 1, exampleOpenShiftGraph ! 2, exampleOpenShiftGraph ! 8,
      exampleOpenShiftGraph ! 9]"

definition failingCluster :: Cluster where
  "failingCluster =
     \<lparr>Respond = (\<lambda>h c. case c of
          ListCall kind namespace selector \<Rightarrow>
            (if kind = KService then ([], Some (External ''list services: forbidden''))
             else if kind = KDeployment \<or> kind = KDeploymentConfig
             then ([\<lparr>LiveName = ''web'', LiveLabels = [Selector \<mapsto> ''web'']\<rparr>], None)
             else ([], None))
        | StopCall kind namespace name timeout \<Rightarrow> ([], Some (External ''stop: timed out''))
        | _ \<Rightarrow> ([], None)),
      GetKubernetesClient = Inr ''default'',
      getOpenShiftClient = None\<rparr>"

definition emptyCluster :: Cluster where
  "emptyCluster =
     \<lparr>Respond = (\<lambda>h c. ([], None)),
      GetKubernetesClient = Inr ''default'',
      getOpenShiftClient = None\<rparr>"

text \<open>
  A cluster in which the deployment "web" has been given a further label and a second
  deployment "web-canary" carries exactly the label of "web"; both are what a list call
  under the selector of "web" returns.
\<close>

definition relabelledWeb :: Live where
  "relabelledWeb = \<lparr>LiveName = ''web'', LiveLabels = [Selector \<mapsto> ''web'', ''tier'' \<mapsto> ''prod'']\<rparr>"

definition canaryWeb :: Live where
  "canaryWeb = \<lparr>LiveName = ''web-canary'', LiveLabels = [Selector \<mapsto> ''web'']\<rparr>"

definition relabelledCluster :: Cluster where
  "relabelledCluster =
     \<lparr>Respond = (\<lambda>h c. case c of
          ListCall kind namespace selector \<Rightarrow>
            (if kind = KDeployment \<or> kind = KDeploymentConfig
             then ([relabelledWeb, canaryWeb], None) else ([], None))
        | _ \<Rightarrow> ([], None)),
      GetKubernetesClient = Inr ''default'',
      getOpenShiftClient = None\<rparr>"

text \<open>
  Options that ask for daemon sets and replication controllers, and the graph of the
  service "web" under them.
\<close>

definition rcOpt :: ConvertOptions where
  "rcOpt = exampleOpt\<lparr>CreateD := False, CreateRC := True, CreateDS := True\<rparr>"

definition rcGraph :: "Object list" where
  "rcGraph =
     [exampleGraph ! 1, exampleGraph ! 2,
      DaemonSet \<lparr>Name = ''web'', Labels = ConfigLabels ''web''\<rparr>
        \<lparr>PodContainerName = ''web'', PodContainerImage = ''nginx''\<rparr>,
      ReplicationController \<lparr>Name = ''web'', Labels = ConfigLabels ''web''\<rparr>
        \<lparr>RCReplicas = 1, RCTemplateLabels = ConfigLabels ''web'',
         RCTemplateSpec = \<lparr>PodContainerName = ''web'', PodContainerImage = ''nginx''\<rparr>\<rparr>]"


section \<open>Image tags: the code against the specification's wording\<close>

lemma Split_nonempty: "Split s c \<noteq> []"
  by (induction s) (auto split: list.splits)

lemma length_Split: "length (Split s c) = Suc (count_list s c)"
  by (induction s) (auto split: list.splits simp: Split_nonempty)

lemma takeWhile_neq_notin:
  "c \<notin> set xs \<Longrightarrow> takeWhile (\<lambda>x. x \<noteq> c) (xs @ ys) = xs @ takeWhile (\<lambda>x. x \<noteq> c) ys"
  by (induction xs) auto

lemma takeWhile_neq_all: "c \<notin> set xs \<Longrightarrow> takeWhile (\<lambda>x. x \<noteq> c) xs = xs"
  using takeWhile_neq_notin [of c xs "[]"] by simp

lemma last_Split: "last (Split s c) = rev (takeWhile (\<lambda>x. x \<noteq> c) (rev s))"
proof (induction s)
  case Nil
  then show ?case by simp
next
  case (Cons x xs)
  show ?case
  proof (cases "c \<in> set xs")
    case True
    then have "count_list xs c \<noteq> 0" by (simp add: count_list_0_iff)
    then have len: "length (Split xs c) \<ge> 2" by (simp add: length_Split)
    then obtain y z zs where sp: "Split xs c = y # z # zs"
      by (cases "Split xs c"; cases "tl (Split xs c)") auto
    from True have tw: "takeWhile (\<lambda>x. x \<noteq> c) (rev xs @ [x]) = takeWhile (\<lambda>x. x \<noteq> c) (rev xs)"
      by (simp add: takeWhile_append1)
    show ?thesis using Cons sp tw by auto
  next
    case False
    then have tw: "takeWhile (\<lambda>x. x \<noteq> c) (rev xs) = rev xs"
      by (simp add: takeWhile_neq_all)
    from False have "count_list xs c = 0" by (simp add: count_list_0_iff)
    then have "length (Split xs c) = 1" by (simp add: length_Split)
    then obtain y where sp: "Split xs c = [y]"
      by (cases "Split xs c") auto
    with Cons tw have y: "y = xs" by simp
    show ?thesis using sp y False by (simp add: takeWhile_neq_notin)
  qed
qed

lemma imageAndTag_last_segment:
  "(if length (Split img CHR ''/'') \<ge> 2
    then Split img CHR ''/'' ! (length (Split img CHR ''/'') - 1) else img) = last_segment img"
proof (cases "length (Split img CHR ''/'') \<ge> 2")
  case True
  have "Split img CHR ''/'' ! (length (Split img CHR ''/'') - 1) = last (Split img CHR ''/'')"
    by (simp add: last_conv_nth Split_nonempty)
  with True show ?thesis
    by (simp add: last_Split last_segment_def)
next
  case False
  then have "count_list img CHR ''/'' = 0" by (simp add: length_Split)
  then have "CHR ''/'' \<notin> set img" by (simp add: count_list_0_iff)
  then have "last_segment img = img"
    by (simp add: last_segment_def takeWhile_neq_all)
  with False show ?thesis by simp
qed

lemma Split_second_is_last:
  "length (Split s c) = 2 \<Longrightarrow> Split s c ! 1 = rev (takeWhile (\<lambda>x. x \<noteq> c) (rev s))"
proof -
  assume len: "length (Split s c) = 2"
  then have "Split s c ! 1 = last (Split s c)"
    by (simp add: last_conv_nth Split_nonempty)
  then show ?thesis by (simp add: last_Split)
qed

lemma getImageTag_is_image_tag_spec: "getImageTag img = image_tag_spec img"
proof -
  let ?seg = "last_segment img"
  have tag: "getImageTag img =
      (if length (Split ?seg CHR '':'') = 2 then Split ?seg CHR '':'' ! 1 else ''latest'')"
    unfolding getImageTag_def Let_def imageAndTag_last_segment ..
  show ?thesis
  proof (cases "count_list ?seg CHR '':'' = 1")
    case True
    then have "length (Split ?seg CHR '':'') = 2" by (simp add: length_Split)
    then show ?thesis
      using True tag Split_second_is_last [of ?seg "CHR '':''"]
      by (simp add: image_tag_spec_def after_last_colon_def)
  next
    case False
    then have "length (Split ?seg CHR '':'') \<noteq> 2" by (simp add: length_Split)
    with False tag show ?thesis by (simp add: image_tag_spec_def)
  qed
qed

lemma initBuildConfig_output:
  "initBuildConfig w name service repo branch = Inr obj \<Longrightarrow>
   \<exists>m spec. obj = BuildConfig m spec \<and> OutputToKind spec = ''ImageStreamTag''
     \<and> OutputToName spec = name @ '':'' @ getImageTag (Image service)"
  by (auto simp: initBuildConfig_def Let_def split: sum.splits)

text \<open>
  C5: for every image reference \<open>getImageTag\<close> returns the substring after the last colon
  of the last slash-separated segment when that segment contains exactly one colon, and
  "latest" otherwise; it returns "latest" for "registry.io:5000/team/app", "1.2" for
  "team/app:1.2" and "latest" for "app"; and the output target of a BuildConfig that
  \<open>initBuildConfig\<close> builds is the service name, a colon and that tag.
\<close>

theorem image_tag_parsing:
  "getImageTag img = image_tag_spec img
   \<and> getImageTag ''registry.io:5000/team/app'' = ''latest''
   \<and> getImageTag ''team/app:1.2'' = ''1.2''
   \<and> getImageTag ''app'' = ''latest''
   \<and> (initBuildConfig w name service repo branch = Inr obj \<longrightarrow>
        (\<exists>m spec. obj = BuildConfig m spec \<and> OutputToKind spec = ''ImageStreamTag''
           \<and> OutputToName spec = name @ '':'' @ getImageTag (Image service)))"
proof -
  have "getImageTag ''registry.io:5000/team/app'' = ''latest''"
    by (simp add: getImageTag_def)
  moreover have "getImageTag ''team/app:1.2'' = ''1.2''"
    by (simp add: getImageTag_def)
  moreover have "getImageTag ''app'' = ''latest''"
    by (simp add: getImageTag_def)
  ultimately show ?thesis
    using getImageTag_is_image_tag_spec [of img]
      initBuildConfig_output [of w name service repo branch obj]
    by blast
qed

theorem image_tag_parsing_witness:
  "initBuildConfig exampleWorld ''web'' exampleBuildService ''repo'' ''master''
     = Inr (BuildConfig \<lparr>Name = ''web'', Labels = ConfigLabels ''web''\<rparr>
         \<lparr>GitRef = ''master'', GitURI = ''repo'', ContextDir = ''build/'',
          DockerfilePath = [], DockerEnv = [(''a'', ''from-env''), (''b'', ''2'')],
          OutputToKind = ''ImageStreamTag'', OutputToName = ''web:1.2''\<rparr>)
   \<and> getImageTag (Image exampleBuildService) = ''1.2''"
  using image_tag_parsing [of "Image exampleBuildService" exampleWorld "''web''" exampleBuildService
      "''repo''" "''master''"]
  by (simp add: initBuildConfig_def exampleWorld_def exampleBuildService_def zero_ServiceConfig_def
      getAbsBuildContext_def Trim_nl_def TrimRight_nl_def EnvSort_def getImageTag_def)

section \<open>The loops over the services\<close>

lemma Kubernetes_loop_Inr:
  "Kubernetes_loop w opt ko acc names = Inr all \<Longrightarrow>
   (\<forall>n\<in>set names. \<exists>objs. Kubernetes_service w opt n (ServiceConfigs ko n) = Inr objs)
   \<and> all = acc @ concat (map (\<lambda>n. projr (Kubernetes_service w opt n (ServiceConfigs ko n))) names)"
proof (induction names arbitrary: acc)
  case Nil
  then show ?case by simp
next
  case (Cons n names)
  from Cons.prems obtain objs where
    body: "Kubernetes_service w opt n (ServiceConfigs ko n) = Inr objs"
    and rest: "Kubernetes_loop w opt ko (acc @ objs) names = Inr all"
    by (auto split: sum.splits)
  from Cons.IH [OF rest] body show ?case by auto
qed

lemma Kubernetes_loop_Inl:
  "n \<in> set names \<Longrightarrow> Kubernetes_service w opt n (ServiceConfigs ko n) = Inl e \<Longrightarrow>
   \<exists>e'. Kubernetes_loop w opt ko acc names = Inl e'"
proof (induction names arbitrary: acc)
  case Nil
  then show ?case by simp
next
  case (Cons m names)
  show ?case
  proof (cases "Kubernetes_service w opt m (ServiceConfigs ko m)")
    case (Inl e0)
    then show ?thesis by simp
  next
    case (Inr objs)
    with Cons.prems have "n \<in> set names" by auto
    from Cons.IH [OF this Cons.prems(2)] Inr show ?thesis by simp
  qed
qed

lemma OpenShift_loop_Inl:
  "n \<in> set names \<Longrightarrow>
   (\<And>r b. \<exists>e. OpenShift_service w opt n (ServiceConfigs ko n) r b = Return e) \<Longrightarrow>
   \<exists>e'. OpenShift_loop w opt ko (acc, r0, b0) names = Inl e'"
proof (induction names arbitrary: acc r0 b0)
  case Nil
  then show ?case by simp
next
  case (Cons m names)
  show ?case
  proof (cases "OpenShift_service w opt m (ServiceConfigs ko m) r0 b0")
    case (Return e0)
    then show ?thesis by simp
  next
    case Continue
    with Cons.prems(2) have "m \<noteq> n" by (metis step.distinct(1))
    with Cons.prems have "n \<in> set names" by auto
    from Cons.IH [OF this Cons.prems(2)] Continue show ?thesis by simp
  next
    case (Proceed x)
    obtain objs r b where x: "x = (objs, r, b)" by (cases x) auto
    from Proceed Cons.prems(2) have "m \<noteq> n" by (metis step.distinct(3))
    with Cons.prems have "n \<in> set names" by auto
    from Cons.IH [OF this Cons.prems(2)] Proceed x show ?thesis by simp
  qed
qed

lemma SortedKeys_member: "map_of ko name = Some service \<Longrightarrow> name \<in> set (SortedKeys ko)"
  by (auto simp: SortedKeys_def dest: map_of_SomeD intro: rev_image_eqI)

lemma ServiceConfigs_Some: "map_of ko name = Some service \<Longrightarrow> ServiceConfigs ko name = service"
  by (simp add: ServiceConfigs_def)

lemma Kubernetes_service_forced:
  assumes "Restart service = ''no'' \<or> Restart service = ''on-failure''"
    and "IsDeploymentFlag opt \<or> IsDaemonSetFlag opt \<or> IsReplicationControllerFlag opt"
  shows "\<exists>e. Kubernetes_service w opt name service = Inl e"
  using assms by (auto simp: Kubernetes_service_def Let_def split: option.splits)

lemma OpenShift_service_forced:
  assumes "Restart service = ''no'' \<or> Restart service = ''on-failure''"
    and "IsDeploymentConfigFlag opt"
  shows "\<exists>e. OpenShift_service w opt name service r b = Return e"
  using assms by (auto simp: OpenShift_service_def Let_def split: option.splits)


section \<open>Restart policy against a forced controller kind\<close>

text \<open>
  C6: when a service of the model has restart policy "no" or "on-failure" and the options
  force a controller kind (deployment, daemon set or replication controller for
  \<open>Kubernetes.Transform\<close>; deployment config for \<open>OpenShift.Transform\<close>), the transform
  ends with an error and hands back no object graph.
\<close>

theorem forced_controller_rejected:
  assumes "map_of komposeObject name = Some service"
    and "Restart service = ''no'' \<or> Restart service = ''on-failure''"
  shows "(IsDeploymentFlag opt \<or> IsDaemonSetFlag opt \<or> IsReplicationControllerFlag opt \<longrightarrow>
            (\<exists>err. Kubernetes_Transform w komposeObject opt = Inl err))
         \<and> (IsDeploymentConfigFlag opt \<longrightarrow>
              (\<exists>err. OpenShift_Transform w komposeObject opt = Inl err))"
proof (intro conjI impI)
  have mem: "name \<in> set (SortedKeys komposeObject)"
    using assms(1) by (rule SortedKeys_member)
  have cfg: "ServiceConfigs komposeObject name = service"
    using assms(1) by (rule ServiceConfigs_Some)
  {
    assume "IsDeploymentFlag opt \<or> IsDaemonSetFlag opt \<or> IsReplicationControllerFlag opt"
    then obtain e where "Kubernetes_service w opt name (ServiceConfigs komposeObject name) = Inl e"
      using Kubernetes_service_forced [OF assms(2)] cfg by blast
    then obtain e' where
      "Kubernetes_loop w opt komposeObject [] (SortedKeys komposeObject) = Inl e'"
      using Kubernetes_loop_Inl [OF mem] by blast
    then show "\<exists>err. Kubernetes_Transform w komposeObject opt = Inl err"
      by (simp add: Kubernetes_Transform_def)
  }
  {
    assume flag: "IsDeploymentConfigFlag opt"
    have "\<exists>e'. OpenShift_loop w opt komposeObject ([], BuildRepo opt, BuildBranch opt)
             (SortedKeys komposeObject) = Inl e'"
      using mem
    proof (rule OpenShift_loop_Inl)
      fix r b
      show "\<exists>e. OpenShift_service w opt name (ServiceConfigs komposeObject name) r b = Return e"
        using OpenShift_service_forced [OF assms(2) flag] cfg by simp
    qed
    then show "\<exists>err. OpenShift_Transform w komposeObject opt = Inl err"
      by (auto simp: OpenShift_Transform_def)
  }
qed

theorem forced_controller_rejected_witness:
  "map_of exampleModel ''job'' = Some exampleJob
   \<and> Restart exampleJob = ''on-failure''
   \<and> (\<exists>err. Kubernetes_Transform exampleWorld exampleModel
               (exampleOpt\<lparr>IsDeploymentFlag := True\<rparr>) = Inl err)
   \<and> (\<exists>err. OpenShift_Transform exampleWorld exampleModel
               (exampleOpt\<lparr>IsDeploymentConfigFlag := True\<rparr>) = Inl err)"
proof -
  have m: "map_of exampleModel ''job'' = Some exampleJob"
    by (simp add: exampleModel_def)
  have r: "Restart exampleJob = ''no'' \<or> Restart exampleJob = ''on-failure''"
    by (simp add: exampleJob_def)
  show ?thesis
    using m r
      forced_controller_rejected [OF m r, of "exampleOpt\<lparr>IsDeploymentFlag := True\<rparr>" exampleWorld]
      forced_controller_rejected [OF m r, of "exampleOpt\<lparr>IsDeploymentConfigFlag := True\<rparr>" exampleWorld]
    by (simp add: exampleJob_def)
qed

section \<open>The example model, evaluated\<close>

lemmas service_defs = Kubernetes_service_def Kubernetes_buildAndPush_def Kubernetes_exposure_def
  CreateKubernetesObjects_def PortsExist_def CreateHeadlessService_def CreateService_def
  InitSvc_def UpdateKubernetesObjects_def ConfigVolumes_def CreatePVC_def InitD_def InitDS_def
  InitRC_def InitPod_def InitPodSpec_def ConfigPVCVolumeSource_def ConfigEmptyVolumeSource_def
  ConfigServicePorts_def ServicePortOf_def initIngress_def ProtocolTCP_def PVCRequestSize_def
  Itoa_def Itoa_nat.simps Let_def

lemma exampleDb_objects:
  "Kubernetes_service exampleWorld exampleOpt ''db'' exampleDb =
     Inr [exampleGraph ! 3, exampleGraph ! 0, exampleGraph ! 4]"
  by (simp add: exampleOpt_def exampleDb_def zero_ServiceConfig_def service_defs exampleGraph_def)

lemma exampleJob_objects:
  "Kubernetes_service exampleWorld exampleOpt ''job'' exampleJob =
     Inr [exampleGraph ! 5, exampleGraph ! 6]"
  by (simp add: exampleOpt_def exampleJob_def zero_ServiceConfig_def service_defs exampleGraph_def)

lemma exampleWeb_objects:
  "Kubernetes_service exampleWorld exampleOpt ''web'' exampleWeb =
     Inr [exampleGraph ! 7, exampleGraph ! 1, exampleGraph ! 2]"
  by (simp add: exampleOpt_def exampleWeb_def zero_ServiceConfig_def service_defs exampleGraph_def)

lemma exampleModel_keys: "SortedKeys exampleModel = [''db'', ''job'', ''web'']"
  by (simp add: SortedKeys_def exampleModel_def)

lemma exampleModel_lookup:
  "ServiceConfigs exampleModel ''db'' = exampleDb"
  "ServiceConfigs exampleModel ''job'' = exampleJob"
  "ServiceConfigs exampleModel ''web'' = exampleWeb"
  by (simp_all add: ServiceConfigs_def exampleModel_def)

lemma exampleGraph_eval:
  "Kubernetes_Transform exampleWorld exampleModel exampleOpt = Inr exampleGraph"
proof -
  have "Kubernetes_loop exampleWorld exampleOpt exampleModel [] (SortedKeys exampleModel)
          = Inr [exampleGraph ! 3, exampleGraph ! 0, exampleGraph ! 4, exampleGraph ! 5,
                 exampleGraph ! 6, exampleGraph ! 7, exampleGraph ! 1, exampleGraph ! 2]"
    by (simp add: exampleModel_keys exampleModel_lookup exampleDb_objects exampleJob_objects
        exampleWeb_objects)
  then show ?thesis
    by (simp add: Kubernetes_Transform_def exampleGraph_def SortServicesFirst_def isExposure_def)
qed


section \<open>The ordering pass\<close>

lemma SortServicesFirst_loop_filter:
  "SortServicesFirst_loop svc others objs =
     (svc @ filter isExposure objs) @ (others @ filter (\<lambda>obj. \<not> isExposure obj) objs)"
  by (induction objs arbitrary: svc others) auto

lemma SortServicesFirst_filter:
  "SortServicesFirst objs = filter isExposure objs @ filter (\<lambda>obj. \<not> isExposure obj) objs"
  by (simp add: SortServicesFirst_def SortServicesFirst_loop_filter)

lemma SortServicesFirst_order:
  assumes "i < length (SortServicesFirst objs)" "j < length (SortServicesFirst objs)"
    "isExposure (SortServicesFirst objs ! i)" "\<not> isExposure (SortServicesFirst objs ! j)"
  shows "i < j"
proof (rule ccontr)
  let ?a = "filter isExposure objs" and ?b = "filter (\<lambda>obj. \<not> isExposure obj) objs"
  assume "\<not> i < j"
  then have ji: "j \<le> i" by simp
  have i_lt: "i < length ?a"
  proof (rule ccontr)
    assume "\<not> i < length ?a"
    then have "SortServicesFirst objs ! i = ?b ! (i - length ?a)" "i - length ?a < length ?b"
      using assms(1) by (auto simp: SortServicesFirst_filter nth_append)
    then have "SortServicesFirst objs ! i \<in> set ?b" by (metis nth_mem)
    with assms(3) show False by simp
  qed
  with ji have "j < length ?a" by simp
  then have "SortServicesFirst objs ! j = ?a ! j" by (simp add: SortServicesFirst_filter nth_append)
  with \<open>j < length ?a\<close> have "SortServicesFirst objs ! j \<in> set ?a" by (metis nth_mem)
  with assms(4) show False by simp
qed

lemma SortServicesFirst_stable:
  "filter isExposure (SortServicesFirst objs) = filter isExposure objs
   \<and> filter (\<lambda>obj. \<not> isExposure obj) (SortServicesFirst objs) = filter (\<lambda>obj. \<not> isExposure obj) objs"
  by (simp add: SortServicesFirst_filter)

text \<open>
  C3: in the graph either transform returns, every exposure, route or ingress object
  stands at a smaller index than every other object, and within each of the two groups
  the objects keep the order in which the loop over the services emitted them.
\<close>

theorem exposure_objects_first:
  "(Kubernetes_Transform w komposeObject opt = Inr graph \<longrightarrow>
      (\<exists>emitted. Kubernetes_loop w opt komposeObject [] (SortedKeys komposeObject) = Inr emitted
         \<and> filter isExposure graph = filter isExposure emitted
         \<and> filter (\<lambda>obj. \<not> isExposure obj) graph = filter (\<lambda>obj. \<not> isExposure obj) emitted))
   \<and> (OpenShift_Transform w komposeObject opt = Inr graph \<longrightarrow>
      (\<exists>emitted. OpenShift_loop w opt komposeObject ([], BuildRepo opt, BuildBranch opt)
                   (SortedKeys komposeObject) = Inr emitted
         \<and> filter isExposure graph = filter isExposure emitted
         \<and> filter (\<lambda>obj. \<not> isExposure obj) graph = filter (\<lambda>obj. \<not> isExposure obj) emitted))
   \<and> (Kubernetes_Transform w komposeObject opt = Inr graph
        \<or> OpenShift_Transform w komposeObject opt = Inr graph \<longrightarrow>
      (\<forall>i j. i < length graph \<and> j < length graph
             \<and> isExposure (graph ! i) \<and> \<not> isExposure (graph ! j) \<longrightarrow> i < j))"
proof (intro conjI impI)
  assume "Kubernetes_Transform w komposeObject opt = Inr graph"
  then obtain emitted where
    "Kubernetes_loop w opt komposeObject [] (SortedKeys komposeObject) = Inr emitted"
    "graph = SortServicesFirst emitted"
    by (auto simp: Kubernetes_Transform_def split: sum.splits)
  then show "\<exists>emitted. Kubernetes_loop w opt komposeObject [] (SortedKeys komposeObject) = Inr emitted
         \<and> filter isExposure graph = filter isExposure emitted
         \<and> filter (\<lambda>obj. \<not> isExposure obj) graph = filter (\<lambda>obj. \<not> isExposure obj) emitted"
    using SortServicesFirst_stable [of emitted] by simp
next
  assume "OpenShift_Transform w komposeObject opt = Inr graph"
  then obtain emitted where
    "OpenShift_loop w opt komposeObject ([], BuildRepo opt, BuildBranch opt)
       (SortedKeys komposeObject) = Inr emitted"
    "graph = SortServicesFirst emitted"
    by (auto simp: OpenShift_Transform_def split: sum.splits)
  then show "\<exists>emitted. OpenShift_loop w opt komposeObject ([], BuildRepo opt, BuildBranch opt)
                   (SortedKeys komposeObject) = Inr emitted
         \<and> filter isExposure graph = filter isExposure emitted
         \<and> filter (\<lambda>obj. \<not> isExposure obj) graph = filter (\<lambda>obj. \<not> isExposure obj) emitted"
    using SortServicesFirst_stable [of emitted] by simp
next
  assume "Kubernetes_Transform w komposeObject opt = Inr graph
          \<or> OpenShift_Transform w komposeObject opt = Inr graph"
  then obtain emitted where g: "graph = SortServicesFirst emitted"
    by (auto simp: Kubernetes_Transform_def OpenShift_Transform_def split: sum.splits)
  show "\<forall>i j. i < length graph \<and> j < length graph
             \<and> isExposure (graph ! i) \<and> \<not> isExposure (graph ! j) \<longrightarrow> i < j"
    unfolding g using SortServicesFirst_order by blast
qed

theorem exposure_objects_first_witness:
  "Kubernetes_Transform exampleWorld exampleModel exampleOpt = Inr exampleGraph
   \<and> map KindOf exampleGraph =
       [KService, KService, KIngress, KDeployment, KPersistentVolumeClaim, KPod,
        KPersistentVolumeClaim, KDeployment]
   \<and> (\<exists>emitted. Kubernetes_loop exampleWorld exampleOpt exampleModel []
                   (SortedKeys exampleModel) = Inr emitted
         \<and> filter isExposure exampleGraph = filter isExposure emitted
         \<and> filter (\<lambda>obj. \<not> isExposure obj) exampleGraph
             = filter (\<lambda>obj. \<not> isExposure obj) emitted)"
proof -
  have k: "map KindOf exampleGraph =
       [KService, KService, KIngress, KDeployment, KPersistentVolumeClaim, KPod,
        KPersistentVolumeClaim, KDeployment]"
    by (simp add: exampleGraph_def)
  show ?thesis
    using exposure_objects_first [of exampleWorld exampleModel exampleOpt exampleGraph]
      exampleGraph_eval k
    by blast
qed

section \<open>What the objects of one service look like inside the graph\<close>

lemma ConfigVolumes_loop_kinds:
  "\<forall>obj\<in>set (snd (snd acc)). KindOf obj = KPersistentVolumeClaim \<Longrightarrow>
   \<forall>obj\<in>set (snd (snd (ConfigVolumes_loop e acc vols))). KindOf obj = KPersistentVolumeClaim"
proof (induction vols arbitrary: acc)
  case Nil
  then show ?case by simp
next
  case (Cons volume rest)
  obtain ms vs ps where acc: "acc = (ms, vs, ps)" by (cases acc) auto
  show ?case
    unfolding acc ConfigVolumes_loop.simps Let_def
    by (rule Cons.IH) (use Cons.prems acc in \<open>auto simp: CreatePVC_def\<close>)
qed

lemma claims_kinds:
  "obj \<in> set (snd (snd (ConfigVolumes opt name service))) \<Longrightarrow> KindOf obj = KPersistentVolumeClaim"
  using ConfigVolumes_loop_kinds [of "([], [], [])" "EmptyVols opt" "Volumes service"]
  by (simp add: ConfigVolumes_def)

lemma UpdateKubernetesObjects_append:
  "UpdateKubernetesObjects opt name service objects =
     objects @ snd (snd (ConfigVolumes opt name service))"
  by (simp add: UpdateKubernetesObjects_def split: prod.splits)

lemma filter_UpdateKubernetesObjects:
  assumes "\<And>obj. P obj \<Longrightarrow> KindOf obj \<noteq> KPersistentVolumeClaim"
  shows "filter P (UpdateKubernetesObjects opt name service objects) = filter P objects"
proof -
  have "filter P (snd (snd (ConfigVolumes opt name service))) = []"
    using assms claims_kinds by (fastforce simp: filter_empty_conv)
  then show ?thesis by (simp add: UpdateKubernetesObjects_append)
qed

lemma CreateKubernetesObjects_names:
  "obj \<in> set (CreateKubernetesObjects name service opt) \<Longrightarrow>
   GetName obj = name \<and> KindOf obj \<in> {KDeployment, KDaemonSet, KReplicationController}"
  by (auto simp: CreateKubernetesObjects_def Let_def InitD_def InitDS_def InitRC_def GetName_def
      split: if_splits)

lemma Kubernetes_exposure_names:
  assumes "Kubernetes_exposure opt name service objects = Inr objects'"
    and "\<forall>obj\<in>set objects. GetName obj = name"
  shows "\<forall>obj\<in>set objects'. GetName obj = name"
  using assms
  by (auto simp: Kubernetes_exposure_def CreateService_def CreateHeadlessService_def InitSvc_def
      initIngress_def GetName_def Let_def split: if_splits list.splits)

lemma Kubernetes_service_names:
  assumes "Kubernetes_service w opt name service = Inr objects" "obj \<in> set objects"
  shows "KindOf obj = KPersistentVolumeClaim \<or> GetName obj = name"
proof -
  let ?service = "if Image service = [] then service\<lparr>Image := name\<rparr> else service"
  from assms(1) consider
    (pod) "objects = UpdateKubernetesObjects opt name ?service [InitPod name ?service]"
    | (ctl) objs where "Kubernetes_exposure opt name ?service
          (CreateKubernetesObjects name ?service opt) = Inr objs"
        "objects = UpdateKubernetesObjects opt name ?service objs"
    by (auto simp: Kubernetes_service_def Let_def split: option.splits if_splits sum.splits)
  then show ?thesis
  proof cases
    case pod
    with assms(2) show ?thesis
      using claims_kinds by (auto simp: UpdateKubernetesObjects_append InitPod_def GetName_def)
  next
    case ctl
    have "\<forall>obj\<in>set objs. GetName obj = name"
      using ctl(1) by (rule Kubernetes_exposure_names) (simp add: CreateKubernetesObjects_names)
    with ctl(2) assms(2) show ?thesis
      using claims_kinds by (auto simp: UpdateKubernetesObjects_append)
  qed
qed

lemma filter_SortServicesFirst:
  assumes "(\<forall>obj. P obj \<longrightarrow> isExposure obj) \<or> (\<forall>obj. P obj \<longrightarrow> \<not> isExposure obj)"
  shows "filter P (SortServicesFirst objs) = filter P objs"
proof -
  from assms show ?thesis
  proof
    assume a: "\<forall>obj. P obj \<longrightarrow> isExposure obj"
    then have "filter P (filter isExposure objs) = filter P objs"
      "filter P (filter (\<lambda>obj. \<not> isExposure obj) objs) = []"
      by (auto simp: filter_empty_conv intro: filter_cong)
    then show ?thesis by (simp add: SortServicesFirst_filter)
  next
    assume a: "\<forall>obj. P obj \<longrightarrow> \<not> isExposure obj"
    then have "filter P (filter isExposure objs) = []"
      "filter P (filter (\<lambda>obj. \<not> isExposure obj) objs) = filter P objs"
      by (auto simp: filter_empty_conv intro: filter_cong)
    then show ?thesis by (simp add: SortServicesFirst_filter)
  qed
qed

lemma concat_map_single:
  assumes "distinct names" "n \<in> set names" "\<And>m. m \<in> set names \<Longrightarrow> m \<noteq> n \<Longrightarrow> g m = []"
  shows "concat (map g names) = g n"
  using assms
proof (induction names)
  case Nil
  then show ?case by simp
next
  case (Cons m names)
  show ?case
  proof (cases "m = n")
    case True
    with Cons.prems(1) have "n \<notin> set names" by simp
    with Cons.prems(3) have "\<forall>k\<in>set names. g k = []" by auto
    then have "concat (map g names) = []" by simp
    with True show ?thesis by simp
  next
    case False
    with Cons.prems have "n \<in> set names" "distinct names" "g m = []" by auto
    with Cons.IH Cons.prems(3) show ?thesis by simp
  qed
qed

lemma distinct_SortedKeys: "distinct (SortedKeys ko)"
  by (simp add: SortedKeys_def)

lemma Kubernetes_Transform_filter:
  assumes tr: "Kubernetes_Transform w ko opt = Inr graph"
    and svc: "map_of ko name = Some service"
    and P_name: "\<And>obj. P obj \<Longrightarrow> GetName obj = name \<and> KindOf obj \<noteq> KPersistentVolumeClaim"
    and P_kind: "(\<forall>obj. P obj \<longrightarrow> isExposure obj) \<or> (\<forall>obj. P obj \<longrightarrow> \<not> isExposure obj)"
  shows "\<exists>objects. Kubernetes_service w opt name service = Inr objects
           \<and> filter P graph = filter P objects"
proof -
  let ?f = "\<lambda>n. projr (Kubernetes_service w opt n (ServiceConfigs ko n))"
  from tr obtain emitted where
    loop: "Kubernetes_loop w opt ko [] (SortedKeys ko) = Inr emitted"
    and graph: "graph = SortServicesFirst emitted"
    by (auto simp: Kubernetes_Transform_def split: sum.splits)
  from Kubernetes_loop_Inr [OF loop] have
    ok: "\<forall>n\<in>set (SortedKeys ko). \<exists>objs. Kubernetes_service w opt n (ServiceConfigs ko n) = Inr objs"
    and emitted: "emitted = concat (map ?f (SortedKeys ko))"
    by auto
  have mem: "name \<in> set (SortedKeys ko)" using svc by (rule SortedKeys_member)
  have cfg: "ServiceConfigs ko name = service" using svc by (rule ServiceConfigs_Some)
  from ok mem cfg obtain objects where
    body: "Kubernetes_service w opt name service = Inr objects" by auto
  have other: "filter P (?f m) = []" if "m \<in> set (SortedKeys ko)" "m \<noteq> name" for m
  proof -
    from ok that(1) obtain objs where
      b: "Kubernetes_service w opt m (ServiceConfigs ko m) = Inr objs" by auto
    have "\<not> P obj" if "obj \<in> set objs" for obj
      using Kubernetes_service_names [OF b that] P_name [of obj] \<open>m \<noteq> name\<close> by auto
    with b show ?thesis by (simp add: filter_empty_conv)
  qed
  have "filter P emitted = concat (map (\<lambda>n. filter P (?f n)) (SortedKeys ko))"
    by (simp add: emitted filter_concat comp_def)
  also have "\<dots> = filter P (?f name)"
    using distinct_SortedKeys mem other by (rule concat_map_single)
  finally have "filter P emitted = filter P objects" by (simp add: cfg body)
  with graph filter_SortServicesFirst [OF P_kind] body show ?thesis by auto
qed


section \<open>The exposure object of a service\<close>

lemma ConfigServicePorts_loop_map:
  "ConfigServicePorts_loop servicePorts ports = servicePorts @ map ServicePortOf ports"
  by (induction ports arbitrary: servicePorts) auto

lemma ConfigServicePorts_map:
  "ConfigServicePorts name service = map ServicePortOf (Port service)"
  by (simp add: ConfigServicePorts_def ConfigServicePorts_loop_map)

lemma ServicePortOf_fields:
  "PortNumber (ServicePortOf p) = (if HostPort p = 0 then ContainerPort p else HostPort p)"
  "PortName (ServicePortOf p) = Itoa (sint (if HostPort p = 0 then ContainerPort p else HostPort p))"
  "PortProtocol (ServicePortOf p) = (if Protocol p = ''TCP'' then [] else Protocol p)"
  "IntVal (TargetPort (ServicePortOf p)) = ContainerPort p"
  by (simp_all add: ServicePortOf_def Let_def ProtocolTCP_def)

lemma Kubernetes_service_exposure:
  assumes "Kubernetes_service w opt name service = Inr objects"
    and "Restart service \<noteq> ''no''" "Restart service \<noteq> ''on-failure''"
  shows "\<exists>m spec. filter (\<lambda>obj. KindOf obj = KService \<and> GetName obj = name) objects = [Service m spec]
           \<and> Name m = name \<and> ServiceSelector spec = ConfigLabels name
           \<and> (Port service = [] \<longrightarrow> ServicePorts spec = [] \<and> ClusterIP spec = ''None'')
           \<and> (Port service \<noteq> [] \<longrightarrow> ServicePorts spec = map ServicePortOf (Port service))"
proof -
  let ?P = "\<lambda>obj. KindOf obj = KService \<and> GetName obj = name"
  let ?service = "if Image service = [] then service\<lparr>Image := name\<rparr> else service"
  let ?ctl = "CreateKubernetesObjects name ?service opt"
  from assms obtain objs where
    ex: "Kubernetes_exposure opt name ?service ?ctl = Inr objs"
    and objects: "objects = UpdateKubernetesObjects opt name ?service objs"
    by (auto simp: Kubernetes_service_def Let_def split: option.splits if_splits sum.splits)
  have f: "filter ?P objects = filter ?P objs"
    unfolding objects by (rule filter_UpdateKubernetesObjects) simp
  have ctl: "filter ?P ?ctl = []"
    using CreateKubernetesObjects_names [of _ name ?service opt]
    by (fastforce simp: filter_empty_conv)
  have port: "Port ?service = Port service" and expose: "ExposeService ?service = ExposeService service"
    by simp_all
  show ?thesis
  proof (cases "Port service = []")
    case True
    with ex port have "objs = ?ctl @ [Service \<lparr>Name = name, Labels = ConfigLabels name\<rparr>
        \<lparr>ServiceSelector = ConfigLabels name, ServicePorts = [], ClusterIP = ''None''\<rparr>]"
      by (auto simp: Kubernetes_exposure_def PortsExist_def CreateHeadlessService_def InitSvc_def)
    with f ctl True show ?thesis by (simp add: GetName_def)
  next
    case False
    let ?svc = "Service \<lparr>Name = name, Labels = ConfigLabels name\<rparr>
        \<lparr>ServiceSelector = ConfigLabels name, ServicePorts = map ServicePortOf (Port service),
         ClusterIP = []\<rparr>"
    from False ex port have "objs = ?ctl @ [?svc]
        \<or> (\<exists>p. objs = ?ctl @ [?svc] @ [initIngress name ?service p])"
      by (auto simp: Kubernetes_exposure_def PortsExist_def CreateService_def InitSvc_def
          ConfigServicePorts_map split: if_splits list.splits)
    then have "filter ?P objs = [?svc]"
      using ctl by (auto simp: GetName_def initIngress_def Let_def)
    with f False show ?thesis by simp
  qed
qed

section \<open>The objects of one service, kind by kind\<close>

lemma Kubernetes_exposure_eq:
  "Kubernetes_exposure opt name service objects =
     (case Port service of
        [] \<Rightarrow> Inr (objects @ [headlessService name])
      | p # ps \<Rightarrow>
          (if ExposeService service = [] then Inr (objects @ [addressedService name service])
           else Inr (objects @ [addressedService name service,
                                initIngress name service (PortNumber (ServicePortOf p))])))"
  by (simp add: Kubernetes_exposure_def PortsExist_def CreateService_def
      CreateHeadlessService_def InitSvc_def ConfigServicePorts_map headlessService_def
      addressedService_def split: list.splits)

lemma OpenShift_exposure_eq:
  "OpenShift_exposure opt name service objects =
     (case Port service of
        [] \<Rightarrow> Inr (objects @ [headlessService name])
      | p # ps \<Rightarrow>
          (if ExposeService service = [] then Inr (objects @ [addressedService name service])
           else Inr (objects @ [addressedService name service,
                                initRoute name service (PortNumber (ServicePortOf p))])))"
  by (simp add: OpenShift_exposure_def PortsExist_def CreateService_def
      CreateHeadlessService_def InitSvc_def ConfigServicePorts_map headlessService_def
      addressedService_def split: list.splits)

lemma CreateKubernetesObjects_kinds:
  "obj \<in> set (CreateKubernetesObjects name service opt) \<Longrightarrow>
   GetName obj = name \<and> KindOf obj \<noteq> KService \<and> KindOf obj \<noteq> KRoute
   \<and> KindOf obj \<noteq> KIngress \<and> KindOf obj \<noteq> KPod"
  using CreateKubernetesObjects_names [of obj name service opt] by auto

lemma OpenShift_buildConfig_name:
  "OpenShift_buildConfig w opt name service r b = Proceed (bc, r', b') \<Longrightarrow>
   GetName bc = name \<and> KindOf bc = KBuildConfig"
  by (auto simp: OpenShift_buildConfig_def initBuildConfig_def Let_def GetName_def
      split: sum.splits if_splits)

text \<open>The controller, image-stream and build objects that precede the exposure object.\<close>

lemma OpenShift_service_cases:
  assumes "OpenShift_service w opt name service r b = Proceed (objects, r', b')"
  obtains
    (pod) "Restart service = ''no'' \<or> Restart service = ''on-failure''"
      "objects = UpdateKubernetesObjects opt name
                   (if Image service = [] then service\<lparr>Image := name\<rparr> else service)
                   [InitPod name (if Image service = [] then service\<lparr>Image := name\<rparr> else service)]"
  | (ctl) pre objs where
      "Restart service \<noteq> ''no''" "Restart service \<noteq> ''on-failure''"
      "\<forall>obj\<in>set pre. GetName obj = name \<and> KindOf obj \<noteq> KService \<and> KindOf obj \<noteq> KRoute
          \<and> KindOf obj \<noteq> KIngress \<and> KindOf obj \<noteq> KPod"
      "OpenShift_exposure opt name
         (if Image service = [] then service\<lparr>Image := name\<rparr> else service) pre = Inr objs"
      "objects = UpdateKubernetesObjects opt name
                   (if Image service = [] then service\<lparr>Image := name\<rparr> else service) objs"
proof -
  let ?service = "if Image service = [] then service\<lparr>Image := name\<rparr> else service"
  let ?replica = "if IsReplicaSetFlag opt \<or> Replicas service = 0 then DefaultReplicas opt
                  else Replicas service"
  let ?objects1 = "CreateKubernetesObjects name ?service opt"
  let ?objects2 = "if CreateDeploymentConfig opt
                   then ?objects1 @ [initDeploymentConfig name ?service ?replica]
                        @ [initImageStream name ?service opt]
                   else ?objects1"
  have two: "\<forall>obj\<in>set ?objects2. GetName obj = name \<and> KindOf obj \<noteq> KService
      \<and> KindOf obj \<noteq> KRoute \<and> KindOf obj \<noteq> KIngress \<and> KindOf obj \<noteq> KPod"
    using CreateKubernetesObjects_kinds [of _ name ?service opt]
    by (auto simp: initDeploymentConfig_def initImageStream_def Let_def GetName_def)
  show ?thesis
  proof (cases "Restart service = ''no'' \<or> Restart service = ''on-failure''")
    case True
    with assms have "objects = UpdateKubernetesObjects opt name ?service [InitPod name ?service]"
      by (auto simp: OpenShift_service_def Let_def split: option.splits if_splits)
    with True show ?thesis by (rule pod)
  next
    case False
    show ?thesis
    proof (cases "Build ?service \<noteq> [] \<and> BuildMode opt = ''build-config''")
      case True
      with False assms obtain bc objs where
        bc: "OpenShift_buildConfig w opt name ?service r b = Proceed (bc, r', b')"
        and ex: "OpenShift_exposure opt name ?service (?objects2 @ [bc]) = Inr objs"
        and ob: "objects = UpdateKubernetesObjects opt name ?service objs"
        by (auto simp: OpenShift_service_def Let_def
            split: option.splits if_splits step.splits sum.splits)
      from OpenShift_buildConfig_name [OF bc] two have
        "\<forall>obj\<in>set (?objects2 @ [bc]). GetName obj = name \<and> KindOf obj \<noteq> KService
           \<and> KindOf obj \<noteq> KRoute \<and> KindOf obj \<noteq> KIngress \<and> KindOf obj \<noteq> KPod"
        by auto
      with False ex ob show ?thesis by (intro ctl [of "?objects2 @ [bc]" objs]) auto
    next
      case nobuild: False
      with False assms obtain objs where
        ex: "OpenShift_exposure opt name ?service ?objects2 = Inr objs"
        and ob: "objects = UpdateKubernetesObjects opt name ?service objs"
        by (auto simp: OpenShift_service_def Let_def
            split: option.splits if_splits step.splits sum.splits)
      with False two show ?thesis by (intro ctl [of ?objects2 objs]) auto
    qed
  qed
qed

lemma OpenShift_service_names:
  assumes "OpenShift_service w opt name service r b = Proceed (objects, r', b')"
    "obj \<in> set objects"
  shows "KindOf obj = KPersistentVolumeClaim \<or> GetName obj = name"
  using assms(1)
proof (cases rule: OpenShift_service_cases)
  case pod
  with assms(2) show ?thesis
    using claims_kinds by (auto simp: UpdateKubernetesObjects_append InitPod_def GetName_def)
next
  case (ctl pre objs)
  from ctl(4) ctl(3) have "\<forall>obj\<in>set objs. GetName obj = name"
    by (auto simp: OpenShift_exposure_eq headlessService_def addressedService_def initRoute_def
        GetName_def Let_def split: list.splits if_splits)
  with ctl(5) assms(2) show ?thesis
    using claims_kinds by (auto simp: UpdateKubernetesObjects_append)
qed

lemma OpenShift_loop_filter_other:
  assumes "OpenShift_loop w opt ko (acc, r, b) names = Inr all" "n \<notin> set names"
    and P_name: "\<And>obj. P obj \<Longrightarrow> GetName obj = n \<and> KindOf obj \<noteq> KPersistentVolumeClaim"
  shows "filter P all = filter P acc"
  using assms(1,2)
proof (induction names arbitrary: acc r b)
  case Nil
  then show ?case by simp
next
  case (Cons m names)
  show ?case
  proof (cases "OpenShift_service w opt m (ServiceConfigs ko m) r b")
    case (Return e)
    with Cons.prems show ?thesis by simp
  next
    case Continue
    with Cons.prems Cons.IH [of acc r b] show ?thesis by simp
  next
    case (Proceed x)
    obtain objs r' b' where x: "x = (objs, r', b')" by (cases x) auto
    have "\<not> P obj" if "obj \<in> set objs" for obj
      using OpenShift_service_names [OF Proceed [unfolded x] that] P_name [of obj] Cons.prems(2)
      by auto
    then have "filter P objs = []" by (simp add: filter_empty_conv)
    with Cons.prems Cons.IH [of "acc @ objs" r' b'] Proceed x show ?thesis by simp
  qed
qed

lemma OpenShift_loop_filter:
  assumes "OpenShift_loop w opt ko (acc, r0, b0) names = Inr all" "distinct names" "n \<in> set names"
    and P_name: "\<And>obj. P obj \<Longrightarrow> GetName obj = n \<and> KindOf obj \<noteq> KPersistentVolumeClaim"
  shows "\<exists>r b. (OpenShift_service w opt n (ServiceConfigs ko n) r b = Continue
                 \<and> filter P all = filter P acc)
             \<or> (\<exists>objects r' b'.
                   OpenShift_service w opt n (ServiceConfigs ko n) r b = Proceed (objects, r', b')
                   \<and> filter P all = filter P acc @ filter P objects)"
  using assms(1,2,3)
proof (induction names arbitrary: acc r0 b0)
  case Nil
  then show ?case by simp
next
  case (Cons m names)
  show ?case
  proof (cases "m = n")
    case True
    with Cons.prems(2) have notin: "n \<notin> set names" by simp
    show ?thesis
    proof (cases "OpenShift_service w opt n (ServiceConfigs ko n) r0 b0")
      case (Return e)
      with Cons.prems(1) True show ?thesis by simp
    next
      case Continue
      with Cons.prems(1) True have "OpenShift_loop w opt ko (acc, r0, b0) names = Inr all"
        by simp
      then have "filter P all = filter P acc"
        using notin by (rule OpenShift_loop_filter_other) (rule P_name)
      with Continue show ?thesis by blast
    next
      case (Proceed x)
      obtain objs r' b' where x: "x = (objs, r', b')" by (cases x) auto
      with Cons.prems(1) True Proceed have
        "OpenShift_loop w opt ko (acc @ objs, r', b') names = Inr all" by simp
      then have "filter P all = filter P (acc @ objs)"
        using notin by (rule OpenShift_loop_filter_other) (rule P_name)
      then have "filter P all = filter P acc @ filter P objs" by simp
      with Proceed [unfolded x] show ?thesis by blast
    qed
  next
    case False
    with Cons.prems have n: "n \<in> set names" and d: "distinct names" by auto
    show ?thesis
    proof (cases "OpenShift_service w opt m (ServiceConfigs ko m) r0 b0")
      case (Return e)
      with Cons.prems(1) show ?thesis by simp
    next
      case Continue
      with Cons.prems(1) have "OpenShift_loop w opt ko (acc, r0, b0) names = Inr all" by simp
      from Cons.IH [OF this d n] show ?thesis .
    next
      case (Proceed x)
      obtain objs r' b' where x: "x = (objs, r', b')" by (cases x) auto
      have "\<not> P obj" if "obj \<in> set objs" for obj
        using OpenShift_service_names [OF Proceed [unfolded x] that] P_name [of obj] False
        by auto
      then have e: "filter P objs = []" by (simp add: filter_empty_conv)
      from Cons.prems(1) Proceed x have
        "OpenShift_loop w opt ko (acc @ objs, r', b') names = Inr all" by simp
      from Cons.IH [OF this d n] e show ?thesis by simp
    qed
  qed
qed

lemma OpenShift_Transform_filter:
  assumes tr: "OpenShift_Transform w ko opt = Inr graph"
    and svc: "map_of ko name = Some service"
    and P_name: "\<And>obj. P obj \<Longrightarrow> GetName obj = name \<and> KindOf obj \<noteq> KPersistentVolumeClaim"
    and P_kind: "(\<forall>obj. P obj \<longrightarrow> isExposure obj) \<or> (\<forall>obj. P obj \<longrightarrow> \<not> isExposure obj)"
  shows "\<exists>r b. (OpenShift_service w opt name service r b = Continue \<and> filter P graph = [])
             \<or> (\<exists>objects r' b'.
                   OpenShift_service w opt name service r b = Proceed (objects, r', b')
                   \<and> filter P graph = filter P objects)"
proof -
  from tr obtain emitted where
    loop: "OpenShift_loop w opt ko ([], BuildRepo opt, BuildBranch opt) (SortedKeys ko) = Inr emitted"
    and graph: "graph = SortServicesFirst emitted"
    by (auto simp: OpenShift_Transform_def split: sum.splits)
  have mem: "name \<in> set (SortedKeys ko)" using svc by (rule SortedKeys_member)
  have cfg: "ServiceConfigs ko name = service" using svc by (rule ServiceConfigs_Some)
  have g: "filter P graph = filter P emitted"
    unfolding graph using P_kind by (rule filter_SortServicesFirst)
  from OpenShift_loop_filter [OF loop distinct_SortedKeys mem P_name, of P]
  show ?thesis unfolding g cfg by simp
qed


lemma Image_irrelevant:
  "addressedService name (service\<lparr>Image := x\<rparr>) = addressedService name service"
  "initIngress name (service\<lparr>Image := x\<rparr>) port = initIngress name service port"
  "initRoute name (service\<lparr>Image := x\<rparr>) port = initRoute name service port"
  by (simp_all add: addressedService_def initIngress_def initRoute_def Let_def)

lemma Kubernetes_service_route:
  assumes "Kubernetes_service w opt name service = Inr objects"
  shows "objectsOf KRoute name objects = []"
    and "Restart service = ''no'' \<or> Restart service = ''on-failure'' \<or> Port service = []
           \<or> ExposeService service = [] \<Longrightarrow> objectsOf KIngress name objects = []"
    and "Restart service \<noteq> ''no'' \<Longrightarrow> Restart service \<noteq> ''on-failure'' \<Longrightarrow>
         Port service = p # ps \<Longrightarrow> ExposeService service \<noteq> [] \<Longrightarrow>
         objectsOf KService name objects = [addressedService name service]
         \<and> objectsOf KIngress name objects =
             [initIngress name service (PortNumber (ServicePortOf p))]"
proof -
  let ?service = "if Image service = [] then service\<lparr>Image := name\<rparr> else service"
  let ?ctl = "CreateKubernetesObjects name ?service opt"
  have upd: "objectsOf kind name (UpdateKubernetesObjects opt name ?service objs)
      = objectsOf kind name objs" if "kind \<noteq> KPersistentVolumeClaim" for kind objs
    unfolding objectsOf_def using that by (intro filter_UpdateKubernetesObjects) simp
  have ctl: "objectsOf kind name ?ctl = []" if "kind \<in> {KService, KRoute, KIngress}" for kind
    using that CreateKubernetesObjects_kinds [of _ name ?service opt]
    by (auto simp: objectsOf_def filter_empty_conv)
  from assms consider
    (pod) "Restart service = ''no'' \<or> Restart service = ''on-failure''"
      "objects = UpdateKubernetesObjects opt name ?service [InitPod name ?service]"
    | (ctl) objs where "Restart service \<noteq> ''no''" "Restart service \<noteq> ''on-failure''"
        "Kubernetes_exposure opt name ?service ?ctl = Inr objs"
        "objects = UpdateKubernetesObjects opt name ?service objs"
    by (auto simp: Kubernetes_service_def Let_def split: option.splits if_splits sum.splits)
  note cases = this
  show "objectsOf KRoute name objects = []"
  proof (cases rule: cases)
    case pod
    then show ?thesis by (simp add: upd) (simp add: objectsOf_def InitPod_def)
  next
    case (ctl objs)
    from ctl(3) have "objectsOf KRoute name objs = objectsOf KRoute name ?ctl"
      by (auto simp: Kubernetes_exposure_eq objectsOf_def headlessService_def
          addressedService_def initIngress_def Let_def split: list.splits if_splits)
    with ctl(4) show ?thesis using \<open>\<And>kind. kind \<in> {KService, KRoute, KIngress} \<Longrightarrow> _\<close>
      by (simp add: upd)
  qed
  show "objectsOf KIngress name objects = []"
    if "Restart service = ''no'' \<or> Restart service = ''on-failure'' \<or> Port service = []
           \<or> ExposeService service = []"
  proof (cases rule: cases)
    case pod
    then show ?thesis by (simp add: upd) (simp add: objectsOf_def InitPod_def)
  next
    case (ctl objs)
    with that have "Port ?service = [] \<or> ExposeService ?service = []" by auto
    with ctl(3) have "objectsOf KIngress name objs = objectsOf KIngress name ?ctl"
      by (auto simp: Kubernetes_exposure_eq objectsOf_def headlessService_def
          addressedService_def split: list.splits if_splits)
    with ctl(4) show ?thesis using \<open>\<And>kind. kind \<in> {KService, KRoute, KIngress} \<Longrightarrow> _\<close>
      by (simp add: upd)
  qed
  show "objectsOf KService name objects = [addressedService name service]
         \<and> objectsOf KIngress name objects =
             [initIngress name service (PortNumber (ServicePortOf p))]"
    if "Restart service \<noteq> ''no''" "Restart service \<noteq> ''on-failure''"
      "Port service = p # ps" "ExposeService service \<noteq> []"
  proof (cases rule: cases)
    case pod
    with that show ?thesis by simp
  next
    case (ctl objs)
    from that have "Port ?service = p # ps" "ExposeService ?service \<noteq> []" by auto
    with ctl(3) have objs: "objs = ?ctl @ [addressedService name service,
        initIngress name service (PortNumber (ServicePortOf p))]"
      by (auto simp: Kubernetes_exposure_eq Image_irrelevant)
    have "objectsOf KService name objs = [addressedService name service]"
      "objectsOf KIngress name objs = [initIngress name service (PortNumber (ServicePortOf p))]"
      using \<open>\<And>kind. kind \<in> {KService, KRoute, KIngress} \<Longrightarrow> _\<close> [of KService]
        \<open>\<And>kind. kind \<in> {KService, KRoute, KIngress} \<Longrightarrow> _\<close> [of KIngress]
      unfolding objs
      by (simp_all add: objectsOf_def addressedService_def initIngress_def GetName_def Let_def)
    with ctl(4) show ?thesis by (simp add: upd)
  qed
qed


lemma OpenShift_service_Continue:
  "OpenShift_service w opt name service r b = Continue \<Longrightarrow>
   Build service \<noteq> [] \<and> BuildMode opt = ''build-config''
   \<and> (\<exists>err. GetComposeFileDir w (InputFiles opt) = Inl err)"
  by (auto simp: OpenShift_service_def OpenShift_buildConfig_def Let_def OpenShift_exposure_eq
      split: option.splits if_splits step.splits sum.splits list.splits)

lemma OpenShift_service_route:
  assumes "OpenShift_service w opt name service r b = Proceed (objects, r', b')"
  shows "objectsOf KIngress name objects = []"
    and "Restart service = ''no'' \<or> Restart service = ''on-failure'' \<or> Port service = []
           \<or> ExposeService service = [] \<Longrightarrow> objectsOf KRoute name objects = []"
    and "Restart service \<noteq> ''no'' \<Longrightarrow> Restart service \<noteq> ''on-failure'' \<Longrightarrow>
         Port service = p # ps \<Longrightarrow> ExposeService service \<noteq> [] \<Longrightarrow>
         objectsOf KService name objects = [addressedService name service]
         \<and> objectsOf KRoute name objects =
             [initRoute name service (PortNumber (ServicePortOf p))]"
proof -
  let ?service = "if Image service = [] then service\<lparr>Image := name\<rparr> else service"
  have upd: "objectsOf kind name (UpdateKubernetesObjects opt name ?service objs)
      = objectsOf kind name objs" if "kind \<noteq> KPersistentVolumeClaim" for kind objs
    unfolding objectsOf_def using that by (intro filter_UpdateKubernetesObjects) simp
  have pre: "objectsOf kind name pre = []"
    if "kind \<in> {KService, KRoute, KIngress}"
      "\<forall>obj\<in>set pre. GetName obj = name \<and> KindOf obj \<noteq> KService \<and> KindOf obj \<noteq> KRoute
          \<and> KindOf obj \<noteq> KIngress \<and> KindOf obj \<noteq> KPod" for kind pre
    using that by (auto simp: objectsOf_def filter_empty_conv)
  show "objectsOf KIngress name objects = []"
    using assms
  proof (cases rule: OpenShift_service_cases)
    case pod
    then show ?thesis by (simp add: upd) (simp add: objectsOf_def InitPod_def)
  next
    case (ctl pre0 objs)
    from ctl(4) have "objectsOf KIngress name objs = objectsOf KIngress name pre0"
      by (auto simp: OpenShift_exposure_eq objectsOf_def headlessService_def
          addressedService_def initRoute_def Let_def split: list.splits if_splits)
    with ctl(5) pre [OF _ ctl(3), of KIngress] show ?thesis by (simp add: upd)
  qed
  show "objectsOf KRoute name objects = []"
    if "Restart service = ''no'' \<or> Restart service = ''on-failure'' \<or> Port service = []
           \<or> ExposeService service = []"
    using assms
  proof (cases rule: OpenShift_service_cases)
    case pod
    then show ?thesis by (simp add: upd) (simp add: objectsOf_def InitPod_def)
  next
    case (ctl pre0 objs)
    with that have "Port ?service = [] \<or> ExposeService ?service = []" by auto
    with ctl(4) have "objectsOf KRoute name objs = objectsOf KRoute name pre0"
      by (auto simp: OpenShift_exposure_eq objectsOf_def headlessService_def
          addressedService_def split: list.splits if_splits)
    with ctl(5) pre [OF _ ctl(3), of KRoute] show ?thesis by (simp add: upd)
  qed
  show "objectsOf KService name objects = [addressedService name service]
         \<and> objectsOf KRoute name objects =
             [initRoute name service (PortNumber (ServicePortOf p))]"
    if "Restart service \<noteq> ''no''" "Restart service \<noteq> ''on-failure''"
      "Port service = p # ps" "ExposeService service \<noteq> []"
    using assms
  proof (cases rule: OpenShift_service_cases)
    case pod
    with that show ?thesis by simp
  next
    case (ctl pre0 objs)
    from that have "Port ?service = p # ps" "ExposeService ?service \<noteq> []" by auto
    with ctl(4) have objs: "objs = pre0 @ [addressedService name service,
        initRoute name service (PortNumber (ServicePortOf p))]"
      by (auto simp: OpenShift_exposure_eq Image_irrelevant)
    have "objectsOf KService name objs = [addressedService name service]"
      "objectsOf KRoute name objs = [initRoute name service (PortNumber (ServicePortOf p))]"
      using pre [OF _ ctl(3), of KService] pre [OF _ ctl(3), of KRoute]
      unfolding objs
      by (simp_all add: objectsOf_def addressedService_def initRoute_def GetName_def Let_def)
    with ctl(5) show ?thesis by (simp add: upd)
  qed
qed

lemma isExposure_objectsOf:
  "(\<forall>obj. KindOf obj = kind \<and> GetName obj = name \<longrightarrow> isExposure obj)
   \<or> (\<forall>obj. KindOf obj = kind \<and> GetName obj = name \<longrightarrow> \<not> isExposure obj)"
  by (cases "kind = KService \<or> kind = KRoute \<or> kind = KIngress") (auto simp: isExposure_def)

lemma Kubernetes_Transform_objectsOf:
  assumes "Kubernetes_Transform w ko opt = Inr graph" "map_of ko name = Some service"
    "kind \<noteq> KPersistentVolumeClaim"
  shows "\<exists>objects. Kubernetes_service w opt name service = Inr objects
           \<and> objectsOf kind name graph = objectsOf kind name objects"
  unfolding objectsOf_def using assms(1,2)
  by (rule Kubernetes_Transform_filter) (use assms(3) isExposure_objectsOf in auto)

lemma OpenShift_Transform_objectsOf:
  assumes "OpenShift_Transform w ko opt = Inr graph" "map_of ko name = Some service"
    "kind \<noteq> KPersistentVolumeClaim"
  shows "\<exists>r b. (OpenShift_service w opt name service r b = Continue
                  \<and> objectsOf kind name graph = [])
             \<or> (\<exists>objects r' b'.
                   OpenShift_service w opt name service r b = Proceed (objects, r', b')
                   \<and> objectsOf kind name graph = objectsOf kind name objects)"
  unfolding objectsOf_def using assms(1,2)
  by (rule OpenShift_Transform_filter) (use assms(3) isExposure_objectsOf in auto)

section \<open>The example model on OpenShift, evaluated\<close>

lemmas OpenShift_service_defs = OpenShift_service_def OpenShift_buildAndPush_def
  OpenShift_exposure_def CreateKubernetesObjects_def PortsExist_def CreateHeadlessService_def
  CreateService_def InitSvc_def UpdateKubernetesObjects_def ConfigVolumes_def CreatePVC_def
  InitPod_def InitPodSpec_def ConfigPVCVolumeSource_def ConfigServicePorts_def ServicePortOf_def
  initRoute_def initDeploymentConfig_def initImageStream_def getImageTag_def ProtocolTCP_def
  PVCRequestSize_def Itoa_def Itoa_nat.simps Let_def

lemma exampleDb_OpenShift:
  "OpenShift_service exampleWorld exampleOpenShiftOpt ''db'' exampleDb [] [] =
     Proceed ([exampleOpenShiftGraph ! 3, exampleOpenShiftGraph ! 4, exampleOpenShiftGraph ! 0,
               exampleOpenShiftGraph ! 5], [], [])"
  by (simp add: exampleOpenShiftOpt_def exampleOpt_def exampleDb_def zero_ServiceConfig_def
      OpenShift_service_defs exampleOpenShiftGraph_def)

lemma exampleJob_OpenShift:
  "OpenShift_service exampleWorld exampleOpenShiftOpt ''job'' exampleJob [] [] =
     Proceed ([exampleOpenShiftGraph ! 6, exampleOpenShiftGraph ! 7], [], [])"
  by (simp add: exampleOpenShiftOpt_def exampleOpt_def exampleJob_def zero_ServiceConfig_def
      OpenShift_service_defs exampleOpenShiftGraph_def)

lemma exampleWeb_OpenShift:
  "OpenShift_service exampleWorld exampleOpenShiftOpt ''web'' exampleWeb [] [] =
     Proceed ([exampleOpenShiftGraph ! 8, exampleOpenShiftGraph ! 9, exampleOpenShiftGraph ! 1,
               exampleOpenShiftGraph ! 2], [], [])"
  by (simp add: exampleOpenShiftOpt_def exampleOpt_def exampleWeb_def zero_ServiceConfig_def
      OpenShift_service_defs exampleOpenShiftGraph_def)

lemma exampleOpenShiftGraph_eval:
  "OpenShift_Transform exampleWorld exampleModel exampleOpenShiftOpt = Inr exampleOpenShiftGraph"
proof -
  have o: "BuildRepo exampleOpenShiftOpt = []" "BuildBranch exampleOpenShiftOpt = []"
    by (simp_all add: exampleOpenShiftOpt_def exampleOpt_def)
  have "OpenShift_loop exampleWorld exampleOpenShiftOpt exampleModel ([], [], [])
          (SortedKeys exampleModel)
          = Inr [exampleOpenShiftGraph ! 3, exampleOpenShiftGraph ! 4, exampleOpenShiftGraph ! 0,
                 exampleOpenShiftGraph ! 5, exampleOpenShiftGraph ! 6, exampleOpenShiftGraph ! 7,
                 exampleOpenShiftGraph ! 8, exampleOpenShiftGraph ! 9, exampleOpenShiftGraph ! 1,
                 exampleOpenShiftGraph ! 2]"
    by (simp add: exampleModel_keys exampleModel_lookup exampleDb_OpenShift exampleJob_OpenShift
        exampleWeb_OpenShift)
  then show ?thesis
    by (simp add: OpenShift_Transform_def o exampleOpenShiftGraph_def SortServicesFirst_def
        isExposure_def)
qed



section \<open>The ports of the exposure object, on both platforms\<close>

lemma OpenShift_exposure_services:
  assumes "OpenShift_exposure opt name s pre = Inr objs"
    and "objectsOf KService name pre = []"
  shows "objectsOf KService name objs =
           [if Port s = [] then headlessService name else addressedService name s]"
proof (cases "Port s")
  case Nil
  with assms(1) have "objs = pre @ [headlessService name]"
    by (simp add: OpenShift_exposure_eq)
  with assms(2) Nil show ?thesis
    by (simp add: objectsOf_def headlessService_def GetName_def)
next
  case (Cons p ps)
  with assms(1) have "objs = pre @ [addressedService name s]
      \<or> objs = pre @ [addressedService name s, initRoute name s (PortNumber (ServicePortOf p))]"
    by (simp add: OpenShift_exposure_eq split: if_splits)
  with assms(2) Cons show ?thesis
    by (auto simp: objectsOf_def addressedService_def initRoute_def GetName_def Let_def)
qed

lemma OpenShift_service_exposure:
  assumes "OpenShift_service w opt name service r b = Proceed (objects, r', b')"
    and "Restart service \<noteq> ''no''" "Restart service \<noteq> ''on-failure''"
  shows "objectsOf KService name objects =
           [if Port service = [] then headlessService name else addressedService name service]"
  using assms(1)
proof (cases rule: OpenShift_service_cases)
  case pod
  with assms(2,3) show ?thesis by simp
next
  case (ctl pre objs)
  let ?service = "if Image service = [] then service\<lparr>Image := name\<rparr> else service"
  have upd: "objectsOf KService name (UpdateKubernetesObjects opt name ?service objs)
      = objectsOf KService name objs"
    unfolding objectsOf_def by (intro filter_UpdateKubernetesObjects) simp
  have pre: "objectsOf KService name pre = []"
    using ctl(3) by (auto simp: objectsOf_def filter_empty_conv)
  have same: "Port ?service = Port service"
    "addressedService name ?service = addressedService name service"
    by (simp_all add: Image_irrelevant)
  have "objectsOf KService name objs =
      [if Port ?service = [] then headlessService name else addressedService name ?service]"
    using ctl(4) pre by (rule OpenShift_exposure_services)
  with ctl(5) upd same show ?thesis by simp
qed

text \<open>
  C1: for every service of the model that \<open>Transform\<close> processes on either platform
  and whose restart policy is neither "no" nor "on-failure", the graph holds exactly one
  Service object of that name. With an empty port list it is headless and has no port
  entries; otherwise it has one port entry per declared port, in order, each named by the
  decimal text of the resolved host port (the container port when the declared host port
  is 0), with that port as its number, the container port as target, and the protocol
  left empty when it is TCP. On OpenShift a service is processed unless it has a build
  context in build-config mode and the compose file directory cannot be determined.
\<close>

theorem exposure_object_ports:
  assumes "map_of komposeObject name = Some service"
    and "Restart service \<noteq> ''no''" and "Restart service \<noteq> ''on-failure''"
    and "Kubernetes_Transform w komposeObject opt = Inr graph
         \<or> (OpenShift_Transform w komposeObject opt = Inr graph
             \<and> (Build service = [] \<or> BuildMode opt \<noteq> ''build-config''
                 \<or> (\<exists>dir. GetComposeFileDir w (InputFiles opt) = Inr dir)))"
  shows "\<exists>m spec. objectsOf KService name graph = [Service m spec]
           \<and> (Port service = [] \<longrightarrow> ServicePorts spec = [] \<and> ClusterIP spec = ''None'')
           \<and> (Port service \<noteq> [] \<longrightarrow>
                length (ServicePorts spec) = length (Port service)
                \<and> (\<forall>i<length (Port service).
                      PortNumber (ServicePorts spec ! i) =
                        (if HostPort (Port service ! i) = 0 then ContainerPort (Port service ! i)
                         else HostPort (Port service ! i))
                      \<and> PortName (ServicePorts spec ! i) =
                          Itoa (sint (if HostPort (Port service ! i) = 0
                                      then ContainerPort (Port service ! i)
                                      else HostPort (Port service ! i)))
                      \<and> PortProtocol (ServicePorts spec ! i) =
                          (if Protocol (Port service ! i) = ''TCP'' then []
                           else Protocol (Port service ! i))
                      \<and> IntVal (TargetPort (ServicePorts spec ! i)) =
                          ContainerPort (Port service ! i)))"
proof -
  have "\<exists>m spec. objectsOf KService name graph = [Service m spec]
      \<and> (Port service = [] \<longrightarrow> ServicePorts spec = [] \<and> ClusterIP spec = ''None'')
      \<and> (Port service \<noteq> [] \<longrightarrow> ServicePorts spec = map ServicePortOf (Port service))"
    using assms(4)
  proof
    assume k: "Kubernetes_Transform w komposeObject opt = Inr graph"
    from Kubernetes_Transform_objectsOf [OF k assms(1), of KService] obtain objects where
      body: "Kubernetes_service w opt name service = Inr objects"
      and g: "objectsOf KService name graph = objectsOf KService name objects" by auto
    from Kubernetes_service_exposure [OF body assms(2,3)] g show ?thesis
      unfolding objectsOf_def by auto
  next
    assume o: "OpenShift_Transform w komposeObject opt = Inr graph
             \<and> (Build service = [] \<or> BuildMode opt \<noteq> ''build-config''
                 \<or> (\<exists>dir. GetComposeFileDir w (InputFiles opt) = Inr dir))"
    have no_continue: "OpenShift_service w opt name service r b \<noteq> Continue" for r b
      using OpenShift_service_Continue [of w opt name service r b] o by auto
    from OpenShift_Transform_objectsOf [OF conjunct1 [OF o] assms(1), of KService] no_continue
    obtain objects r b r' b' where
      body: "OpenShift_service w opt name service r b = Proceed (objects, r', b')"
      and g: "objectsOf KService name graph = objectsOf KService name objects" by blast
    from OpenShift_service_exposure [OF body assms(2,3)] g show ?thesis
      by (simp add: headlessService_def addressedService_def)
  qed
  then obtain m spec where
    one: "objectsOf KService name graph = [Service m spec]"
    and none: "Port service = [] \<longrightarrow> ServicePorts spec = [] \<and> ClusterIP spec = ''None''"
    and some: "Port service \<noteq> [] \<longrightarrow> ServicePorts spec = map ServicePortOf (Port service)"
    by blast
  from some have "Port service \<noteq> [] \<longrightarrow>
                length (ServicePorts spec) = length (Port service)
                \<and> (\<forall>i<length (Port service).
                      PortNumber (ServicePorts spec ! i) =
                        (if HostPort (Port service ! i) = 0 then ContainerPort (Port service ! i)
                         else HostPort (Port service ! i))
                      \<and> PortName (ServicePorts spec ! i) =
                          Itoa (sint (if HostPort (Port service ! i) = 0
                                      then ContainerPort (Port service ! i)
                                      else HostPort (Port service ! i)))
                      \<and> PortProtocol (ServicePorts spec ! i) =
                          (if Protocol (Port service ! i) = ''TCP'' then []
                           else Protocol (Port service ! i))
                      \<and> IntVal (TargetPort (ServicePorts spec ! i)) =
                          ContainerPort (Port service ! i))"
    by (simp add: ServicePortOf_fields)
  with one none show ?thesis by blast
qed

theorem exposure_object_ports_witness:
  "Kubernetes_Transform exampleWorld exampleModel exampleOpt = Inr exampleGraph
   \<and> OpenShift_Transform exampleWorld exampleModel exampleOpenShiftOpt = Inr exampleOpenShiftGraph
   \<and> map_of exampleModel ''web'' = Some exampleWeb
   \<and> map_of exampleModel ''db'' = Some exampleDb
   \<and> Restart exampleWeb = ''always'' \<and> Restart exampleDb = ''always''
   \<and> Build exampleWeb = []
   \<and> objectsOf KService ''web'' exampleGraph = [exampleGraph ! 1]
   \<and> objectsOf KService ''db'' exampleGraph = [exampleGraph ! 0]
   \<and> objectsOf KService ''web'' exampleOpenShiftGraph = [exampleOpenShiftGraph ! 1]
   \<and> (\<exists>m spec. objectsOf KService ''web'' exampleGraph = [Service m spec]
          \<and> length (ServicePorts spec) = 2
          \<and> PortName (ServicePorts spec ! 0) = ''80''
          \<and> PortProtocol (ServicePorts spec ! 0) = []
          \<and> PortName (ServicePorts spec ! 1) = ''5353''
          \<and> PortProtocol (ServicePorts spec ! 1) = ''UDP'')
   \<and> (\<exists>m spec. objectsOf KService ''web'' exampleOpenShiftGraph = [Service m spec]
          \<and> length (ServicePorts spec) = 2)
   \<and> (\<exists>m spec. objectsOf KService ''db'' exampleGraph = [Service m spec]
          \<and> ServicePorts spec = [] \<and> ClusterIP spec = ''None'')"
proof -
  have web: "map_of exampleModel ''web'' = Some exampleWeb"
    and db: "map_of exampleModel ''db'' = Some exampleDb"
    by (simp_all add: exampleModel_def)
  have r: "Restart exampleWeb \<noteq> ''no''" "Restart exampleWeb \<noteq> ''on-failure''"
    "Restart exampleDb \<noteq> ''no''" "Restart exampleDb \<noteq> ''on-failure''"
    and ra: "Restart exampleWeb = ''always''" "Restart exampleDb = ''always''"
    and bw: "Build exampleWeb = []"
    by (simp_all add: exampleWeb_def exampleDb_def zero_ServiceConfig_def)
  have p: "Port exampleWeb =
      [\<lparr>HostPort = 0, ContainerPort = 80, HostIP = [], Protocol = ''TCP''\<rparr>,
       \<lparr>HostPort = 5353, ContainerPort = 53, HostIP = [], Protocol = ''UDP''\<rparr>]"
    "Port exampleDb = []"
    by (simp_all add: exampleWeb_def exampleDb_def zero_ServiceConfig_def)
  have f: "objectsOf KService ''web'' exampleGraph = [exampleGraph ! 1]"
    "objectsOf KService ''db'' exampleGraph = [exampleGraph ! 0]"
    "objectsOf KService ''web'' exampleOpenShiftGraph = [exampleOpenShiftGraph ! 1]"
    by (simp_all add: objectsOf_def exampleGraph_def exampleOpenShiftGraph_def GetName_def)
  from exposure_object_ports [OF web r(1,2) disjI1 [OF exampleGraph_eval]] obtain m spec where
    a: "objectsOf KService ''web'' exampleGraph = [Service m spec]"
    by blast
  with f(1) have "spec = \<lparr>ServiceSelector = ConfigLabels ''web'',
         ServicePorts =
           [\<lparr>PortName = ''80'', PortProtocol = [], PortNumber = 80,
             TargetPort = \<lparr>IntVal = 80, StrVal = ''80''\<rparr>\<rparr>,
            \<lparr>PortName = ''5353'', PortProtocol = ''UDP'', PortNumber = 5353,
             TargetPort = \<lparr>IntVal = 53, StrVal = ''53''\<rparr>\<rparr>],
         ClusterIP = []\<rparr>"
    by (simp add: exampleGraph_def)
  with a have w: "\<exists>m spec. objectsOf KService ''web'' exampleGraph = [Service m spec]
          \<and> length (ServicePorts spec) = 2
          \<and> PortName (ServicePorts spec ! 0) = ''80''
          \<and> PortProtocol (ServicePorts spec ! 0) = []
          \<and> PortName (ServicePorts spec ! 1) = ''5353''
          \<and> PortProtocol (ServicePorts spec ! 1) = ''UDP''"
    by simp
  have "OpenShift_Transform exampleWorld exampleModel exampleOpenShiftOpt = Inr exampleOpenShiftGraph
      \<and> (Build exampleWeb = [] \<or> BuildMode exampleOpenShiftOpt \<noteq> ''build-config''
          \<or> (\<exists>dir. GetComposeFileDir exampleWorld (InputFiles exampleOpenShiftOpt) = Inr dir))"
    using exampleOpenShiftGraph_eval bw by simp
  from exposure_object_ports [OF web r(1,2) disjI2 [OF this]] have
    o: "\<exists>m spec. objectsOf KService ''web'' exampleOpenShiftGraph = [Service m spec]
          \<and> length (ServicePorts spec) = 2"
    by (auto simp: p)
  from exposure_object_ports [OF db r(3,4) disjI1 [OF exampleGraph_eval]] have
    d: "\<exists>m spec. objectsOf KService ''db'' exampleGraph = [Service m spec]
          \<and> ServicePorts spec = [] \<and> ClusterIP spec = ''None''"
    by (auto simp: p)
  from exampleGraph_eval exampleOpenShiftGraph_eval web db ra bw f w o d show ?thesis by blast
qed

section \<open>Routes and ingresses\<close>

text \<open>
  C4, under the conditions the code needs: for every service of the model whose "expose" value is non-empty, whose
  restart policy is neither "no" nor "on-failure" and which declares at least one port,
  the graph of \<open>Kubernetes.Transform\<close> holds exactly one Ingress of the service's name and
  the graph of \<open>OpenShift.Transform\<close> exactly one Route of that name (for OpenShift: unless
  the service has a build context, the build mode is "build-config" and the directory of
  the compose files cannot be found). The object refers to the number of the first port
  entry of the one Service object of that name; its host is empty when the expose value
  is "true" and is the expose value otherwise. With restart policy "no" or "on-failure",
  or without a declared port, the graph holds no Ingress and no Route of that name.
\<close>

theorem exposed_service_route:
  assumes "map_of komposeObject name = Some service" and "ExposeService service \<noteq> []"
  shows
    "(Restart service \<noteq> ''no'' \<and> Restart service \<noteq> ''on-failure'' \<and> Port service \<noteq> [] \<longrightarrow>
        (Kubernetes_Transform w komposeObject opt = Inr graph \<longrightarrow>
           (\<exists>m spec e es.
              objectsOf KService name graph = [Service m spec] \<and> ServicePorts spec = e # es
              \<and> objectsOf KIngress name graph =
                  [Ingress \<lparr>Name = name, Labels = ConfigLabels name\<rparr>
                     \<lparr>IngressHost = (if ExposeService service = ''true'' then []
                                      else ExposeService service),
                      BackendServiceName = name, BackendServicePort = PortNumber e\<rparr>]
              \<and> objectsOf KRoute name graph = []))
        \<and> (OpenShift_Transform w komposeObject opt = Inr graph
            \<and> (Build service = [] \<or> BuildMode opt \<noteq> ''build-config''
                \<or> (\<exists>dir. GetComposeFileDir w (InputFiles opt) = Inr dir)) \<longrightarrow>
           (\<exists>m spec e es.
              objectsOf KService name graph = [Service m spec] \<and> ServicePorts spec = e # es
              \<and> objectsOf KRoute name graph =
                  [Route \<lparr>Name = name, Labels = ConfigLabels name\<rparr>
                     \<lparr>RouteTargetPort = PortNumber e, RouteToKind = ''Service'',
                      RouteToName = name,
                      RouteHost = (if ExposeService service = ''true'' then []
                                   else ExposeService service)\<rparr>]
              \<and> objectsOf KIngress name graph = [])))
     \<and> (Restart service = ''no'' \<or> Restart service = ''on-failure'' \<or> Port service = [] \<longrightarrow>
          (Kubernetes_Transform w komposeObject opt = Inr graph
           \<or> OpenShift_Transform w komposeObject opt = Inr graph \<longrightarrow>
             objectsOf KIngress name graph = [] \<and> objectsOf KRoute name graph = []))"
proof (intro conjI impI)
  assume ok: "Restart service \<noteq> ''no'' \<and> Restart service \<noteq> ''on-failure'' \<and> Port service \<noteq> []"
    and tr: "Kubernetes_Transform w komposeObject opt = Inr graph"
  from ok obtain p ps where port: "Port service = p # ps" by (cases "Port service") auto
  from Kubernetes_Transform_objectsOf [OF tr assms(1), of KService] obtain o1 where
    b1: "Kubernetes_service w opt name service = Inr o1"
      "objectsOf KService name graph = objectsOf KService name o1" by auto
  from Kubernetes_Transform_objectsOf [OF tr assms(1), of KIngress] obtain o2 where
    b2: "Kubernetes_service w opt name service = Inr o2"
      "objectsOf KIngress name graph = objectsOf KIngress name o2" by auto
  from Kubernetes_Transform_objectsOf [OF tr assms(1), of KRoute] obtain o3 where
    b3: "Kubernetes_service w opt name service = Inr o3"
      "objectsOf KRoute name graph = objectsOf KRoute name o3" by auto
  note b = b1 b2 b3
  from b have same: "o2 = o1" "o3 = o1" by auto
  from Kubernetes_service_route(3) [OF b(1) _ _ port assms(2)] ok have
    s: "objectsOf KService name o1 = [addressedService name service]"
      "objectsOf KIngress name o1 = [initIngress name service (PortNumber (ServicePortOf p))]"
    by auto
  have r: "objectsOf KRoute name o1 = []" using b(1) by (rule Kubernetes_service_route(1))
  show "\<exists>m spec e es.
              objectsOf KService name graph = [Service m spec] \<and> ServicePorts spec = e # es
              \<and> objectsOf KIngress name graph =
                  [Ingress \<lparr>Name = name, Labels = ConfigLabels name\<rparr>
                     \<lparr>IngressHost = (if ExposeService service = ''true'' then []
                                      else ExposeService service),
                      BackendServiceName = name, BackendServicePort = PortNumber e\<rparr>]
              \<and> objectsOf KRoute name graph = []"
    using b(2,4,6) same s r port
    by (simp add: addressedService_def initIngress_def Let_def)
next
  assume ok: "Restart service \<noteq> ''no'' \<and> Restart service \<noteq> ''on-failure'' \<and> Port service \<noteq> []"
    and tr: "OpenShift_Transform w komposeObject opt = Inr graph
            \<and> (Build service = [] \<or> BuildMode opt \<noteq> ''build-config''
                \<or> (\<exists>dir. GetComposeFileDir w (InputFiles opt) = Inr dir))"
  from ok obtain p ps where port: "Port service = p # ps" by (cases "Port service") auto
  have no_continue: "OpenShift_service w opt name service r b \<noteq> Continue" for r b
    using OpenShift_service_Continue [of w opt name service r b] tr by auto
  have graph_kind: "\<exists>objects r b r' b'.
      OpenShift_service w opt name service r b = Proceed (objects, r', b')
      \<and> objectsOf kind name graph = objectsOf kind name objects"
    if "kind \<noteq> KPersistentVolumeClaim" for kind
    using OpenShift_Transform_objectsOf [OF conjunct1 [OF tr] assms(1) that] no_continue
    by blast
  from graph_kind [of KService] obtain o1 r1 b1 r1' b1' where
    b1: "OpenShift_service w opt name service r1 b1 = Proceed (o1, r1', b1')"
      "objectsOf KService name graph = objectsOf KService name o1" by auto
  from graph_kind [of KRoute] obtain o2 r2 b2 r2' b2' where
    b2: "OpenShift_service w opt name service r2 b2 = Proceed (o2, r2', b2')"
      "objectsOf KRoute name graph = objectsOf KRoute name o2" by auto
  from graph_kind [of KIngress] obtain o3 r3 b3 r3' b3' where
    b3: "OpenShift_service w opt name service r3 b3 = Proceed (o3, r3', b3')"
      "objectsOf KIngress name graph = objectsOf KIngress name o3" by auto
  from OpenShift_service_route(3) [OF b1(1) _ _ port assms(2)] ok have
    s: "objectsOf KService name o1 = [addressedService name service]" by auto
  from OpenShift_service_route(3) [OF b2(1) _ _ port assms(2)] ok have
    r: "objectsOf KRoute name o2 = [initRoute name service (PortNumber (ServicePortOf p))]"
    by auto
  have i: "objectsOf KIngress name o3 = []" using b3(1) by (rule OpenShift_service_route(1))
  show "\<exists>m spec e es.
              objectsOf KService name graph = [Service m spec] \<and> ServicePorts spec = e # es
              \<and> objectsOf KRoute name graph =
                  [Route \<lparr>Name = name, Labels = ConfigLabels name\<rparr>
                     \<lparr>RouteTargetPort = PortNumber e, RouteToKind = ''Service'',
                      RouteToName = name,
                      RouteHost = (if ExposeService service = ''true'' then []
                                   else ExposeService service)\<rparr>]
              \<and> objectsOf KIngress name graph = []"
    using b1(2) b2(2) b3(2) s r i port
    by (simp add: addressedService_def initRoute_def Let_def)
next
  assume bad: "Restart service = ''no'' \<or> Restart service = ''on-failure'' \<or> Port service = []"
    and tr: "Kubernetes_Transform w komposeObject opt = Inr graph
           \<or> OpenShift_Transform w komposeObject opt = Inr graph"
  from tr show "objectsOf KIngress name graph = []"
  proof
    assume k: "Kubernetes_Transform w komposeObject opt = Inr graph"
    from Kubernetes_Transform_objectsOf [OF k assms(1), of KIngress] obtain objects where
      "Kubernetes_service w opt name service = Inr objects"
      "objectsOf KIngress name graph = objectsOf KIngress name objects" by auto
    with Kubernetes_service_route(2) [of w opt name service objects] bad show ?thesis by auto
  next
    assume o: "OpenShift_Transform w komposeObject opt = Inr graph"
    from OpenShift_Transform_objectsOf [OF o assms(1), of KIngress]
      OpenShift_service_route(1) [of w opt name service]
    show ?thesis by fastforce
  qed
  from tr show "objectsOf KRoute name graph = []"
  proof
    assume k: "Kubernetes_Transform w komposeObject opt = Inr graph"
    from Kubernetes_Transform_objectsOf [OF k assms(1), of KRoute]
      Kubernetes_service_route(1) [of w opt name service]
    show ?thesis by fastforce
  next
    assume o: "OpenShift_Transform w komposeObject opt = Inr graph"
    from OpenShift_Transform_objectsOf [OF o assms(1), of KRoute] obtain r b where
      "(OpenShift_service w opt name service r b = Continue \<and> objectsOf KRoute name graph = [])
       \<or> (\<exists>objects r' b'.
             OpenShift_service w opt name service r b = Proceed (objects, r', b')
             \<and> objectsOf KRoute name graph = objectsOf KRoute name objects)" by blast
    with OpenShift_service_route(2) [of w opt name service r b] bad show ?thesis by auto
  qed
qed

text \<open>
  C4 as stated fails: in the example model the services "job" (restart "on-failure") and
  "db" (no ports) have an expose value, and neither graph holds a route or ingress for
  them.
\<close>

theorem expose_without_route_counterexample:
  "map_of exampleModel ''job'' = Some exampleJob
   \<and> ExposeService exampleJob = ''job.example.com''
   \<and> map_of exampleModel ''db'' = Some exampleDb
   \<and> ExposeService exampleDb = ''db.example.com''
   \<and> Kubernetes_Transform exampleWorld exampleModel exampleOpt = Inr exampleGraph
   \<and> objectsOf KIngress ''job'' exampleGraph = []
   \<and> objectsOf KIngress ''db'' exampleGraph = []
   \<and> OpenShift_Transform exampleWorld exampleModel exampleOpenShiftOpt = Inr exampleOpenShiftGraph
   \<and> objectsOf KRoute ''job'' exampleOpenShiftGraph = []
   \<and> objectsOf KRoute ''db'' exampleOpenShiftGraph = []"
proof -
  have "map_of exampleModel ''job'' = Some exampleJob" "map_of exampleModel ''db'' = Some exampleDb"
    by (simp_all add: exampleModel_def)
  moreover have "ExposeService exampleJob = ''job.example.com''"
    "ExposeService exampleDb = ''db.example.com''"
    by (simp_all add: exampleJob_def exampleDb_def)
  moreover have "objectsOf KIngress ''job'' exampleGraph = []"
    "objectsOf KIngress ''db'' exampleGraph = []"
    by (simp_all add: objectsOf_def exampleGraph_def GetName_def)
  moreover have "objectsOf KRoute ''job'' exampleOpenShiftGraph = []"
    "objectsOf KRoute ''db'' exampleOpenShiftGraph = []"
    by (simp_all add: objectsOf_def exampleOpenShiftGraph_def GetName_def)
  ultimately show ?thesis
    using exampleGraph_eval exampleOpenShiftGraph_eval by simp
qed

theorem exposed_service_route_witness:
  "map_of exampleModel ''web'' = Some exampleWeb
   \<and> ExposeService exampleWeb = ''true''
   \<and> Restart exampleWeb = ''always''
   \<and> Kubernetes_Transform exampleWorld exampleModel exampleOpt = Inr exampleGraph
   \<and> OpenShift_Transform exampleWorld exampleModel exampleOpenShiftOpt = Inr exampleOpenShiftGraph
   \<and> (\<exists>m spec e es.
         objectsOf KService ''web'' exampleGraph = [Service m spec] \<and> ServicePorts spec = e # es
         \<and> objectsOf KIngress ''web'' exampleGraph =
             [Ingress \<lparr>Name = ''web'', Labels = ConfigLabels ''web''\<rparr>
                \<lparr>IngressHost = [], BackendServiceName = ''web'',
                 BackendServicePort = PortNumber e\<rparr>]
         \<and> objectsOf KRoute ''web'' exampleGraph = [])
   \<and> (\<exists>m spec e es.
         objectsOf KService ''web'' exampleOpenShiftGraph = [Service m spec]
         \<and> ServicePorts spec = e # es
         \<and> objectsOf KRoute ''web'' exampleOpenShiftGraph =
             [Route \<lparr>Name = ''web'', Labels = ConfigLabels ''web''\<rparr>
                \<lparr>RouteTargetPort = PortNumber e, RouteToKind = ''Service'',
                 RouteToName = ''web'', RouteHost = []\<rparr>]
         \<and> objectsOf KIngress ''web'' exampleOpenShiftGraph = [])
   \<and> Restart exampleJob = ''on-failure''
   \<and> objectsOf KIngress ''job'' exampleGraph = []"
proof -
  have web: "map_of exampleModel ''web'' = Some exampleWeb"
    and job: "map_of exampleModel ''job'' = Some exampleJob"
    by (simp_all add: exampleModel_def)
  have e: "ExposeService exampleWeb \<noteq> []" "ExposeService exampleJob \<noteq> []"
    by (simp_all add: exampleWeb_def exampleJob_def)
  have f: "ExposeService exampleWeb = ''true''" "Restart exampleWeb = ''always''"
    "Port exampleWeb \<noteq> []" "Build exampleWeb = []" "Restart exampleJob = ''on-failure''"
    by (simp_all add: exampleWeb_def exampleJob_def zero_ServiceConfig_def)
  have ok: "Restart exampleWeb \<noteq> ''no'' \<and> Restart exampleWeb \<noteq> ''on-failure''
      \<and> Port exampleWeb \<noteq> []"
    using f by simp
  note k = exposed_service_route [OF web e(1), of exampleWorld exampleOpt exampleGraph,
      THEN conjunct1, rule_format, OF ok, THEN conjunct1, rule_format, OF exampleGraph_eval]
  have "OpenShift_Transform exampleWorld exampleModel exampleOpenShiftOpt
          = Inr exampleOpenShiftGraph
        \<and> (Build exampleWeb = [] \<or> BuildMode exampleOpenShiftOpt \<noteq> ''build-config''
           \<or> (\<exists>dir. GetComposeFileDir exampleWorld (InputFiles exampleOpenShiftOpt) = Inr dir))"
    using exampleOpenShiftGraph_eval f(4) by simp
  note o = exposed_service_route [OF web e(1), of exampleWorld exampleOpenShiftOpt
      exampleOpenShiftGraph, THEN conjunct1, rule_format, OF ok, THEN conjunct2, rule_format,
      OF this]
  have "Restart exampleJob = ''no'' \<or> Restart exampleJob = ''on-failure'' \<or> Port exampleJob = []"
    using f(5) by simp
  note j = exposed_service_route [OF job e(2), of exampleWorld exampleOpt exampleGraph,
      THEN conjunct2, rule_format, OF this disjI1 [OF exampleGraph_eval], THEN conjunct1]
  from k o j web f(1,2,5) exampleGraph_eval exampleOpenShiftGraph_eval show ?thesis
    unfolding f(1) by (intro conjI) simp_all
qed

section \<open>Services that become a bare pod\<close>

lemma ConfigVolumes_loop_length:
  "length (snd (snd (ConfigVolumes_loop e (ms, vs, ps) vols))) =
     length ps + (if e then 0 else length (filter (\<lambda>volume. VFrom volume = []) vols))"
  by (induction vols arbitrary: ms vs ps) (auto simp: Let_def)

lemma claims_length:
  "length (snd (snd (ConfigVolumes opt name service))) =
     (if EmptyVols opt then 0
      else length (filter (\<lambda>volume. VFrom volume = []) (Volumes service)))"
  by (simp add: ConfigVolumes_def ConfigVolumes_loop_length)

lemma Kubernetes_service_pod:
  assumes "Restart service = ''no'' \<or> Restart service = ''on-failure''"
    and "Kubernetes_service w opt name service = Inr objects"
  shows "objects =
           InitPod name (if Image service = [] then service\<lparr>Image := name\<rparr> else service)
           # snd (snd (ConfigVolumes opt name
                         (if Image service = [] then service\<lparr>Image := name\<rparr> else service)))"
  using assms
  by (auto simp: Kubernetes_service_def Let_def UpdateKubernetesObjects_append
      split: option.splits if_splits)

lemma OpenShift_service_pod:
  assumes "Restart service = ''no'' \<or> Restart service = ''on-failure''"
    and "OpenShift_service w opt name service r b = Proceed (objects, r', b')"
  shows "objects =
           InitPod name (if Image service = [] then service\<lparr>Image := name\<rparr> else service)
           # snd (snd (ConfigVolumes opt name
                         (if Image service = [] then service\<lparr>Image := name\<rparr> else service)))"
  using assms
  by (auto simp: OpenShift_service_def Let_def UpdateKubernetesObjects_append
      split: option.splits if_splits)

lemma OpenShift_service_pod_no_Continue:
  "Restart service = ''no'' \<or> Restart service = ''on-failure'' \<Longrightarrow>
   OpenShift_service w opt name service r b \<noteq> Continue"
  by (auto simp: OpenShift_service_def Let_def split: option.splits if_splits)

lemma objectsOf_pod_claims:
  assumes "\<forall>obj\<in>set claims. KindOf obj = KPersistentVolumeClaim"
    "kind \<noteq> KPersistentVolumeClaim"
  shows "objectsOf kind name (InitPod name service # claims) =
           (if kind = KPod then [InitPod name service] else [])"
proof -
  have "filter (\<lambda>obj. KindOf obj = kind \<and> GetName obj = name) claims = []"
    using assms by (auto simp: filter_empty_conv)
  then show ?thesis by (auto simp: objectsOf_def InitPod_def GetName_def)
qed

text \<open>
  C2, with the storage claims counted: for every service of the model with restart
  policy "no" or "on-failure", a graph returned by either transform holds exactly one Pod of the
  service's name and no object of that name of any other kind, storage claims apart: no
  controller, no Service, no route or ingress. What the iteration for the service emits
  is that Pod followed by storage claims only, one for each volume mount without a
  reference to an existing claim and none in empty-volume mode; so the service yields
  exactly one object when it has no such mount.
\<close>

theorem bare_pod_for_restart_no:
  assumes "map_of komposeObject name = Some service"
    and "Restart service = ''no'' \<or> Restart service = ''on-failure''"
    and "Kubernetes_Transform w komposeObject opt = Inr graph
         \<or> OpenShift_Transform w komposeObject opt = Inr graph"
  shows "objectsOf KPod name graph =
           [Pod \<lparr>Name = name, Labels = ConfigLabels name\<rparr>
              \<lparr>PodContainerName = name,
               PodContainerImage = (if Image service = [] then name else Image service)\<rparr>]
         \<and> (\<forall>kind. kind \<noteq> KPod \<and> kind \<noteq> KPersistentVolumeClaim \<longrightarrow>
               objectsOf kind name graph = [])
         \<and> (\<exists>claims.
               (Kubernetes_Transform w komposeObject opt = Inr graph \<longrightarrow>
                  Kubernetes_service w opt name service =
                    Inr (Pod \<lparr>Name = name, Labels = ConfigLabels name\<rparr>
                           \<lparr>PodContainerName = name,
                            PodContainerImage =
                              (if Image service = [] then name else Image service)\<rparr> # claims))
               \<and> (OpenShift_Transform w komposeObject opt = Inr graph \<longrightarrow>
                  (\<exists>r b r' b'. OpenShift_service w opt name service r b =
                    Proceed (Pod \<lparr>Name = name, Labels = ConfigLabels name\<rparr>
                               \<lparr>PodContainerName = name,
                                PodContainerImage =
                                  (if Image service = [] then name else Image service)\<rparr>
                             # claims, r', b')))
               \<and> (\<forall>obj\<in>set claims. KindOf obj = KPersistentVolumeClaim)
               \<and> length claims =
                   (if EmptyVols opt then 0
                    else length (filter (\<lambda>volume. VFrom volume = []) (Volumes service))))"
proof -
  let ?service = "if Image service = [] then service\<lparr>Image := name\<rparr> else service"
  let ?claims = "snd (snd (ConfigVolumes opt name ?service))"
  let ?pod = "Pod \<lparr>Name = name, Labels = ConfigLabels name\<rparr>
              \<lparr>PodContainerName = name,
               PodContainerImage = (if Image service = [] then name else Image service)\<rparr>"
  have pod: "InitPod name ?service = ?pod"
    by (simp add: InitPod_def InitPodSpec_def)
  have kinds: "\<forall>obj\<in>set ?claims. KindOf obj = KPersistentVolumeClaim"
    using claims_kinds by blast
  have len: "length ?claims =
      (if EmptyVols opt then 0
       else length (filter (\<lambda>volume. VFrom volume = []) (Volumes service)))"
    by (simp add: claims_length)
  have graph: "objectsOf kind name graph = (if kind = KPod then [?pod] else [])"
    if "kind \<noteq> KPersistentVolumeClaim" for kind
    using assms(3)
  proof
    assume k: "Kubernetes_Transform w komposeObject opt = Inr graph"
    from Kubernetes_Transform_objectsOf [OF k assms(1) that] obtain objects where
      o: "Kubernetes_service w opt name service = Inr objects"
        "objectsOf kind name graph = objectsOf kind name objects" by auto
    from Kubernetes_service_pod [OF assms(2) o(1)] o(2) show ?thesis
      using objectsOf_pod_claims [OF kinds that, of name ?service] by (simp add: pod)
  next
    assume k: "OpenShift_Transform w komposeObject opt = Inr graph"
    from OpenShift_Transform_objectsOf [OF k assms(1) that]
      OpenShift_service_pod_no_Continue [OF assms(2), of w opt name]
    obtain objects r b r' b' where
      o: "OpenShift_service w opt name service r b = Proceed (objects, r', b')"
        "objectsOf kind name graph = objectsOf kind name objects" by blast
    from OpenShift_service_pod [OF assms(2) o(1)] o(2) show ?thesis
      using objectsOf_pod_claims [OF kinds that, of name ?service] by (simp add: pod)
  qed
  have k: "Kubernetes_service w opt name service = Inr (?pod # ?claims)"
    if tr: "Kubernetes_Transform w komposeObject opt = Inr graph"
  proof -
    from Kubernetes_Transform_objectsOf [OF tr assms(1), of KPod] obtain objects where
      o: "Kubernetes_service w opt name service = Inr objects" by auto
    have "objects = InitPod name ?service # ?claims"
      by (rule Kubernetes_service_pod [OF assms(2) o])
    then have "objects = ?pod # ?claims" by (simp only: pod)
    with o show ?thesis by simp
  qed
  have o: "\<exists>r b r' b'. OpenShift_service w opt name service r b = Proceed (?pod # ?claims, r', b')"
    if tr: "OpenShift_Transform w komposeObject opt = Inr graph"
  proof -
    from OpenShift_Transform_objectsOf [OF tr assms(1), of KPod]
      OpenShift_service_pod_no_Continue [OF assms(2), of w opt name]
    obtain objects r b r' b' where
      o: "OpenShift_service w opt name service r b = Proceed (objects, r', b')" by blast
    have "objects = InitPod name ?service # ?claims"
      by (rule OpenShift_service_pod [OF assms(2) o])
    then have "objects = ?pod # ?claims" by (simp only: pod)
    with o show ?thesis by blast
  qed
  show ?thesis
  proof (intro conjI)
    show "objectsOf KPod name graph = [?pod]" using graph [of KPod] by simp
    show "\<forall>kind. kind \<noteq> KPod \<and> kind \<noteq> KPersistentVolumeClaim \<longrightarrow>
               objectsOf kind name graph = []"
      using graph by simp
    show "\<exists>claims.
               (Kubernetes_Transform w komposeObject opt = Inr graph \<longrightarrow>
                  Kubernetes_service w opt name service = Inr (?pod # claims))
               \<and> (OpenShift_Transform w komposeObject opt = Inr graph \<longrightarrow>
                  (\<exists>r b r' b'. OpenShift_service w opt name service r b =
                    Proceed (?pod # claims, r', b')))
               \<and> (\<forall>obj\<in>set claims. KindOf obj = KPersistentVolumeClaim)
               \<and> length claims =
                   (if EmptyVols opt then 0
                    else length (filter (\<lambda>volume. VFrom volume = []) (Volumes service)))"
      using k o kinds len by (intro exI [of _ ?claims]) blast
  qed
qed

text \<open>
  C2 as stated fails: the service "job" of the example model has restart policy
  "on-failure" and one volume mount, no controller kind is forced, and its iteration
  emits two objects on either platform, a Pod and a PersistentVolumeClaim.
\<close>

theorem bare_pod_with_claim_counterexample:
  "map_of exampleModel ''job'' = Some exampleJob
   \<and> Restart exampleJob = ''on-failure''
   \<and> IsDeploymentFlag exampleOpt = False \<and> IsDaemonSetFlag exampleOpt = False
   \<and> IsReplicationControllerFlag exampleOpt = False
   \<and> IsDeploymentConfigFlag exampleOpenShiftOpt = False
   \<and> Kubernetes_service exampleWorld exampleOpt ''job'' exampleJob =
       Inr [exampleGraph ! 5, exampleGraph ! 6]
   \<and> OpenShift_service exampleWorld exampleOpenShiftOpt ''job'' exampleJob [] [] =
       Proceed ([exampleOpenShiftGraph ! 6, exampleOpenShiftGraph ! 7], [], [])
   \<and> KindOf (exampleGraph ! 5) = KPod
   \<and> KindOf (exampleGraph ! 6) = KPersistentVolumeClaim
   \<and> KindOf (exampleOpenShiftGraph ! 6) = KPod
   \<and> KindOf (exampleOpenShiftGraph ! 7) = KPersistentVolumeClaim
   \<and> Kubernetes_Transform exampleWorld exampleModel exampleOpt = Inr exampleGraph
   \<and> OpenShift_Transform exampleWorld exampleModel exampleOpenShiftOpt = Inr exampleOpenShiftGraph"
proof -
  have "map_of exampleModel ''job'' = Some exampleJob" by (simp add: exampleModel_def)
  moreover have "Restart exampleJob = ''on-failure''" by (simp add: exampleJob_def)
  moreover have "IsDeploymentFlag exampleOpt = False" "IsDaemonSetFlag exampleOpt = False"
    "IsReplicationControllerFlag exampleOpt = False"
    "IsDeploymentConfigFlag exampleOpenShiftOpt = False"
    by (simp_all add: exampleOpt_def exampleOpenShiftOpt_def)
  moreover have "KindOf (exampleGraph ! 5) = KPod"
    "KindOf (exampleGraph ! 6) = KPersistentVolumeClaim"
    "KindOf (exampleOpenShiftGraph ! 6) = KPod"
    "KindOf (exampleOpenShiftGraph ! 7) = KPersistentVolumeClaim"
    by (simp_all add: exampleGraph_def exampleOpenShiftGraph_def)
  ultimately show ?thesis
    using exampleJob_objects exampleJob_OpenShift exampleGraph_eval exampleOpenShiftGraph_eval
    by simp
qed

theorem bare_pod_for_restart_no_witness:
  "map_of exampleModel ''job'' = Some exampleJob
   \<and> Restart exampleJob = ''on-failure''
   \<and> Kubernetes_Transform exampleWorld exampleModel exampleOpt = Inr exampleGraph
   \<and> OpenShift_Transform exampleWorld exampleModel exampleOpenShiftOpt = Inr exampleOpenShiftGraph
   \<and> objectsOf KPod ''job'' exampleGraph =
       [Pod \<lparr>Name = ''job'', Labels = ConfigLabels ''job''\<rparr>
          \<lparr>PodContainerName = ''job'', PodContainerImage = ''busybox''\<rparr>]
   \<and> objectsOf KPod ''job'' exampleOpenShiftGraph =
       [Pod \<lparr>Name = ''job'', Labels = ConfigLabels ''job''\<rparr>
          \<lparr>PodContainerName = ''job'', PodContainerImage = ''busybox''\<rparr>]
   \<and> objectsOf KService ''job'' exampleGraph = []
   \<and> objectsOf KDeployment ''job'' exampleGraph = []
   \<and> objectsOf KDeploymentConfig ''job'' exampleOpenShiftGraph = []"
proof -
  have job: "map_of exampleModel ''job'' = Some exampleJob" by (simp add: exampleModel_def)
  have r: "Restart exampleJob = ''no'' \<or> Restart exampleJob = ''on-failure''"
    and i: "Image exampleJob = ''busybox''" "Restart exampleJob = ''on-failure''"
    by (simp_all add: exampleJob_def)
  note k = bare_pod_for_restart_no [OF job r disjI1 [OF exampleGraph_eval]]
  note o = bare_pod_for_restart_no [OF job r disjI2 [OF exampleOpenShiftGraph_eval]]
  from k o job i exampleGraph_eval exampleOpenShiftGraph_eval show ?thesis
    by (simp add: i)
qed

section \<open>A failing step that does not abort the transform\<close>

lemma buildModel_keys: "SortedKeys buildModel = [''app'', ''db'']"
  by (simp add: SortedKeys_def buildModel_def)

lemma buildModel_lookup:
  "ServiceConfigs buildModel ''app'' = exampleBuildService\<lparr>Restart := ''always''\<rparr>"
  "ServiceConfigs buildModel ''db'' = exampleDb"
  by (simp_all add: ServiceConfigs_def buildModel_def)

lemma app_skipped:
  "OpenShift_service failingWorld buildConfigOpt ''app''
     (exampleBuildService\<lparr>Restart := ''always''\<rparr>) [] [] = Continue"
  by (simp add: OpenShift_service_def OpenShift_buildAndPush_def OpenShift_buildConfig_def
      buildConfigOpt_def exampleOpenShiftOpt_def exampleOpt_def exampleBuildService_def
      zero_ServiceConfig_def failingWorld_def exampleWorld_def Let_def)

lemma db_kept:
  "OpenShift_service failingWorld buildConfigOpt ''db'' exampleDb [] [] =
     Proceed ([buildGraph ! 1, buildGraph ! 2, buildGraph ! 0, buildGraph ! 3], [], [])"
  by (simp add: buildConfigOpt_def exampleOpenShiftOpt_def exampleOpt_def exampleDb_def
      zero_ServiceConfig_def OpenShift_service_defs buildGraph_def)

lemma app_local_build_fails:
  "Kubernetes_service failingWorld (exampleOpt\<lparr>BuildMode := ''local''\<rparr>) ''app''
     (exampleBuildService\<lparr>Restart := ''always''\<rparr>)
     = Inl (External ''getwd: no such file or directory'')"
  "OpenShift_service failingWorld (exampleOpenShiftOpt\<lparr>BuildMode := ''local''\<rparr>) ''app''
     (exampleBuildService\<lparr>Restart := ''always''\<rparr>) [] []
     = Return (External ''getwd: no such file or directory'')"
  by (simp_all add: Kubernetes_service_def Kubernetes_buildAndPush_def OpenShift_service_def
      OpenShift_buildAndPush_def exampleOpenShiftOpt_def exampleOpt_def exampleBuildService_def
      zero_ServiceConfig_def failingWorld_def exampleWorld_def Let_def)

text \<open>
  C9 does not hold of \<open>OpenShift.Transform\<close>: with build mode "build-config" and a service
  "app" that has a build context, the lookup of the compose file directory fails, the
  iteration for "app" ends at the \<^verbatim>\<open>continue\<close> statement, and the transform returns a
  graph without error that holds the objects of "db" only. The same failed lookup in the
  local-build branch ends either transform with the error.
\<close>

theorem partial_graph_after_warning:
  "map_of buildModel ''app'' = Some (exampleBuildService\<lparr>Restart := ''always''\<rparr>)
   \<and> GetComposeFileDir failingWorld (InputFiles buildConfigOpt)
       = Inl (External ''getwd: no such file or directory'')
   \<and> OpenShift_Transform failingWorld buildModel buildConfigOpt = Inr buildGraph
   \<and> map GetName buildGraph = [''db'', ''db'', ''db'', ''db-claim0'']
   \<and> Kubernetes_Transform failingWorld buildModel (exampleOpt\<lparr>BuildMode := ''local''\<rparr>)
       = Inl (External ''getwd: no such file or directory'')
   \<and> OpenShift_Transform failingWorld buildModel (exampleOpenShiftOpt\<lparr>BuildMode := ''local''\<rparr>)
       = Inl (External ''getwd: no such file or directory'')"
proof -
  have o: "BuildRepo buildConfigOpt = []" "BuildBranch buildConfigOpt = []"
    "BuildRepo (exampleOpenShiftOpt\<lparr>BuildMode := ''local''\<rparr>) = []"
    "BuildBranch (exampleOpenShiftOpt\<lparr>BuildMode := ''local''\<rparr>) = []"
    by (simp_all add: buildConfigOpt_def exampleOpenShiftOpt_def exampleOpt_def)
  have "OpenShift_loop failingWorld buildConfigOpt buildModel ([], [], []) (SortedKeys buildModel)
          = Inr [buildGraph ! 1, buildGraph ! 2, buildGraph ! 0, buildGraph ! 3]"
    by (simp add: buildModel_keys buildModel_lookup app_skipped db_kept)
  then have t: "OpenShift_Transform failingWorld buildModel buildConfigOpt = Inr buildGraph"
    by (simp add: OpenShift_Transform_def o buildGraph_def SortServicesFirst_def isExposure_def)
  have k: "Kubernetes_Transform failingWorld buildModel (exampleOpt\<lparr>BuildMode := ''local''\<rparr>)
       = Inl (External ''getwd: no such file or directory'')"
    by (simp add: Kubernetes_Transform_def buildModel_keys buildModel_lookup
        app_local_build_fails)
  have l: "OpenShift_Transform failingWorld buildModel
             (exampleOpenShiftOpt\<lparr>BuildMode := ''local''\<rparr>)
       = Inl (External ''getwd: no such file or directory'')"
    by (simp add: OpenShift_Transform_def o buildModel_keys buildModel_lookup
        app_local_build_fails)
  have m: "map_of buildModel ''app'' = Some (exampleBuildService\<lparr>Restart := ''always''\<rparr>)"
    by (simp add: buildModel_def)
  have g: "GetComposeFileDir failingWorld (InputFiles buildConfigOpt)
       = Inl (External ''getwd: no such file or directory'')"
    by (simp add: failingWorld_def)
  have n: "map GetName buildGraph = [''db'', ''db'', ''db'', ''db-claim0'']"
    by (simp add: buildGraph_def GetName_def)
  from m g t n k l show ?thesis by simp
qed

section \<open>The calls and the errors of an undeploy run\<close>

lemma failuresOf_append:
  "failuresOf cl h (xs @ ys) = failuresOf cl h xs @ failuresOf cl (h @ xs) ys"
  by (induction xs arbitrary: h) auto

lemma removeOne_history:
  assumes "removeOne cl how kind namespace tName h = (r, h')"
  shows "\<exists>calls. h' = h @ calls
           \<and> failuresOf cl h calls = (case r of Some err \<Rightarrow> [err] | None \<Rightarrow> [])
           \<and> (\<forall>c\<in>set calls. \<not> isListCall c)
           \<and> (\<forall>c\<in>set calls. isRemoval c \<longrightarrow>
                  c = StopCall kind namespace tName TIMEOUT \<or> c = DeleteCall kind namespace tName)
           \<and> length (filter isRemoval calls) \<le> 1"
proof (cases how)
  case ReaperStop
  show ?thesis
  proof (cases "snd (Respond cl h (ReaperForCall kind))")
    case None
    with ReaperStop assms have
      "h' = h @ [ReaperForCall kind, StopCall kind namespace tName TIMEOUT]"
      "r = snd (Respond cl (h @ [ReaperForCall kind]) (StopCall kind namespace tName TIMEOUT))"
      by (auto simp: removeOne_def)
    with None show ?thesis
      by (intro exI [of _ "[ReaperForCall kind, StopCall kind namespace tName TIMEOUT]"])
        (auto split: option.splits)
  next
    case (Some err)
    with ReaperStop assms have "h' = h @ [ReaperForCall kind]" "r = Some err"
      by (auto simp: removeOne_def)
    with Some show ?thesis by (intro exI [of _ "[ReaperForCall kind]"]) auto
  qed
next
  case DirectStop
  with assms have "h' = h @ [StopCall kind namespace tName TIMEOUT]"
    "r = snd (Respond cl h (StopCall kind namespace tName TIMEOUT))"
    by (auto simp: removeOne_def)
  then show ?thesis
    by (intro exI [of _ "[StopCall kind namespace tName TIMEOUT]"]) (auto split: option.splits)
next
  case DirectDelete
  with assms have "h' = h @ [DeleteCall kind namespace tName]"
    "r = snd (Respond cl h (DeleteCall kind namespace tName))"
    by (auto simp: removeOne_def)
  then show ?thesis
    by (intro exI [of _ "[DeleteCall kind namespace tName]"]) (auto split: option.splits)
qed

lemma removeListed_exact:
  "removeListed cl how kind namespace tName komposeLabel items st =
   removeListed cl how kind namespace tName komposeLabel
     (filter (\<lambda>l. LiveLabels l = komposeLabel) items) st"
proof (induction items arbitrary: st)
  case Nil
  then show ?case by simp
next
  case (Cons l items)
  obtain errorList h where st: "st = (errorList, h)" by (cases st) auto
  show ?case unfolding st using Cons.IH
    by (auto split: prod.splits option.splits)
qed

lemma removeListed_history:
  "\<exists>calls. snd (removeListed cl how kind namespace tName komposeLabel items (errorList, h))
             = h @ calls
     \<and> fst (removeListed cl how kind namespace tName komposeLabel items (errorList, h))
             = errorList @ failuresOf cl h calls
     \<and> (\<forall>c\<in>set calls. \<not> isListCall c)
     \<and> (\<forall>c\<in>set calls. isRemoval c \<longrightarrow>
            c = StopCall kind namespace tName TIMEOUT \<or> c = DeleteCall kind namespace tName)
     \<and> length (filter isRemoval calls)
          \<le> length (filter (\<lambda>l. LiveLabels l = komposeLabel) items)"
proof (induction items arbitrary: errorList h)
  case Nil
  show ?case by (intro exI [of _ "[]"]) simp
next
  case (Cons l items)
  show ?case
  proof (cases "LiveLabels l = komposeLabel")
    case False
    with Cons.IH [of errorList h] show ?thesis by simp
  next
    case True
    obtain r h1 where one: "removeOne cl how kind namespace tName h = (r, h1)"
      by (cases "removeOne cl how kind namespace tName h") auto
    from removeOne_history [OF one] obtain calls1 where
      c1: "h1 = h @ calls1"
        "failuresOf cl h calls1 = (case r of Some err \<Rightarrow> [err] | None \<Rightarrow> [])"
        "\<forall>c\<in>set calls1. \<not> isListCall c"
        "\<forall>c\<in>set calls1. isRemoval c \<longrightarrow>
            c = StopCall kind namespace tName TIMEOUT \<or> c = DeleteCall kind namespace tName"
        "length (filter isRemoval calls1) \<le> 1"
      by blast
    show ?thesis
    proof (cases r)
      case (Some err)
      with True one c1 show ?thesis by (intro exI [of _ calls1]) auto
    next
      case None
      from Cons.IH [of errorList h1] obtain calls2 where
        c2: "snd (removeListed cl how kind namespace tName komposeLabel items (errorList, h1))
               = h1 @ calls2"
          "fst (removeListed cl how kind namespace tName komposeLabel items (errorList, h1))
               = errorList @ failuresOf cl h1 calls2"
          "\<forall>c\<in>set calls2. \<not> isListCall c"
          "\<forall>c\<in>set calls2. isRemoval c \<longrightarrow>
              c = StopCall kind namespace tName TIMEOUT \<or> c = DeleteCall kind namespace tName"
          "length (filter isRemoval calls2)
             \<le> length (filter (\<lambda>l. LiveLabels l = komposeLabel) items)"
        by blast
      from True one None c1 c2 show ?thesis
        by (intro exI [of _ "calls1 @ calls2"]) (auto simp: failuresOf_append)
    qed
  qed
qed

lemma listAndRemove_history:
  "\<exists>calls. snd (listAndRemove cl how kind brk namespace v (errorList, h))
             = h @ ListCall kind namespace [Selector \<mapsto> GetName v] # calls
     \<and> fst (listAndRemove cl how kind brk namespace v (errorList, h))
             = errorList
               @ failuresOf cl h (ListCall kind namespace [Selector \<mapsto> GetName v] # calls)
     \<and> (\<forall>c\<in>set calls. \<not> isListCall c)
     \<and> (\<forall>c\<in>set calls. isRemoval c \<longrightarrow>
            c = StopCall kind namespace (GetName v) TIMEOUT
            \<or> c = DeleteCall kind namespace (GetName v))
     \<and> length (filter isRemoval calls)
          \<le> length (filter (\<lambda>l. LiveLabels l = [Selector \<mapsto> GetName v])
                (fst (Respond cl h (ListCall kind namespace [Selector \<mapsto> GetName v]))))"
proof -
  let ?label = "[Selector \<mapsto> GetName v]"
  let ?list = "ListCall kind namespace ?label"
  let ?items = "fst (Respond cl h ?list)"
  show ?thesis
  proof (cases "snd (Respond cl h ?list)")
    case None
    from removeListed_history [of cl how kind namespace "GetName v" ?label ?items errorList
        "h @ [?list]"]
    obtain calls where
      "snd (removeListed cl how kind namespace (GetName v) ?label ?items (errorList, h @ [?list]))
         = (h @ [?list]) @ calls"
      "fst (removeListed cl how kind namespace (GetName v) ?label ?items (errorList, h @ [?list]))
         = errorList @ failuresOf cl (h @ [?list]) calls"
      "\<forall>c\<in>set calls. \<not> isListCall c"
      "\<forall>c\<in>set calls. isRemoval c \<longrightarrow>
         c = StopCall kind namespace (GetName v) TIMEOUT
         \<or> c = DeleteCall kind namespace (GetName v)"
      "length (filter isRemoval calls) \<le> length (filter (\<lambda>l. LiveLabels l = ?label) ?items)"
      by blast
    with None show ?thesis
      by (intro exI [of _ calls]) (simp add: listAndRemove_def Let_def)
  next
    case (Some err)
    show ?thesis
    proof (cases brk)
      case True
      with Some show ?thesis
        by (intro exI [of _ "[]"]) (simp add: listAndRemove_def Let_def)
    next
      case False
      from removeListed_history [of cl how kind namespace "GetName v" ?label ?items
          "errorList @ [err]" "h @ [?list]"]
      obtain calls where
        "snd (removeListed cl how kind namespace (GetName v) ?label ?items
                (errorList @ [err], h @ [?list])) = (h @ [?list]) @ calls"
        "fst (removeListed cl how kind namespace (GetName v) ?label ?items
                (errorList @ [err], h @ [?list]))
           = (errorList @ [err]) @ failuresOf cl (h @ [?list]) calls"
        "\<forall>c\<in>set calls. \<not> isListCall c"
        "\<forall>c\<in>set calls. isRemoval c \<longrightarrow>
           c = StopCall kind namespace (GetName v) TIMEOUT
           \<or> c = DeleteCall kind namespace (GetName v)"
        "length (filter isRemoval calls) \<le> length (filter (\<lambda>l. LiveLabels l = ?label) ?items)"
        by blast
      with Some False show ?thesis
        by (intro exI [of _ calls]) (simp add: listAndRemove_def Let_def)
    qed
  qed
qed


lemma Kubernetes_undeployObject_cases:
  "(\<not> Kubernetes_undeploys v \<and> Kubernetes_undeployObject cl namespace v st = st)
   \<or> (Kubernetes_undeploys v
       \<and> (\<exists>how brk. Kubernetes_undeployObject cl namespace v st
                       = listAndRemove cl how (KindOf v) brk namespace v st))"
  by (cases "KindOf v") (auto simp: Kubernetes_undeploys_def Kubernetes_undeployObject_def)

lemma OpenShift_undeployObject_cases:
  "(\<not> OpenShift_undeploys v \<and> OpenShift_undeployObject cl namespace v st = st)
   \<or> (OpenShift_undeploys v
       \<and> (\<exists>how brk. OpenShift_undeployObject cl namespace v st
                       = listAndRemove cl how (KindOf v) brk namespace v st))"
  by (cases "KindOf v") (auto simp: OpenShift_undeploys_def OpenShift_undeployObject_def)

lemma undeployObject_history:
  assumes "(\<not> handled \<and> undeployed = (errorList, h))
           \<or> (handled \<and> (\<exists>how brk. undeployed
                 = listAndRemove cl how (KindOf v) brk namespace v (errorList, h)))"
  shows "\<exists>calls. snd undeployed = h @ calls
     \<and> fst undeployed = errorList @ failuresOf cl h calls
     \<and> filter isListCall calls = (if handled then [listCallFor namespace v] else [])
     \<and> (\<forall>c\<in>set calls. isRemoval c \<longrightarrow>
            c = StopCall (KindOf v) namespace (GetName v) TIMEOUT
            \<or> c = DeleteCall (KindOf v) namespace (GetName v))
     \<and> length (filter isRemoval calls)
          \<le> length (filter (\<lambda>l. LiveLabels l = [Selector \<mapsto> GetName v])
                (fst (Respond cl h (listCallFor namespace v))))"
proof (cases handled)
  case False
  with assms show ?thesis by (intro exI [of _ "[]"]) auto
next
  case True
  with assms obtain how brk where
    u: "undeployed = listAndRemove cl how (KindOf v) brk namespace v (errorList, h)" by auto
  from listAndRemove_history [of cl how "KindOf v" brk namespace v errorList h]
  obtain calls where
    c: "snd undeployed = h @ ListCall (KindOf v) namespace [Selector \<mapsto> GetName v] # calls"
      "fst undeployed = errorList
         @ failuresOf cl h (ListCall (KindOf v) namespace [Selector \<mapsto> GetName v] # calls)"
      "\<forall>c\<in>set calls. \<not> isListCall c"
      "\<forall>c\<in>set calls. isRemoval c \<longrightarrow>
         c = StopCall (KindOf v) namespace (GetName v) TIMEOUT
         \<or> c = DeleteCall (KindOf v) namespace (GetName v)"
      "length (filter isRemoval calls)
         \<le> length (filter (\<lambda>l. LiveLabels l = [Selector \<mapsto> GetName v])
               (fst (Respond cl h (ListCall (KindOf v) namespace [Selector \<mapsto> GetName v]))))"
    unfolding u by blast
  from c(3) have "filter isListCall calls = []" by (simp add: filter_empty_conv)
  with True c show ?thesis
    by (intro exI [of _ "ListCall (KindOf v) namespace [Selector \<mapsto> GetName v] # calls"])
      (simp add: listCallFor_def)
qed

lemma Kubernetes_Undeploy_loop_history:
  "\<exists>calls. snd (Kubernetes_Undeploy_loop cl namespace objects (errorList, h)) = h @ calls
     \<and> fst (Kubernetes_Undeploy_loop cl namespace objects (errorList, h))
         = errorList @ failuresOf cl h calls
     \<and> filter isListCall calls
         = map (listCallFor namespace) (filter Kubernetes_undeploys objects)
     \<and> (\<forall>c\<in>set calls. isRemoval c \<longrightarrow>
            (\<exists>v\<in>set objects. c = StopCall (KindOf v) namespace (GetName v) TIMEOUT
                               \<or> c = DeleteCall (KindOf v) namespace (GetName v)))"
proof (induction objects arbitrary: errorList h)
  case Nil
  show ?case by (intro exI [of _ "[]"]) simp
next
  case (Cons v objects)
  let ?u = "Kubernetes_undeployObject cl namespace v (errorList, h)"
  from undeployObject_history
    [OF Kubernetes_undeployObject_cases [of v cl namespace "(errorList, h)"]]
  obtain calls1 where
    c1: "snd ?u = h @ calls1" "fst ?u = errorList @ failuresOf cl h calls1"
      "filter isListCall calls1 = (if Kubernetes_undeploys v then [listCallFor namespace v] else [])"
      "\<forall>c\<in>set calls1. isRemoval c \<longrightarrow>
         c = StopCall (KindOf v) namespace (GetName v) TIMEOUT
         \<or> c = DeleteCall (KindOf v) namespace (GetName v)"
    by blast
  from Cons.IH [of "fst ?u" "snd ?u"] obtain calls2 where
    c2: "snd (Kubernetes_Undeploy_loop cl namespace objects ?u) = snd ?u @ calls2"
      "fst (Kubernetes_Undeploy_loop cl namespace objects ?u)
         = fst ?u @ failuresOf cl (snd ?u) calls2"
      "filter isListCall calls2
         = map (listCallFor namespace) (filter Kubernetes_undeploys objects)"
      "\<forall>c\<in>set calls2. isRemoval c \<longrightarrow>
         (\<exists>v\<in>set objects. c = StopCall (KindOf v) namespace (GetName v) TIMEOUT
                            \<or> c = DeleteCall (KindOf v) namespace (GetName v))"
    by auto
  show ?case
    using c1 c2 by (intro exI [of _ "calls1 @ calls2"]) (auto simp: failuresOf_append)
qed

lemma OpenShift_Undeploy_loop_history:
  "\<exists>calls. snd (OpenShift_Undeploy_loop cl namespace objects (errorList, h)) = h @ calls
     \<and> fst (OpenShift_Undeploy_loop cl namespace objects (errorList, h))
         = errorList @ failuresOf cl h calls
     \<and> filter isListCall calls
         = map (listCallFor namespace) (filter OpenShift_undeploys objects)
     \<and> (\<forall>c\<in>set calls. isRemoval c \<longrightarrow>
            (\<exists>v\<in>set objects. c = StopCall (KindOf v) namespace (GetName v) TIMEOUT
                               \<or> c = DeleteCall (KindOf v) namespace (GetName v)))"
proof (induction objects arbitrary: errorList h)
  case Nil
  show ?case by (intro exI [of _ "[]"]) simp
next
  case (Cons v objects)
  let ?u = "OpenShift_undeployObject cl namespace v (errorList, h)"
  from undeployObject_history
    [OF OpenShift_undeployObject_cases [of v cl namespace "(errorList, h)"]]
  obtain calls1 where
    c1: "snd ?u = h @ calls1" "fst ?u = errorList @ failuresOf cl h calls1"
      "filter isListCall calls1 = (if OpenShift_undeploys v then [listCallFor namespace v] else [])"
      "\<forall>c\<in>set calls1. isRemoval c \<longrightarrow>
         c = StopCall (KindOf v) namespace (GetName v) TIMEOUT
         \<or> c = DeleteCall (KindOf v) namespace (GetName v)"
    by blast
  from Cons.IH [of "fst ?u" "snd ?u"] obtain calls2 where
    c2: "snd (OpenShift_Undeploy_loop cl namespace objects ?u) = snd ?u @ calls2"
      "fst (OpenShift_Undeploy_loop cl namespace objects ?u)
         = fst ?u @ failuresOf cl (snd ?u) calls2"
      "filter isListCall calls2
         = map (listCallFor namespace) (filter OpenShift_undeploys objects)"
      "\<forall>c\<in>set calls2. isRemoval c \<longrightarrow>
         (\<exists>v\<in>set objects. c = StopCall (KindOf v) namespace (GetName v) TIMEOUT
                            \<or> c = DeleteCall (KindOf v) namespace (GetName v))"
    by auto
  show ?case
    using c1 c2 by (intro exI [of _ "calls1 @ calls2"]) (auto simp: failuresOf_append)
qed

lemma failuresOf_Nil_iff:
  "failuresOf cl h calls = []
   \<longleftrightarrow> (\<forall>i<length calls. snd (Respond cl (h @ take i calls) (calls ! i)) = None)"
proof (induction calls arbitrary: h)
  case Nil
  show ?case by simp
next
  case (Cons c calls)
  have "(\<forall>i<length (c # calls). snd (Respond cl (h @ take i (c # calls)) ((c # calls) ! i)) = None)
      \<longleftrightarrow> snd (Respond cl h c) = None
          \<and> (\<forall>i<length calls. snd (Respond cl ((h @ [c]) @ take i calls) (calls ! i)) = None)"
    by (auto simp: less_Suc_eq_0_disj)
  with Cons.IH [of "h @ [c]"] show ?case by (auto split: option.splits)
qed

lemma listAndRemove_nothing_listed:
  assumes "Respond cl h (ListCall kind namespace [Selector \<mapsto> GetName v]) = ([], None)"
  shows "listAndRemove cl how kind brk namespace v (errorList, h)
           = (errorList, h @ [ListCall kind namespace [Selector \<mapsto> GetName v]])"
  using assms by (simp add: listAndRemove_def Let_def)

lemma Undeploy_loop_nothing_listed:
  assumes "\<And>h kind namespace selector.
             Respond cl h (ListCall kind namespace selector) = ([], None)"
  shows "fst (Kubernetes_Undeploy_loop cl namespace objects (errorList, h)) = errorList"
    and "fst (OpenShift_Undeploy_loop cl namespace objects (errorList, h)) = errorList"
proof -
  have k: "fst (Kubernetes_undeployObject cl namespace v (errorList, h)) = errorList"
    for v errorList h
    using Kubernetes_undeployObject_cases [of v cl namespace "(errorList, h)"]
      listAndRemove_nothing_listed [OF assms]
    by auto
  have o: "fst (OpenShift_undeployObject cl namespace v (errorList, h)) = errorList"
    for v errorList h
    using OpenShift_undeployObject_cases [of v cl namespace "(errorList, h)"]
      listAndRemove_nothing_listed [OF assms]
    by auto
  show "fst (Kubernetes_Undeploy_loop cl namespace objects (errorList, h)) = errorList"
  proof (induction objects arbitrary: h)
    case Nil
    show ?case by simp
  next
    case (Cons v objects)
    obtain e h' where u: "Kubernetes_undeployObject cl namespace v (errorList, h) = (e, h')"
      by (cases "Kubernetes_undeployObject cl namespace v (errorList, h)") auto
    with k [of v errorList h] have "e = errorList" by simp
    with u Cons.IH [of h'] show ?case by simp
  qed
  show "fst (OpenShift_Undeploy_loop cl namespace objects (errorList, h)) = errorList"
  proof (induction objects arbitrary: h)
    case Nil
    show ?case by simp
  next
    case (Cons v objects)
    obtain e h' where u: "OpenShift_undeployObject cl namespace v (errorList, h) = (e, h')"
      by (cases "OpenShift_undeployObject cl namespace v (errorList, h)") auto
    with o [of v errorList h] have "e = errorList" by simp
    with u Cons.IH [of h'] show ?case by simp
  qed
qed

section \<open>Undeploying the example\<close>

lemma webModel_keys: "SortedKeys webModel = [''web'']"
  by (simp add: SortedKeys_def webModel_def)

lemma webModel_lookup: "ServiceConfigs webModel ''web'' = exampleWeb"
  by (simp add: ServiceConfigs_def webModel_def)

lemma webGraph_eval: "Kubernetes_Transform exampleWorld webModel exampleOpt = Inr webGraph"
proof -
  have "Kubernetes_loop exampleWorld exampleOpt webModel [] (SortedKeys webModel)
          = Inr [exampleGraph ! 7, exampleGraph ! 1, exampleGraph ! 2]"
    by (simp add: webModel_keys webModel_lookup exampleWeb_objects)
  then show ?thesis
    by (simp add: Kubernetes_Transform_def webGraph_def exampleGraph_def SortServicesFirst_def
        isExposure_def)
qed

lemma webOpenShiftGraph_eval:
  "OpenShift_Transform exampleWorld webModel exampleOpenShiftOpt = Inr webOpenShiftGraph"
proof -
  have o: "BuildRepo exampleOpenShiftOpt = []" "BuildBranch exampleOpenShiftOpt = []"
    by (simp_all add: exampleOpenShiftOpt_def exampleOpt_def)
  have "OpenShift_loop exampleWorld exampleOpenShiftOpt webModel ([], [], [])
          (SortedKeys webModel)
          = Inr [exampleOpenShiftGraph ! 8, exampleOpenShiftGraph ! 9, exampleOpenShiftGraph ! 1,
                 exampleOpenShiftGraph ! 2]"
    by (simp add: webModel_keys webModel_lookup exampleWeb_OpenShift)
  then show ?thesis
    by (simp add: OpenShift_Transform_def o webOpenShiftGraph_def exampleOpenShiftGraph_def
        SortServicesFirst_def isExposure_def)
qed

lemmas undeploy_defs = Kubernetes_undeployObject_def OpenShift_undeployObject_def
  listAndRemove_def removeOne_def TIMEOUT_def GetName_def Let_def

lemma webGraph_undeploy_failing:
  "Kubernetes_Undeploy_loop failingCluster ''default'' webGraph ([], []) =
     ([External ''list services: forbidden'', External ''stop: timed out''],
      [ListCall KService ''default'' [Selector \<mapsto> ''web''],
       ListCall KIngress ''default'' [Selector \<mapsto> ''web''],
       ListCall KDeployment ''default'' [Selector \<mapsto> ''web''],
       ReaperForCall KDeployment,
       StopCall KDeployment ''default'' ''web'' 300])"
  by (simp add: webGraph_def exampleGraph_def failingCluster_def undeploy_defs)

lemma webOpenShiftGraph_undeploy_failing:
  "OpenShift_Undeploy_loop failingCluster ''default'' webOpenShiftGraph ([], []) =
     ([External ''list services: forbidden'', External ''stop: timed out''],
      [ListCall KService ''default'' [Selector \<mapsto> ''web''],
       ListCall KRoute ''default'' [Selector \<mapsto> ''web''],
       ListCall KDeploymentConfig ''default'' [Selector \<mapsto> ''web''],
       StopCall KDeploymentConfig ''default'' ''web'' 300,
       ListCall KImageStream ''default'' [Selector \<mapsto> ''web'']])"
  by (simp add: webOpenShiftGraph_def exampleOpenShiftGraph_def failingCluster_def undeploy_defs)


section \<open>Undeploy collects the errors\<close>

text \<open>
  C8: after a successful transform (and with the clients at hand) \<open>Undeploy\<close> of either
  platform returns exactly the errors that its calls met, in the order of the calls:
  every failed list, reaper or delete call has its error in the list, so the list is
  empty exactly when no call failed. Whatever fails, every object of the graph whose kind
  the type switch handles gets its list call, in graph order; no failure ends the loop.
  When the cluster lists no object at all, the list of errors is empty.
\<close>

theorem undeploy_collects_every_error:
  "(Kubernetes_Transform w komposeObject opt = Inr objects \<and> GetKubernetesClient cl = Inr ns \<longrightarrow>
      (\<exists>calls.
         Kubernetes_Undeploy w cl komposeObject opt = (failuresOf cl [] calls, calls)
         \<and> filter isListCall calls =
             map (listCallFor (if IsNamespaceFlag opt then Namespace opt else ns))
               (filter Kubernetes_undeploys objects)
         \<and> (failuresOf cl [] calls = []
              \<longleftrightarrow> (\<forall>i<length calls. snd (Respond cl (take i calls) (calls ! i)) = None))))
   \<and> (OpenShift_Transform w komposeObject opt = Inr objects \<and> getOpenShiftClient cl = None
       \<and> GetKubernetesClient cl = Inr ns \<longrightarrow>
      (\<exists>calls.
         OpenShift_Undeploy w cl komposeObject opt = (failuresOf cl [] calls, calls)
         \<and> filter isListCall calls =
             map (listCallFor (if IsNamespaceFlag opt then Namespace opt else ns))
               (filter OpenShift_undeploys objects)
         \<and> (failuresOf cl [] calls = []
              \<longleftrightarrow> (\<forall>i<length calls. snd (Respond cl (take i calls) (calls ! i)) = None))))
   \<and> ((\<forall>h kind namespace selector.
          Respond cl h (ListCall kind namespace selector) = ([], None)) \<longrightarrow>
        (Kubernetes_Transform w komposeObject opt = Inr objects
         \<and> GetKubernetesClient cl = Inr ns \<longrightarrow>
           fst (Kubernetes_Undeploy w cl komposeObject opt) = [])
        \<and> (OpenShift_Transform w komposeObject opt = Inr objects \<and> getOpenShiftClient cl = None
            \<and> GetKubernetesClient cl = Inr ns \<longrightarrow>
           fst (OpenShift_Undeploy w cl komposeObject opt) = []))"
proof (intro conjI impI)
  let ?ns = "if IsNamespaceFlag opt then Namespace opt else ns"
  {
    assume a: "Kubernetes_Transform w komposeObject opt = Inr objects
               \<and> GetKubernetesClient cl = Inr ns"
    then have u: "Kubernetes_Undeploy w cl komposeObject opt
                    = Kubernetes_Undeploy_loop cl ?ns objects ([], [])"
      by (simp add: Kubernetes_Undeploy_def)
    from Kubernetes_Undeploy_loop_history [of cl ?ns objects "[]" "[]"] obtain calls where
      c: "snd (Kubernetes_Undeploy_loop cl ?ns objects ([], [])) = calls"
        "fst (Kubernetes_Undeploy_loop cl ?ns objects ([], [])) = failuresOf cl [] calls"
        "filter isListCall calls = map (listCallFor ?ns) (filter Kubernetes_undeploys objects)"
      by auto
    from c(1,2) have "Kubernetes_Undeploy_loop cl ?ns objects ([], [])
        = (failuresOf cl [] calls, calls)"
      by (metis prod.collapse)
    with u c(3) failuresOf_Nil_iff [of cl "[]" calls]
    show "\<exists>calls.
         Kubernetes_Undeploy w cl komposeObject opt = (failuresOf cl [] calls, calls)
         \<and> filter isListCall calls = map (listCallFor ?ns) (filter Kubernetes_undeploys objects)
         \<and> (failuresOf cl [] calls = []
              \<longleftrightarrow> (\<forall>i<length calls. snd (Respond cl (take i calls) (calls ! i)) = None))"
      by (intro exI [of _ calls]) simp
  }
  {
    assume a: "OpenShift_Transform w komposeObject opt = Inr objects
               \<and> getOpenShiftClient cl = None \<and> GetKubernetesClient cl = Inr ns"
    then have u: "OpenShift_Undeploy w cl komposeObject opt
                    = OpenShift_Undeploy_loop cl ?ns objects ([], [])"
      by (simp add: OpenShift_Undeploy_def)
    from OpenShift_Undeploy_loop_history [of cl ?ns objects "[]" "[]"] obtain calls where
      c: "snd (OpenShift_Undeploy_loop cl ?ns objects ([], [])) = calls"
        "fst (OpenShift_Undeploy_loop cl ?ns objects ([], [])) = failuresOf cl [] calls"
        "filter isListCall calls = map (listCallFor ?ns) (filter OpenShift_undeploys objects)"
      by auto
    from c(1,2) have "OpenShift_Undeploy_loop cl ?ns objects ([], [])
        = (failuresOf cl [] calls, calls)"
      by (metis prod.collapse)
    with u c(3) failuresOf_Nil_iff [of cl "[]" calls]
    show "\<exists>calls.
         OpenShift_Undeploy w cl komposeObject opt = (failuresOf cl [] calls, calls)
         \<and> filter isListCall calls = map (listCallFor ?ns) (filter OpenShift_undeploys objects)
         \<and> (failuresOf cl [] calls = []
              \<longleftrightarrow> (\<forall>i<length calls. snd (Respond cl (take i calls) (calls ! i)) = None))"
      by (intro exI [of _ calls]) simp
  }
  {
    assume n: "\<forall>h kind namespace selector.
          Respond cl h (ListCall kind namespace selector) = ([], None)"
      and a: "Kubernetes_Transform w komposeObject opt = Inr objects
               \<and> GetKubernetesClient cl = Inr ns"
    from a have "Kubernetes_Undeploy w cl komposeObject opt
                    = Kubernetes_Undeploy_loop cl ?ns objects ([], [])"
      by (simp add: Kubernetes_Undeploy_def)
    with Undeploy_loop_nothing_listed(1) [of cl ?ns objects "[]" "[]"] n
    show "fst (Kubernetes_Undeploy w cl komposeObject opt) = []" by simp
  }
  {
    assume n: "\<forall>h kind namespace selector.
          Respond cl h (ListCall kind namespace selector) = ([], None)"
      and a: "OpenShift_Transform w komposeObject opt = Inr objects
               \<and> getOpenShiftClient cl = None \<and> GetKubernetesClient cl = Inr ns"
    from a have "OpenShift_Undeploy w cl komposeObject opt
                    = OpenShift_Undeploy_loop cl ?ns objects ([], [])"
      by (simp add: OpenShift_Undeploy_def)
    with Undeploy_loop_nothing_listed(2) [of cl ?ns objects "[]" "[]"] n
    show "fst (OpenShift_Undeploy w cl komposeObject opt) = []" by simp
  }
qed

theorem undeploy_collects_every_error_witness:
  "Kubernetes_Transform exampleWorld webModel exampleOpt = Inr webGraph
   \<and> OpenShift_Transform exampleWorld webModel exampleOpenShiftOpt = Inr webOpenShiftGraph
   \<and> GetKubernetesClient failingCluster = Inr ''default''
   \<and> getOpenShiftClient failingCluster = None
   \<and> Kubernetes_Undeploy exampleWorld failingCluster webModel exampleOpt =
       ([External ''list services: forbidden'', External ''stop: timed out''],
        [ListCall KService ''default'' [Selector \<mapsto> ''web''],
         ListCall KIngress ''default'' [Selector \<mapsto> ''web''],
         ListCall KDeployment ''default'' [Selector \<mapsto> ''web''],
         ReaperForCall KDeployment,
         StopCall KDeployment ''default'' ''web'' 300])
   \<and> OpenShift_Undeploy exampleWorld failingCluster webModel exampleOpenShiftOpt =
       ([External ''list services: forbidden'', External ''stop: timed out''],
        [ListCall KService ''default'' [Selector \<mapsto> ''web''],
         ListCall KRoute ''default'' [Selector \<mapsto> ''web''],
         ListCall KDeploymentConfig ''default'' [Selector \<mapsto> ''web''],
         StopCall KDeploymentConfig ''default'' ''web'' 300,
         ListCall KImageStream ''default'' [Selector \<mapsto> ''web'']])
   \<and> (\<exists>calls. Kubernetes_Undeploy exampleWorld failingCluster webModel exampleOpt
                 = (failuresOf failingCluster [] calls, calls))
   \<and> (\<exists>calls. OpenShift_Undeploy exampleWorld failingCluster webModel exampleOpenShiftOpt
                 = (failuresOf failingCluster [] calls, calls))
   \<and> fst (Kubernetes_Undeploy exampleWorld emptyCluster webModel exampleOpt) = []
   \<and> fst (OpenShift_Undeploy exampleWorld emptyCluster webModel exampleOpenShiftOpt) = []"
proof -
  have c: "GetKubernetesClient failingCluster = Inr ''default''"
    "getOpenShiftClient failingCluster = None"
    "GetKubernetesClient emptyCluster = Inr ''default''"
    "getOpenShiftClient emptyCluster = None"
    by (simp_all add: failingCluster_def emptyCluster_def)
  have n: "IsNamespaceFlag exampleOpt = False" "IsNamespaceFlag exampleOpenShiftOpt = False"
    by (simp_all add: exampleOpt_def exampleOpenShiftOpt_def)
  have e: "\<forall>h kind namespace selector.
      Respond emptyCluster h (ListCall kind namespace selector) = ([], None)"
    by (simp add: emptyCluster_def)
  have k: "Kubernetes_Undeploy exampleWorld failingCluster webModel exampleOpt =
       ([External ''list services: forbidden'', External ''stop: timed out''],
        [ListCall KService ''default'' [Selector \<mapsto> ''web''],
         ListCall KIngress ''default'' [Selector \<mapsto> ''web''],
         ListCall KDeployment ''default'' [Selector \<mapsto> ''web''],
         ReaperForCall KDeployment,
         StopCall KDeployment ''default'' ''web'' 300])"
    by (simp add: Kubernetes_Undeploy_def webGraph_eval c n webGraph_undeploy_failing)
  have o: "OpenShift_Undeploy exampleWorld failingCluster webModel exampleOpenShiftOpt =
       ([External ''list services: forbidden'', External ''stop: timed out''],
        [ListCall KService ''default'' [Selector \<mapsto> ''web''],
         ListCall KRoute ''default'' [Selector \<mapsto> ''web''],
         ListCall KDeploymentConfig ''default'' [Selector \<mapsto> ''web''],
         StopCall KDeploymentConfig ''default'' ''web'' 300,
         ListCall KImageStream ''default'' [Selector \<mapsto> ''web'']])"
    by (simp add: OpenShift_Undeploy_def webOpenShiftGraph_eval c n
        webOpenShiftGraph_undeploy_failing)
  note t1 = undeploy_collects_every_error [of exampleWorld webModel exampleOpt webGraph
      failingCluster "''default''"]
  note t2 = undeploy_collects_every_error [of exampleWorld webModel exampleOpenShiftOpt
      webOpenShiftGraph failingCluster "''default''"]
  note t3 = undeploy_collects_every_error [of exampleWorld webModel exampleOpt webGraph
      emptyCluster "''default''"]
  note t4 = undeploy_collects_every_error [of exampleWorld webModel exampleOpenShiftOpt
      webOpenShiftGraph emptyCluster "''default''"]
  from t1 webGraph_eval c(1) have
    a1: "\<exists>calls. Kubernetes_Undeploy exampleWorld failingCluster webModel exampleOpt
                 = (failuresOf failingCluster [] calls, calls)" by blast
  from t2 webOpenShiftGraph_eval c(1,2) have
    a2: "\<exists>calls. OpenShift_Undeploy exampleWorld failingCluster webModel exampleOpenShiftOpt
                 = (failuresOf failingCluster [] calls, calls)" by blast
  from t3 webGraph_eval c(3) e have
    a3: "fst (Kubernetes_Undeploy exampleWorld emptyCluster webModel exampleOpt) = []" by blast
  from t4 webOpenShiftGraph_eval c(3,4) e have
    a4: "fst (OpenShift_Undeploy exampleWorld emptyCluster webModel exampleOpenShiftOpt) = []"
    by blast
  from webGraph_eval webOpenShiftGraph_eval c(1,2) k o a1 a2 a3 a4 show ?thesis by blast
qed

section \<open>Which live object a removal names\<close>

lemma relabelled_labels:
  "LiveLabels relabelledWeb \<noteq> [Selector \<mapsto> ''web'']"
  "LiveLabels relabelledWeb Selector = Some ''web''"
  "LiveLabels canaryWeb = [Selector \<mapsto> ''web'']"
proof -
  show "LiveLabels relabelledWeb \<noteq> [Selector \<mapsto> ''web'']"
  proof
    assume "LiveLabels relabelledWeb = [Selector \<mapsto> ''web'']"
    then have "LiveLabels relabelledWeb ''tier'' = [Selector \<mapsto> ''web''] ''tier''" by simp
    then show False by (simp add: relabelledWeb_def Selector_def)
  qed
  show "LiveLabels relabelledWeb Selector = Some ''web''"
    by (simp add: relabelledWeb_def Selector_def)
  show "LiveLabels canaryWeb = [Selector \<mapsto> ''web'']"
    by (simp add: canaryWeb_def)
qed

lemma webGraph_undeploy_relabelled:
  "Kubernetes_Undeploy_loop relabelledCluster ''default'' webGraph ([], []) =
     ([],
      [ListCall KService ''default'' [Selector \<mapsto> ''web''],
       ListCall KIngress ''default'' [Selector \<mapsto> ''web''],
       ListCall KDeployment ''default'' [Selector \<mapsto> ''web''],
       ReaperForCall KDeployment,
       StopCall KDeployment ''default'' ''web'' 300])"
  by (simp add: webGraph_def exampleGraph_def relabelledCluster_def undeploy_defs
      relabelled_labels)

lemma webOpenShiftGraph_undeploy_relabelled:
  "OpenShift_Undeploy_loop relabelledCluster ''default'' webOpenShiftGraph ([], []) =
     ([],
      [ListCall KService ''default'' [Selector \<mapsto> ''web''],
       ListCall KRoute ''default'' [Selector \<mapsto> ''web''],
       ListCall KDeploymentConfig ''default'' [Selector \<mapsto> ''web''],
       StopCall KDeploymentConfig ''default'' ''web'' 300,
       ListCall KImageStream ''default'' [Selector \<mapsto> ''web'']])"
  by (simp add: webOpenShiftGraph_def exampleOpenShiftGraph_def relabelledCluster_def
      undeploy_defs relabelled_labels)

text \<open>
  C7 does not hold of either \<open>Undeploy\<close>: the removal that an exactly labelled listed
  object triggers names the object of the graph (\<open>t.Name\<close>), not the listed object. Here
  the list call for the deployment "web" returns "web", whose labels hold the selector
  entry and one more, and "web-canary", whose label set is exactly the expected one; the
  run issues the stop for the name "web", the object whose label set is not equal to the
  expected one.
\<close>

theorem removal_names_the_graph_object:
  "Kubernetes_Transform exampleWorld webModel exampleOpt = Inr webGraph
   \<and> OpenShift_Transform exampleWorld webModel exampleOpenShiftOpt = Inr webOpenShiftGraph
   \<and> fst (Respond relabelledCluster [] (ListCall KDeployment ''default'' [Selector \<mapsto> ''web'']))
       = [relabelledWeb, canaryWeb]
   \<and> fst (Respond relabelledCluster []
            (ListCall KDeploymentConfig ''default'' [Selector \<mapsto> ''web'']))
       = [relabelledWeb, canaryWeb]
   \<and> LiveName relabelledWeb = ''web''
   \<and> LiveLabels relabelledWeb Selector = Some ''web''
   \<and> LiveLabels relabelledWeb \<noteq> [Selector \<mapsto> ''web'']
   \<and> LiveName canaryWeb = ''web-canary''
   \<and> LiveLabels canaryWeb = [Selector \<mapsto> ''web'']
   \<and> Kubernetes_Undeploy exampleWorld relabelledCluster webModel exampleOpt =
       ([],
        [ListCall KService ''default'' [Selector \<mapsto> ''web''],
         ListCall KIngress ''default'' [Selector \<mapsto> ''web''],
         ListCall KDeployment ''default'' [Selector \<mapsto> ''web''],
         ReaperForCall KDeployment,
         StopCall KDeployment ''default'' ''web'' 300])
   \<and> OpenShift_Undeploy exampleWorld relabelledCluster webModel exampleOpenShiftOpt =
       ([],
        [ListCall KService ''default'' [Selector \<mapsto> ''web''],
         ListCall KRoute ''default'' [Selector \<mapsto> ''web''],
         ListCall KDeploymentConfig ''default'' [Selector \<mapsto> ''web''],
         StopCall KDeploymentConfig ''default'' ''web'' 300,
         ListCall KImageStream ''default'' [Selector \<mapsto> ''web'']])"
proof -
  have c: "GetKubernetesClient relabelledCluster = Inr ''default''"
    "getOpenShiftClient relabelledCluster = None"
    by (simp_all add: relabelledCluster_def)
  have n: "IsNamespaceFlag exampleOpt = False" "IsNamespaceFlag exampleOpenShiftOpt = False"
    by (simp_all add: exampleOpt_def exampleOpenShiftOpt_def)
  have l: "fst (Respond relabelledCluster []
                 (ListCall KDeployment ''default'' [Selector \<mapsto> ''web'']))
             = [relabelledWeb, canaryWeb]"
    "fst (Respond relabelledCluster []
            (ListCall KDeploymentConfig ''default'' [Selector \<mapsto> ''web'']))
       = [relabelledWeb, canaryWeb]"
    by (simp_all add: relabelledCluster_def)
  have m: "LiveName relabelledWeb = ''web''" "LiveName canaryWeb = ''web-canary''"
    by (simp_all add: relabelledWeb_def canaryWeb_def)
  have k: "Kubernetes_Undeploy exampleWorld relabelledCluster webModel exampleOpt =
       ([],
        [ListCall KService ''default'' [Selector \<mapsto> ''web''],
         ListCall KIngress ''default'' [Selector \<mapsto> ''web''],
         ListCall KDeployment ''default'' [Selector \<mapsto> ''web''],
         ReaperForCall KDeployment,
         StopCall KDeployment ''default'' ''web'' 300])"
    by (simp add: Kubernetes_Undeploy_def webGraph_eval c n webGraph_undeploy_relabelled)
  have o: "OpenShift_Undeploy exampleWorld relabelledCluster webModel exampleOpenShiftOpt =
       ([],
        [ListCall KService ''default'' [Selector \<mapsto> ''web''],
         ListCall KRoute ''default'' [Selector \<mapsto> ''web''],
         ListCall KDeploymentConfig ''default'' [Selector \<mapsto> ''web''],
         StopCall KDeploymentConfig ''default'' ''web'' 300,
         ListCall KImageStream ''default'' [Selector \<mapsto> ''web'']])"
    by (simp add: OpenShift_Undeploy_def webOpenShiftGraph_eval c n
        webOpenShiftGraph_undeploy_relabelled)
  from webGraph_eval webOpenShiftGraph_eval l m relabelled_labels k o show ?thesis by blast
qed


section \<open>The kinds Kubernetes.Deploy creates\<close>

lemma Kubernetes_Deploy_loop_skip:
  "\<not> Kubernetes_creates v \<Longrightarrow>
   Kubernetes_Deploy_loop cl namespace (v # objects) h
     = Kubernetes_Deploy_loop cl namespace objects h"
  by (cases "KindOf v") (simp_all add: Kubernetes_creates_def)

lemma Kubernetes_Deploy_loop_create:
  "Kubernetes_creates v \<Longrightarrow>
   Kubernetes_Deploy_loop cl namespace (v # objects) h
     = (case snd (Respond cl h (CreateCall v namespace)) of
          Some err \<Rightarrow> (Some err, h @ [CreateCall v namespace])
        | None \<Rightarrow> Kubernetes_Deploy_loop cl namespace objects (h @ [CreateCall v namespace]))"
  by (cases "KindOf v") (simp_all add: Kubernetes_creates_def)

lemma Kubernetes_Deploy_loop_history_skip:
  assumes skipped: "\<not> Kubernetes_creates v"
    and c: "snd (Kubernetes_Deploy_loop cl namespace objects h) = h @ calls"
        "\<forall>c\<in>set calls. \<exists>v\<in>set objects. c = CreateCall v namespace \<and> Kubernetes_creates v"
        "fst (Kubernetes_Deploy_loop cl namespace objects h) = None
           \<longrightarrow> calls = map (\<lambda>v. CreateCall v namespace) (filter Kubernetes_creates objects)"
  shows "\<exists>calls. snd (Kubernetes_Deploy_loop cl namespace (v # objects) h) = h @ calls
     \<and> (\<forall>c\<in>set calls. \<exists>v\<in>set (v # objects). c = CreateCall v namespace \<and> Kubernetes_creates v)
     \<and> (fst (Kubernetes_Deploy_loop cl namespace (v # objects) h) = None \<longrightarrow>
          calls = map (\<lambda>v. CreateCall v namespace) (filter Kubernetes_creates (v # objects)))"
  unfolding Kubernetes_Deploy_loop_skip [OF skipped]
  using c skipped by (intro exI [of _ calls]) simp

lemma Kubernetes_Deploy_loop_history_failed:
  assumes creates: "Kubernetes_creates v"
    and failed: "snd (Respond cl h (CreateCall v namespace)) = Some err"
  shows "\<exists>calls. snd (Kubernetes_Deploy_loop cl namespace (v # objects) h) = h @ calls
     \<and> (\<forall>c\<in>set calls. \<exists>v\<in>set (v # objects). c = CreateCall v namespace \<and> Kubernetes_creates v)
     \<and> (fst (Kubernetes_Deploy_loop cl namespace (v # objects) h) = None \<longrightarrow>
          calls = map (\<lambda>v. CreateCall v namespace) (filter Kubernetes_creates (v # objects)))"
  unfolding Kubernetes_Deploy_loop_create [OF creates, of cl namespace objects h] failed
  using creates by (intro exI [of _ "[CreateCall v namespace]"]) simp

lemma Kubernetes_Deploy_loop_history_created:
  assumes creates: "Kubernetes_creates v"
    and created: "snd (Respond cl h (CreateCall v namespace)) = None"
    and c: "snd (Kubernetes_Deploy_loop cl namespace objects (h @ [CreateCall v namespace]))
              = (h @ [CreateCall v namespace]) @ calls"
          "\<forall>c\<in>set calls. \<exists>v\<in>set objects. c = CreateCall v namespace \<and> Kubernetes_creates v"
          "fst (Kubernetes_Deploy_loop cl namespace objects (h @ [CreateCall v namespace])) = None
             \<longrightarrow> calls = map (\<lambda>v. CreateCall v namespace) (filter Kubernetes_creates objects)"
  shows "\<exists>calls. snd (Kubernetes_Deploy_loop cl namespace (v # objects) h) = h @ calls
     \<and> (\<forall>c\<in>set calls. \<exists>v\<in>set (v # objects). c = CreateCall v namespace \<and> Kubernetes_creates v)
     \<and> (fst (Kubernetes_Deploy_loop cl namespace (v # objects) h) = None \<longrightarrow>
          calls = map (\<lambda>v. CreateCall v namespace) (filter Kubernetes_creates (v # objects)))"
  unfolding Kubernetes_Deploy_loop_create [OF creates, of cl namespace objects h] created
  using c creates by (intro exI [of _ "CreateCall v namespace # calls"]) simp

lemma Kubernetes_Deploy_loop_history:
  "\<exists>calls. snd (Kubernetes_Deploy_loop cl namespace objects h) = h @ calls
     \<and> (\<forall>c\<in>set calls. \<exists>v\<in>set objects. c = CreateCall v namespace \<and> Kubernetes_creates v)
     \<and> (fst (Kubernetes_Deploy_loop cl namespace objects h) = None \<longrightarrow>
          calls = map (\<lambda>v. CreateCall v namespace) (filter Kubernetes_creates objects))"
proof (induction objects arbitrary: h)
  case Nil
  show ?case by (intro exI [of _ "[]"]) simp
next
  case (Cons v objects)
  show ?case
  proof (cases "Kubernetes_creates v")
    case False
    from Cons.IH [of h] show ?thesis
      by (elim exE conjE) (rule Kubernetes_Deploy_loop_history_skip [OF False])
  next
    case True
    show ?thesis
    proof (cases "snd (Respond cl h (CreateCall v namespace))")
      case (Some err)
      with True show ?thesis by (rule Kubernetes_Deploy_loop_history_failed)
    next
      case None
      from Cons.IH [of "h @ [CreateCall v namespace]"] show ?thesis
        by (elim exE conjE) (rule Kubernetes_Deploy_loop_history_created [OF True None])
    qed
  qed
qed


text \<open>
  C10: the loop of \<open>Kubernetes.Deploy\<close> makes create calls only for objects of the graph
  that are a Deployment, Service, PersistentVolumeClaim, Ingress or Pod, and when no call
  fails it makes exactly one for each of those, in graph order. A ReplicationController
  or DaemonSet in the graph is passed over: the loop goes on as if it were not there, with
  no call and no error. \<open>CreateKubernetesObjects\<close> builds these two kinds when the options
  ask for them.
\<close>

theorem deploy_skips_rc_and_daemonset:
  "(\<exists>calls. snd (Kubernetes_Deploy_loop cl namespace objects h) = h @ calls
      \<and> (\<forall>c\<in>set calls. \<exists>v\<in>set objects. c = CreateCall v namespace
             \<and> (KindOf v = KDeployment \<or> KindOf v = KService
                \<or> KindOf v = KPersistentVolumeClaim \<or> KindOf v = KIngress \<or> KindOf v = KPod))
      \<and> (fst (Kubernetes_Deploy_loop cl namespace objects h) = None \<longrightarrow>
           calls = map (\<lambda>v. CreateCall v namespace) (filter Kubernetes_creates objects)))
   \<and> (KindOf v = KReplicationController \<or> KindOf v = KDaemonSet \<longrightarrow>
        Kubernetes_Deploy_loop cl namespace (v # objects) h
          = Kubernetes_Deploy_loop cl namespace objects h)
   \<and> (CreateRC opt \<longrightarrow>
        (\<exists>obj\<in>set (CreateKubernetesObjects name service opt).
           KindOf obj = KReplicationController))
   \<and> (CreateDS opt \<longrightarrow>
        (\<exists>obj\<in>set (CreateKubernetesObjects name service opt). KindOf obj = KDaemonSet))"
proof (intro conjI impI)
  from Kubernetes_Deploy_loop_history [of cl namespace objects h]
  show "\<exists>calls. snd (Kubernetes_Deploy_loop cl namespace objects h) = h @ calls
      \<and> (\<forall>c\<in>set calls. \<exists>v\<in>set objects. c = CreateCall v namespace
             \<and> (KindOf v = KDeployment \<or> KindOf v = KService
                \<or> KindOf v = KPersistentVolumeClaim \<or> KindOf v = KIngress \<or> KindOf v = KPod))
      \<and> (fst (Kubernetes_Deploy_loop cl namespace objects h) = None \<longrightarrow>
           calls = map (\<lambda>v. CreateCall v namespace) (filter Kubernetes_creates objects))"
    unfolding Kubernetes_creates_def .
next
  assume "KindOf v = KReplicationController \<or> KindOf v = KDaemonSet"
  then have "\<not> Kubernetes_creates v" by (auto simp: Kubernetes_creates_def)
  then show "Kubernetes_Deploy_loop cl namespace (v # objects) h
          = Kubernetes_Deploy_loop cl namespace objects h"
    by (rule Kubernetes_Deploy_loop_skip)
next
  assume "CreateRC opt"
  then show "\<exists>obj\<in>set (CreateKubernetesObjects name service opt).
           KindOf obj = KReplicationController"
    by (auto simp: CreateKubernetesObjects_def Let_def InitRC_def)
next
  assume "CreateDS opt"
  then show "\<exists>obj\<in>set (CreateKubernetesObjects name service opt). KindOf obj = KDaemonSet"
    by (auto simp: CreateKubernetesObjects_def Let_def InitDS_def)
qed


lemma rcGraph_eval: "Kubernetes_Transform exampleWorld webModel rcOpt = Inr rcGraph"
proof -
  have "Kubernetes_service exampleWorld rcOpt ''web'' exampleWeb =
     Inr [rcGraph ! 2, rcGraph ! 3, rcGraph ! 0, rcGraph ! 1]"
    by (simp add: rcOpt_def exampleOpt_def exampleWeb_def zero_ServiceConfig_def service_defs
        rcGraph_def exampleGraph_def)
  then have "Kubernetes_loop exampleWorld rcOpt webModel [] (SortedKeys webModel)
          = Inr [rcGraph ! 2, rcGraph ! 3, rcGraph ! 0, rcGraph ! 1]"
    by (simp add: webModel_keys webModel_lookup)
  then show ?thesis
    by (simp add: Kubernetes_Transform_def rcGraph_def exampleGraph_def SortServicesFirst_def
        isExposure_def)
qed

theorem deploy_skips_rc_and_daemonset_witness:
  "Kubernetes_Transform exampleWorld webModel rcOpt = Inr rcGraph
   \<and> map KindOf rcGraph = [KService, KIngress, KDaemonSet, KReplicationController]
   \<and> Kubernetes_Deploy exampleWorld emptyCluster webModel rcOpt =
       (None, [CreateCall (rcGraph ! 0) ''default'', CreateCall (rcGraph ! 1) ''default''])
   \<and> Kubernetes_Deploy_loop emptyCluster ''default'' [rcGraph ! 2, rcGraph ! 3] []
       = Kubernetes_Deploy_loop emptyCluster ''default'' [] []
   \<and> (\<exists>calls. snd (Kubernetes_Deploy_loop emptyCluster ''default'' rcGraph []) = [] @ calls
         \<and> calls = map (\<lambda>v. CreateCall v ''default'') (filter Kubernetes_creates rcGraph))"
proof -
  have kinds: "map KindOf rcGraph = [KService, KIngress, KDaemonSet, KReplicationController]"
    by (simp add: rcGraph_def exampleGraph_def)
  have c: "GetKubernetesClient emptyCluster = Inr ''default''"
    by (simp add: emptyCluster_def)
  have n: "IsNamespaceFlag rcOpt = False" by (simp add: rcOpt_def exampleOpt_def)
  have loop: "Kubernetes_Deploy_loop emptyCluster ''default'' rcGraph [] =
       (None, [CreateCall (rcGraph ! 0) ''default'', CreateCall (rcGraph ! 1) ''default''])"
    by (simp add: rcGraph_def exampleGraph_def emptyCluster_def)
  then have d: "Kubernetes_Deploy exampleWorld emptyCluster webModel rcOpt =
       (None, [CreateCall (rcGraph ! 0) ''default'', CreateCall (rcGraph ! 1) ''default''])"
    by (simp add: Kubernetes_Deploy_def rcGraph_eval c n)
  have k2: "KindOf (rcGraph ! 2) = KReplicationController \<or> KindOf (rcGraph ! 2) = KDaemonSet"
    and k3: "KindOf (rcGraph ! 3) = KReplicationController \<or> KindOf (rcGraph ! 3) = KDaemonSet"
    by (simp_all add: rcGraph_def)
  note s3 = deploy_skips_rc_and_daemonset [of emptyCluster "''default''" "[]" "[]" "rcGraph ! 3",
      THEN conjunct2, THEN conjunct1, rule_format, OF k3]
  note s2 = deploy_skips_rc_and_daemonset [of emptyCluster "''default''" "[rcGraph ! 3]" "[]"
      "rcGraph ! 2", THEN conjunct2, THEN conjunct1, rule_format, OF k2]
  from s2 s3 have skip: "Kubernetes_Deploy_loop emptyCluster ''default'' [rcGraph ! 2, rcGraph ! 3] []
       = Kubernetes_Deploy_loop emptyCluster ''default'' [] []" by simp
  from deploy_skips_rc_and_daemonset [of emptyCluster "''default''" rcGraph "[]", THEN conjunct1]
    loop
  have h: "\<exists>calls. snd (Kubernetes_Deploy_loop emptyCluster ''default'' rcGraph []) = [] @ calls
         \<and> calls = map (\<lambda>v. CreateCall v ''default'') (filter Kubernetes_creates rcGraph)"
    by auto
  from rcGraph_eval kinds d skip h show ?thesis by blast
qed

end
